theory Spec2Isabelle
  imports Main "HOL-Library.Word" "HOL-Library.Signed_Division"
begin

unbundle bit_operations_syntax

section \<open>Common.h: error codes, device types, sizes\<close>

text \<open>
  The controller firmware of the stage driver (directory
  \<^verbatim>\<open>Software/Pico/Controller/StageDriverController\<close>) is embedded function by
  function. A C \<^verbatim>\<open>int32_t\<close> is a 32-bit word read in two's complement
  (\<open><s\<close>, \<open>\<le>s\<close>, \<open>sint\<close>), so that arithmetic wraps around. The axis number
  (\<^verbatim>\<open>int8_t board\<close>) and the \<^verbatim>\<open>int8_t\<close> flags are integers: the code only
  compares and stores them. An array indexed by the axis number is a function of the index;
  the cells \<open>0..3\<close> are the array of the source.
\<close>

type_synonym int32 = "32 word"
type_synonym uint8 = "8 word"

datatype ErrorType = ERR_None | ERR_Serial | ERR_Motor | ERR_TMC | ERR_Parameter | ERR_Remote

datatype MotorType = MOTOR_NONE | MOTOR_SIM | MOTOR_TMC

datatype AxisType = AXIS_UNDEF | AXIS_X | AXIS_Y | AXIS_Z | AXIS_AUX

text \<open>The numeric value of an error code, as \<^verbatim>\<open>ReportErrorCode\<close> prints it.\<close>

fun ErrorCode :: "ErrorType \<Rightarrow> int" where
  "ErrorCode ERR_None = 0"
| "ErrorCode ERR_Serial = -1"
| "ErrorCode ERR_Motor = -2"
| "ErrorCode ERR_TMC = -3"
| "ErrorCode ERR_Parameter = -4"
| "ErrorCode ERR_Remote = -5"

definition MAXNUMMOTORS :: int where
  "MAXNUMMOTORS = 4"

definition MAXERRORSTRINGSIZE :: nat where
  "MAXERRORSTRINGSIZE = 200"

definition MOTORS_NUM_PARAMS :: int where
  "MOTORS_NUM_PARAMS = 34"

definition MOTORS_NUM_STATUS :: int where
  "MOTORS_NUM_STATUS = 8"

definition REMOTE_NUM_PARAMS :: int where
  "REMOTE_NUM_PARAMS = 5"

definition MOTORS_CHECK_ERROR_INTERVAL_MS :: int32 where
  "MOTORS_CHECK_ERROR_INTERVAL_MS = 50"

definition MOTORS_CHECK_STATUS_INTERVAL_MS :: int32 where
  "MOTORS_CHECK_STATUS_INTERVAL_MS = 10"

definition REMOTE_RECEIVE_INTERVAL_MS :: int32 where
  "REMOTE_RECEIVE_INTERVAL_MS = 10"

definition SERIAL_CHECK_INTERVAL_MS :: int32 where
  "SERIAL_CHECK_INTERVAL_MS = 20"

definition SERIAL_TERMCHAR :: char where
  "SERIAL_TERMCHAR = CHR 0x0A"

section \<open>The C library functions the firmware calls\<close>

text \<open>\<^verbatim>\<open>abs\<close> on an \<^verbatim>\<open>int\<close>: the negation wraps at \<^verbatim>\<open>INT32_MIN\<close>.\<close>

definition abs32 :: "int32 \<Rightarrow> int32" where
  "abs32 x = (if x <s 0 then - x else x)"

text \<open>\<^verbatim>\<open>strncmp(a, b, n) == 0\<close> on strings without an embedded NUL.\<close>

definition strncmp0 :: "string \<Rightarrow> string \<Rightarrow> nat \<Rightarrow> bool" where
  "strncmp0 a b n = (take n a = take n b)"

text \<open>
  \<^verbatim>\<open>snprintf(buf, size, ...)\<close> keeps at most \<open>size - 1\<close> characters of the
  formatted text.
\<close>

definition snprintf :: "nat \<Rightarrow> string \<Rightarrow> string" where
  "snprintf bufsize text = take (bufsize - 1) text"

text \<open>The conversions \<^verbatim>\<open>%d\<close>, \<^verbatim>\<open>%i\<close> and \<^verbatim>\<open>%hhi\<close> of \<^verbatim>\<open>printf\<close>.\<close>

definition digit_char :: "nat \<Rightarrow> char" where
  "digit_char d = char_of (48 + d)"

function show_nat :: "nat \<Rightarrow> string" where
  "show_nat n = (if n < 10 then [digit_char n] else show_nat (n div 10) @ [digit_char (n mod 10)])"
  by pat_completeness auto
termination
  by (relation "measure id") auto

declare show_nat.simps [simp del]

definition show_int :: "int \<Rightarrow> string" where
  "show_int k = (if k < 0 then CHR ''-'' # show_nat (nat (- k)) else show_nat (nat k))"

text \<open>
  A character buffer is the list of its bytes. The C string that starts at its first byte ends
  before the first NUL, or where the bytes written to the buffer end: the firmware writes a NUL
  there.
\<close>

definition cstr :: "string \<Rightarrow> string" where
  "cstr buf = takeWhile (\<lambda>c. c \<noteq> CHR 0x00) buf"

text \<open>
  The conversions of \<^verbatim>\<open>sscanf\<close>. All of them skip white space, take an optional sign and
  then the longest run of digits, and fail when there is no digit. \<^verbatim>\<open>%d\<close> and \<^verbatim>\<open>%u\<close>
  read decimal digits; \<^verbatim>\<open>%i\<close> reads hexadecimal digits after \<^verbatim>\<open>0x\<close>, octal ones after
  \<^verbatim>\<open>0\<close>. The number is converted as \<^verbatim>\<open>strtol\<close> and \<^verbatim>\<open>strtoul\<close> do on a 32-bit
  \<^verbatim>\<open>long\<close>, which clamp a number that is out of range, and is then cut to the size of
  the variable.
\<close>

definition isspace :: "char \<Rightarrow> bool" where
  "isspace c = (c = CHR '' '' \<or> (9 \<le> (of_char c :: nat) \<and> (of_char c :: nat) \<le> 13))"

definition digit_of :: "char \<Rightarrow> nat" where
  "digit_of c =
     (let n = (of_char c :: nat) in
      if 48 \<le> n \<and> n \<le> 57 then n - 48
      else if 97 \<le> n \<and> n \<le> 102 then n - 87
      else if 65 \<le> n \<and> n \<le> 70 then n - 55
      else 36)"

definition number_of :: "nat \<Rightarrow> string \<Rightarrow> nat" where
  "number_of b ds = foldl (\<lambda>a c. b * a + digit_of c) 0 ds"

definition scan_sign :: "string \<Rightarrow> bool \<times> string" where
  "scan_sign str =
     (case str of
        [] \<Rightarrow> (False, [])
      | c # r \<Rightarrow> if c = CHR ''-'' then (True, r) else if c = CHR ''+'' then (False, r)
                 else (False, str))"

definition scan_digits :: "nat \<Rightarrow> string \<Rightarrow> (nat \<times> string) option" where
  "scan_digits b str =
     (let ds = takeWhile (\<lambda>c. digit_of c < b) str in
      if ds = [] then None else Some (number_of b ds, drop (length ds) str))"

definition scan_magnitude :: "bool \<Rightarrow> string \<Rightarrow> (nat \<times> string) option" where
  "scan_magnitude any_base str =
     (if any_base \<and> take 1 str = ''0'' \<and> (take 1 (drop 1 str) = ''x'' \<or> take 1 (drop 1 str) = ''X'')
         \<and> scan_digits 16 (drop 2 str) \<noteq> None
        then scan_digits 16 (drop 2 str)
      else if any_base \<and> take 1 str = ''0'' then scan_digits 8 str
      else scan_digits 10 str)"

definition strtol_value :: "bool \<Rightarrow> nat \<Rightarrow> int" where
  "strtol_value neg m = (if neg then max (- (2 ^ 31)) (- int m) else min (2 ^ 31 - 1) (int m))"

definition strtoul_value :: "bool \<Rightarrow> nat \<Rightarrow> int" where
  "strtoul_value neg m = (if 2 ^ 32 \<le> m then 2 ^ 32 - 1 else if neg then - int m else int m)"

definition scan_number ::
    "bool \<Rightarrow> (bool \<Rightarrow> nat \<Rightarrow> int) \<Rightarrow> string \<Rightarrow> (int \<times> string) option" where
  "scan_number any_base conv str =
     (case scan_sign (dropWhile isspace str) of
        (neg, r) \<Rightarrow>
          (case scan_magnitude any_base r of
             None \<Rightarrow> None
           | Some (m, r') \<Rightarrow> Some (conv neg m, r')))"

definition scan_d :: "string \<Rightarrow> (int32 \<times> string) option" where
  "scan_d str = map_option (\<lambda>(k, r). (word_of_int k, r)) (scan_number False strtol_value str)"

definition scan_i :: "string \<Rightarrow> (int32 \<times> string) option" where
  "scan_i str = map_option (\<lambda>(k, r). (word_of_int k, r)) (scan_number True strtol_value str)"

definition scan_hhd :: "string \<Rightarrow> (int \<times> string) option" where
  "scan_hhd str =
     map_option (\<lambda>(k, r). (sint (word_of_int k :: 8 word), r)) (scan_number False strtol_value str)"

definition scan_hhi :: "string \<Rightarrow> (int \<times> string) option" where
  "scan_hhi str =
     map_option (\<lambda>(k, r). (sint (word_of_int k :: 8 word), r)) (scan_number True strtol_value str)"

definition scan_hhu :: "string \<Rightarrow> (uint8 \<times> string) option" where
  "scan_hhu str = map_option (\<lambda>(k, r). (word_of_int k, r)) (scan_number False strtoul_value str)"

text \<open>
  \<^verbatim>\<open>sscanf(str, "<prefix>%hhi")\<close> and \<^verbatim>\<open>sscanf(str, "<prefix>%hhi<sep>%d")\<close>, with the
  first conversion a parameter: \<open>None\<close> when the call does not assign all its variables,
  which is all the firmware asks of its result.
\<close>

definition sscanf_board ::
    "string \<Rightarrow> (string \<Rightarrow> (int \<times> string) option) \<Rightarrow> string \<Rightarrow> int option" where
  "sscanf_board prefix conv str =
     (if take (length prefix) str \<noteq> prefix then None
      else map_option fst (conv (drop (length prefix) str)))"

definition sscanf_board_value ::
    "string \<Rightarrow> (string \<Rightarrow> (int \<times> string) option) \<Rightarrow> char \<Rightarrow> string \<Rightarrow> (int \<times> int32) option" where
  "sscanf_board_value prefix conv sep str =
     (if take (length prefix) str \<noteq> prefix then None
      else case conv (drop (length prefix) str) of
             None \<Rightarrow> None
           | Some (board, r) \<Rightarrow>
               (if take 1 r \<noteq> [sep] then None
                else map_option (\<lambda>(v, _). (board, v)) (scan_d (drop 1 r))))"

text \<open>
  \<^verbatim>\<open>Stream::readBytesUntil\<close> of the Arduino core, on the bytes that have arrived: it takes
  bytes up to the terminator, which it swallows, and at most \<open>n\<close> of them. It returns what
  it has stored and what is left in the receive buffer. No byte arrives during the call.
\<close>

definition readBytesUntil :: "char \<Rightarrow> nat \<Rightarrow> string \<Rightarrow> string \<times> string" where
  "readBytesUntil term n rx =
     (let d = takeWhile (\<lambda>c. c \<noteq> term) (take n rx) in
      (d, if length d < length (take n rx) then drop (length d + 1) rx else drop (length d) rx))"

text \<open>\<^verbatim>\<open>strtok_r\<close> called until it returns \<^verbatim>\<open>NULL\<close>: the non-empty pieces between separators.\<close>

fun split_on :: "char \<Rightarrow> string \<Rightarrow> string \<Rightarrow> string list" where
  "split_on sep acc [] = [rev acc]"
| "split_on sep acc (c # cs) =
     (if c = sep then rev acc # split_on sep [] cs else split_on sep (c # acc) cs)"

definition strtok_all :: "char \<Rightarrow> string \<Rightarrow> string list" where
  "strtok_all sep str = filter (\<lambda>t. t \<noteq> []) (split_on sep [] str)"

section \<open>Parameters.h: the parameter store\<close>

definition motParamsIDList :: "string list" where
  "motParamsIDList =
    [''CSCA'', ''CRAN'', ''CRUN'', ''CHOL'',
     ''MMIC'', ''MINV'', ''MTOF'', ''MSGE'', ''MSGT'', ''MTCT'',
     ''HMOD'', ''HDIR'', ''HVEL'', ''HSST'', ''HNEV'',
     ''RSEV'', ''RMXV'', ''RSEA'', ''RMXA'',
     ''ECON'', ''EDEV'', ''ETOL'', ''EMAX'', ''ERST'',
     ''SLEN'', ''SREN'', ''SLPO'', ''SRPO'', ''SSWP'',
     ''LENC'', ''LLEN'', ''LREN'', ''LLPS'', ''LRPS'']"

definition remoteIDList :: "string list" where
  "remoteIDList = [''ENAB'', ''JDIR'', ''JMAX'', ''EDIR'', ''ESTP'']"

record HWParamStruct =
  motorType :: "int \<Rightarrow> MotorType"
  DRIVER_CS :: "int \<Rightarrow> int"
  axisType :: "int \<Rightarrow> AxisType"

record Parameters =
  params_errorMsg :: string
  params_errorFlag :: int
  hwParameters :: HWParamStruct
  motorParamArr :: "int \<Rightarrow> int \<Rightarrow> int32"
  remoteParamArr :: "int \<Rightarrow> int \<Rightarrow> int32"

definition Parameters_SetErrorMsg :: "string \<Rightarrow> Parameters \<Rightarrow> Parameters" where
  "Parameters_SetErrorMsg msg p =
     (if params_errorFlag p \<noteq> 0 then p
      else p\<lparr>params_errorFlag := 1, params_errorMsg := snprintf MAXERRORSTRINGSIZE msg\<rparr>)"

definition IsValidMotor :: "int \<Rightarrow> Parameters \<Rightarrow> bool \<times> Parameters" where
  "IsValidMotor board p =
     (if board < 0 \<or> board \<ge> MAXNUMMOTORS
      then (False, Parameters_SetErrorMsg ''Invalid board number'' p)
      else (True, p))"

definition IsActiveMotor :: "int \<Rightarrow> bool \<Rightarrow> Parameters \<Rightarrow> bool \<times> Parameters" where
  "IsActiveMotor board raiseError p =
     (if board < 0 \<or> board \<ge> MAXNUMMOTORS \<or> motorType (hwParameters p) board = MOTOR_NONE
      then (False, if raiseError then Parameters_SetErrorMsg ''Inactive board number'' p else p)
      else (True, p))"

definition SetDeviceType :: "int \<Rightarrow> int32 \<Rightarrow> Parameters \<Rightarrow> ErrorType \<times> Parameters" where
  "SetDeviceType board v p =
     (case IsValidMotor board p of
        (False, p1) \<Rightarrow> (ERR_Parameter, p1)
      | (True, p1) \<Rightarrow>
          (let hwp = hwParameters p1;
               setType = (\<lambda>t. (ERR_None,
                  p1\<lparr>hwParameters := hwp\<lparr>motorType := (motorType hwp)(board := t)\<rparr>\<rparr>))
           in if v = 0 then setType MOTOR_NONE
              else if v = 1 then setType MOTOR_SIM
              else if v = 2 then setType MOTOR_TMC
              else (ERR_Parameter, Parameters_SetErrorMsg ''Invalid device type (0..2)'' p1)))"

text \<open>
  \<^verbatim>\<open>SetMotorParams\<close> and \<^verbatim>\<open>GetMotorParams\<close>: the axis number is checked,
  the parameter index and the value are not. The value read is an out-parameter, written on
  success only.
\<close>

definition SetMotorParams :: "int \<Rightarrow> int \<Rightarrow> int32 \<Rightarrow> Parameters \<Rightarrow> ErrorType \<times> Parameters" where
  "SetMotorParams board index v p =
     (case IsValidMotor board p of
        (False, p1) \<Rightarrow> (ERR_Parameter, p1)
      | (True, p1) \<Rightarrow>
          (ERR_None,
           p1\<lparr>motorParamArr := (motorParamArr p1)(board := (motorParamArr p1 board)(index := v))\<rparr>))"

definition GetMotorParams :: "int \<Rightarrow> int \<Rightarrow> int32 \<Rightarrow> Parameters \<Rightarrow> ErrorType \<times> int32 \<times> Parameters" where
  "GetMotorParams board index value0 p =
     (case IsValidMotor board p of
        (False, p1) \<Rightarrow> (ERR_Parameter, value0, p1)
      | (True, p1) \<Rightarrow> (ERR_None, motorParamArr p1 board index, p1))"

definition SetRemoteParams :: "int \<Rightarrow> int \<Rightarrow> int32 \<Rightarrow> Parameters \<Rightarrow> ErrorType \<times> Parameters" where
  "SetRemoteParams board index v p =
     (if strncmp0 (remoteIDList ! nat index) ''ENAB'' 4 \<and> board = -1
      then (ERR_None,
            p\<lparr>remoteParamArr := (\<lambda>z. if 0 \<le> z \<and> z < MAXNUMMOTORS
                                       then (remoteParamArr p z)(index := v)
                                       else remoteParamArr p z)\<rparr>)
      else (case IsValidMotor board p of
              (False, p1) \<Rightarrow> (ERR_Parameter, p1)
            | (True, p1) \<Rightarrow>
                (ERR_None,
                 p1\<lparr>remoteParamArr :=
                      (remoteParamArr p1)(board := (remoteParamArr p1 board)(index := v))\<rparr>)))"

definition GetRemoteParams :: "int \<Rightarrow> int \<Rightarrow> int32 \<Rightarrow> Parameters \<Rightarrow> ErrorType \<times> int32 \<times> Parameters" where
  "GetRemoteParams board index value0 p =
     (case IsValidMotor board p of
        (False, p1) \<Rightarrow> (ERR_Parameter, value0, p1)
      | (True, p1) \<Rightarrow> (ERR_None, remoteParamArr p1 board index, p1))"

section \<open>Motors.h, TMC.h: the state of the motion layer\<close>

text \<open>
  The stepper driver chip and the register-level library that reaches it
  (\<^verbatim>\<open>tmc5240_readRegister\<close>, \<^verbatim>\<open>tmc5240_writeRegister\<close>,
  \<^verbatim>\<open>tmc5240_fieldRead\<close>, \<^verbatim>\<open>tmc5240_fieldWrite\<close>) are not part of the
  repository. The chip of an axis is a store with one cell for each register and one for each
  named field the firmware touches: a write stores, a read returns what the cell holds. What the
  chip does by itself (moving, raising and clearing flags) happens between two calls of the
  firmware.
\<close>

datatype (plugins only: code) tmc_reg =
    TMC5240_GSTAT | TMC5240_DRVSTATUS | TMC5240_RAMPSTAT | TMC5240_ENC_STATUS
  | TMC5240_XACTUAL | TMC5240_XTARGET | TMC5240_XENC | TMC5240_XLATCH
  | TMC5240_VMAX | TMC5240_AMAX | TMC5240_DMAX

datatype (plugins only: code) tmc_field =
    TMC5240_GLOBAL_SCALER_FIELD | TMC5240_CURRENT_RANGE_FIELD | TMC5240_IRUN_FIELD
  | TMC5240_IHOLD_FIELD | TMC5240_MRES_FIELD | TMC5240_SHAFT_FIELD | TMC5240_TOFF_FIELD
  | TMC5240_SG_STOP_FIELD | TMC5240_SGT_FIELD | TMC5240_TCOOLTHRS_FIELD
  | TMC5240_AMAX_FIELD | TMC5240_DMAX_FIELD
  | TMC5240_ENC_SEL_DECIMAL_FIELD | TMC5240_ENC_CONST_FIELD | TMC5240_ENC_DEVIATION_FIELD
  | TMC5240_STOP_L_ENABLE_FIELD | TMC5240_STOP_R_ENABLE_FIELD
  | TMC5240_POL_STOP_L_FIELD | TMC5240_POL_STOP_R_FIELD | TMC5240_SWAP_LR_FIELD
  | TMC5240_VIRTUAL_STOP_ENC_FIELD | TMC5240_EN_VIRTUAL_STOP_L_FIELD
  | TMC5240_EN_VIRTUAL_STOP_R_FIELD | TMC5240_VIRTUAL_STOP_L_FIELD
  | TMC5240_VIRTUAL_STOP_R_FIELD | TMC5240_OVERTEMPPREWARNING_VTH_FIELD
  | TMC5240_RAMPMODE_FIELD | TMC5240_EVENT_POS_REACHED_FIELD
  | TMC5240_STATUS_LATCH_L_FIELD | TMC5240_STATUS_LATCH_R_FIELD
  | TMC5240_IGNORE_AB_FIELD | TMC5240_CLR_CONT_FIELD | TMC5240_POS_NEG_EDGE_FIELD
  | TMC5240_N_EVENT_FIELD | TMC5240_EN_SOFTSTOP_FIELD
  | TMC5240_LATCH_L_ACTIVE_FIELD | TMC5240_LATCH_R_ACTIVE_FIELD | TMC5240_LATCH_X_ACT_FIELD
  | TMC5240_STST_FIELD | TMC5240_POSITION_REACHED_FIELD | TMC5240_DEVIATION_WARN_FIELD

record TMC5240 =
  regs :: "tmc_reg \<Rightarrow> int32"
  flds :: "tmc_field \<Rightarrow> int32"

text \<open>
  The constants of the chip's header (\<^verbatim>\<open>TMC5240_HW_Abstraction.h\<close>, not in the
  repository) are parameters of the model, together with the values the firmware can read
  from a local variable it never wrote: \<open>junk_msg\<close> is the content of such a message
  buffer, \<open>junk32\<close> and \<open>junk8\<close> of such an integer.
\<close>

record env =
  TMC5240_RESET_MASK :: int32
  TMC5240_UV_CP_MASK :: int32
  TMC5240_REGISTER_RESET_MASK :: int32
  TMC5240_VM_UVLO_MASK :: int32
  TMC5240_DRV_ERR_MASK :: int32
  TMC5240_S2VSA_MASK :: int32
  TMC5240_S2VSB_MASK :: int32
  TMC5240_S2GA_MASK :: int32
  TMC5240_S2GB_MASK :: int32
  TMC5240_OLA_MASK :: int32
  TMC5240_OLB_MASK :: int32
  TMC5240_STALLGUARD_MASK :: int32
  TMC5240_OTPW_MASK :: int32
  TMC5240_OT_MASK :: int32
  TMC5240_EVENT_POS_REACHED_MASK :: int32
  TMC5240_POSITION_REACHED_MASK :: int32
  TMC5240_EVENT_STOP_SG_MASK :: int32
  TMC5240_STATUS_LATCH_L_MASK :: int32
  TMC5240_STATUS_LATCH_R_MASK :: int32
  TMC5240_EVENT_STOP_L_MASK :: int32
  TMC5240_EVENT_STOP_R_MASK :: int32
  TMC5240_STATUS_STOP_L_MASK :: int32
  TMC5240_STATUS_STOP_R_MASK :: int32
  TMC5240_STATUS_VIRTUAL_STOP_L_MASK :: int32
  TMC5240_STATUS_VIRTUAL_STOP_R_MASK :: int32
  TMC5240_MODE_POSITION :: int32
  TMC5240_MODE_VELPOS :: int32
  TMC5240_MODE_VELNEG :: int32
  junk_msg :: string
  junk32 :: int32
  junk8 :: uint8

record TMCSimStatus =
  xact :: int32
  xtar :: int32
  xenc :: int32
  xmin :: int32
  xmax :: int32
  vel :: int32
  lastVelCalcTime :: int32

record TMC =
  encConst :: int32
  maxIterations :: int32
  tolerance :: int32
  resetXafterCL :: int32
  simValues :: TMCSimStatus

record Motors =
  errorMsgGeneral :: string
  errorMsgBoard :: "int \<Rightarrow> string"
  errorFlag :: int
  errorFlagGeneral :: int
  errorFlagBoard :: "int \<Rightarrow> int"
  isMotorEnabled :: "int \<Rightarrow> int"
  isRemoteControlled :: "int \<Rightarrow> int"
  isMotorMoving :: "int \<Rightarrow> int"
  isMotorHoming :: "int \<Rightarrow> int"
  isMotorSearching :: "int \<Rightarrow> int"
  targetPosition :: "int \<Rightarrow> int32"
  setPosition :: "int \<Rightarrow> int32"
  iterationsLeft :: "int \<Rightarrow> int32"

text \<open>
  The members and static variables of \<^verbatim>\<open>SerialComm\<close> and \<^verbatim>\<open>RemoteComm\<close>.
  \<open>serial_out\<close> is what has been printed on the serial port, \<open>uart_tx\<close> what has been
  written to the remote unit, \<open>serial_in\<close> and \<open>uart_rx\<close> what has arrived from the
  host and from the remote unit and is not read yet.
\<close>

record SerialComm =
  serial_errorMsg :: string
  serial_errorFlag :: int
  serial_in :: string
  serial_out :: string
  lastCheckTime :: int32

record RemoteComm =
  remote_errorMsg :: string
  remote_errorFlag :: int
  repeatPosSet :: "int \<Rightarrow> int"
  uart_rx :: string
  uart_tx :: string
  lastReceiveTime :: int32

text \<open>
  The whole controller: the parameter store, the flags of the \<^verbatim>\<open>Motors\<close> object, the
  \<^verbatim>\<open>TMC\<close> objects it allocates (\<open>tmcArr\<close>), the chips on the bus (\<open>hw\<close>), and the
  two static time stamps of \<^verbatim>\<open>Motors::ProcessUpdateChanges\<close>, and the two
  communication objects.
  A \<^verbatim>\<open>TMC\<close> object reaches the parameters of its axis and the flags of \<^verbatim>\<open>Motors\<close>
  through pointers; here it reads and writes them in the state it is given.
\<close>

record sys =
  params :: Parameters
  motors :: Motors
  tmcArr :: "int \<Rightarrow> TMC"
  hw :: "int \<Rightarrow> TMC5240"
  lastErrorCheckTime :: int32
  lastStatusCheckTime :: int32
  serial :: SerialComm
  remote :: RemoteComm

definition allBoards :: "int list" where
  "allBoards = [0, 1, 2, 3]"

text \<open>The parameter checks of \<^verbatim>\<open>Parameters\<close>, on the whole state.\<close>

definition sysIsValidMotor :: "int \<Rightarrow> sys \<Rightarrow> bool \<times> sys" where
  "sysIsValidMotor board s =
     (case IsValidMotor board (params s) of (ok, p1) \<Rightarrow> (ok, s\<lparr>params := p1\<rparr>))"

definition sysIsActiveMotor :: "int \<Rightarrow> bool \<Rightarrow> sys \<Rightarrow> bool \<times> sys" where
  "sysIsActiveMotor board raiseError s =
     (case IsActiveMotor board raiseError (params s) of (ok, p1) \<Rightarrow> (ok, s\<lparr>params := p1\<rparr>))"

text \<open>The test \<^verbatim>\<open>params->IsActiveMotor(z)\<close> without an error message changes nothing.\<close>

definition isActive :: "int \<Rightarrow> sys \<Rightarrow> bool" where
  "isActive board s = fst (IsActiveMotor board False (params s))"

subsection \<open>Motors::SetErrorMsg\<close>

definition Motors_SetErrorMsg :: "string \<Rightarrow> int \<Rightarrow> string \<Rightarrow> sys \<Rightarrow> sys" where
  "Motors_SetErrorMsg source num msg s =
     (let m = motors s in
      if num = -1 then
        (if errorFlagGeneral m \<noteq> 0 then s
         else s\<lparr>motors := m\<lparr>
                errorMsgGeneral := snprintf MAXERRORSTRINGSIZE (source @ '' error: '' @ msg),
                errorFlagGeneral := 1,
                errorFlag := 1\<rparr>\<rparr>)
      else
        (case sysIsValidMotor num s of
           (True, s1) \<Rightarrow>
             (if errorFlagBoard m num \<noteq> 0 then s1
              else s1\<lparr>motors := m\<lparr>
                     errorMsgBoard := (errorMsgBoard m)(num :=
                        snprintf MAXERRORSTRINGSIZE
                          (source @ '' error in board '' @ show_int num @ '': '' @ msg)),
                     errorFlagBoard := (errorFlagBoard m)(num := 1),
                     errorFlag := 1\<rparr>\<rparr>)
         | (False, s1) \<Rightarrow> s1\<lparr>motors := m\<lparr>errorFlag := 1\<rparr>\<rparr>))"

subsection \<open>Motors::SetRemoteEnabled\<close>

definition Motors_SetRemoteEnabled :: "int \<Rightarrow> int \<Rightarrow> sys \<Rightarrow> ErrorType \<times> sys" where
  "Motors_SetRemoteEnabled board state s =
     (if board = -1 then
        (ERR_None,
         fold (\<lambda>z s'. if \<not> isActive z s' then s'
                       else s'\<lparr>motors := (motors s')\<lparr>isRemoteControlled :=
                               (isRemoteControlled (motors s'))(z := state)\<rparr>\<rparr>)
              allBoards s)
      else if \<not> isActive board s then (ERR_None, s)
      else (ERR_None,
            s\<lparr>motors := (motors s)\<lparr>isRemoteControlled :=
                  (isRemoteControlled (motors s))(board := state)\<rparr>\<rparr>))"

section \<open>TMC.cpp: the driver of one axis\<close>

definition MSG_MAXLENGTH :: nat where
  "MSG_MAXLENGTH = 50"

text \<open>Statements executed one after the other.\<close>

definition seq :: "('s \<Rightarrow> 's) list \<Rightarrow> 's \<Rightarrow> 's" where
  "seq fs s = fold (\<lambda>f. f) fs s"

definition tmc5240_readRegister :: "int \<Rightarrow> tmc_reg \<Rightarrow> sys \<Rightarrow> int32" where
  "tmc5240_readRegister board r s = regs (hw s board) r"

definition tmc5240_writeRegister :: "int \<Rightarrow> tmc_reg \<Rightarrow> int32 \<Rightarrow> sys \<Rightarrow> sys" where
  "tmc5240_writeRegister board r v s =
     s\<lparr>hw := (hw s)(board := (hw s board)\<lparr>regs := (regs (hw s board))(r := v)\<rparr>)\<rparr>"

definition tmc5240_fieldRead :: "int \<Rightarrow> tmc_field \<Rightarrow> sys \<Rightarrow> int32" where
  "tmc5240_fieldRead board f s = flds (hw s board) f"

definition tmc5240_fieldWrite :: "int \<Rightarrow> tmc_field \<Rightarrow> int32 \<Rightarrow> sys \<Rightarrow> sys" where
  "tmc5240_fieldWrite board f v s =
     s\<lparr>hw := (hw s)(board := (hw s board)\<lparr>flds := (flds (hw s board))(f := v)\<rparr>)\<rparr>"

text \<open>The members \<^verbatim>\<open>motorParam\<close> and \<^verbatim>\<open>hwParam->motorType[board]\<close> of a \<^verbatim>\<open>TMC\<close> object.\<close>

definition motorParam :: "int \<Rightarrow> sys \<Rightarrow> int \<Rightarrow> int32" where
  "motorParam board s = motorParamArr (params s) board"

definition hwMotorType :: "int \<Rightarrow> sys \<Rightarrow> MotorType" where
  "hwMotorType board s = motorType (hwParameters (params s)) board"

text \<open>Assignments to one cell of the arrays of \<^verbatim>\<open>Motors\<close> and to \<^verbatim>\<open>simValues\<close>.\<close>

definition set_isMotorEnabled :: "int \<Rightarrow> int \<Rightarrow> sys \<Rightarrow> sys" where
  "set_isMotorEnabled board v s =
     s\<lparr>motors := (motors s)\<lparr>isMotorEnabled := (isMotorEnabled (motors s))(board := v)\<rparr>\<rparr>"

definition set_isMotorMoving :: "int \<Rightarrow> int \<Rightarrow> sys \<Rightarrow> sys" where
  "set_isMotorMoving board v s =
     s\<lparr>motors := (motors s)\<lparr>isMotorMoving := (isMotorMoving (motors s))(board := v)\<rparr>\<rparr>"

definition set_isMotorHoming :: "int \<Rightarrow> int \<Rightarrow> sys \<Rightarrow> sys" where
  "set_isMotorHoming board v s =
     s\<lparr>motors := (motors s)\<lparr>isMotorHoming := (isMotorHoming (motors s))(board := v)\<rparr>\<rparr>"

definition set_isMotorSearching :: "int \<Rightarrow> int \<Rightarrow> sys \<Rightarrow> sys" where
  "set_isMotorSearching board v s =
     s\<lparr>motors := (motors s)\<lparr>isMotorSearching := (isMotorSearching (motors s))(board := v)\<rparr>\<rparr>"

definition set_targetPosition :: "int \<Rightarrow> int32 \<Rightarrow> sys \<Rightarrow> sys" where
  "set_targetPosition board v s =
     s\<lparr>motors := (motors s)\<lparr>targetPosition := (targetPosition (motors s))(board := v)\<rparr>\<rparr>"

definition set_setPosition :: "int \<Rightarrow> int32 \<Rightarrow> sys \<Rightarrow> sys" where
  "set_setPosition board v s =
     s\<lparr>motors := (motors s)\<lparr>setPosition := (setPosition (motors s))(board := v)\<rparr>\<rparr>"

definition set_iterationsLeft :: "int \<Rightarrow> int32 \<Rightarrow> sys \<Rightarrow> sys" where
  "set_iterationsLeft board v s =
     s\<lparr>motors := (motors s)\<lparr>iterationsLeft := (iterationsLeft (motors s))(board := v)\<rparr>\<rparr>"

definition upd_tmc :: "int \<Rightarrow> (TMC \<Rightarrow> TMC) \<Rightarrow> sys \<Rightarrow> sys" where
  "upd_tmc board f s = s\<lparr>tmcArr := (tmcArr s)(board := f (tmcArr s board))\<rparr>"

definition upd_sim :: "int \<Rightarrow> (TMCSimStatus \<Rightarrow> TMCSimStatus) \<Rightarrow> sys \<Rightarrow> sys" where
  "upd_sim board f s = upd_tmc board (\<lambda>t. t\<lparr>simValues := f (simValues t)\<rparr>) s"

definition sim :: "int \<Rightarrow> sys \<Rightarrow> TMCSimStatus" where
  "sim board s = simValues (tmcArr s board)"

subsection \<open>Error messages and parameter look-up\<close>

definition TMC_SetErrorMsg :: "int \<Rightarrow> string \<Rightarrow> sys \<Rightarrow> sys" where
  "TMC_SetErrorMsg board msg s = Motors_SetErrorMsg ''TMC'' board msg s"

text \<open>The loop of \<^verbatim>\<open>FindParamIndexVal\<close> over the table of names.\<close>

fun find_name :: "string \<Rightarrow> string list \<Rightarrow> int \<Rightarrow> int option" where
  "find_name name [] idx = None"
| "find_name name (x # xs) idx =
     (if strncmp0 x name 4 then Some idx else find_name name xs (idx + 1))"

text \<open>
  \<^verbatim>\<open>index\<close> and \<^verbatim>\<open>value\<close> are reference parameters: when the name is not in the
  table they keep what the caller's variables held (\<open>index0\<close>, \<open>value0\<close>).
\<close>

definition FindParamIndexVal ::
    "int \<Rightarrow> string \<Rightarrow> int \<Rightarrow> int32 \<Rightarrow> sys \<Rightarrow> ErrorType \<times> int \<times> int32 \<times> sys" where
  "FindParamIndexVal board name index0 value0 s =
     (case find_name name motParamsIDList 0 of
        Some idx \<Rightarrow> (ERR_None, idx, motorParam board s idx, s)
      | None \<Rightarrow>
          (ERR_TMC, index0, value0,
           TMC_SetErrorMsg board
             (snprintf MSG_MAXLENGTH (''Parameter '' @ name @ '' not found'')) s))"

definition IsParamInRange :: "int \<Rightarrow> int \<Rightarrow> int32 \<Rightarrow> int32 \<Rightarrow> sys \<Rightarrow> bool \<times> sys" where
  "IsParamInRange board index mn mx s =
     (let val = motorParam board s index in
      if mn \<le>s val \<and> val \<le>s mx then (True, s)
      else (False,
            TMC_SetErrorMsg board
              (snprintf MSG_MAXLENGTH
                 (''Parameter '' @ motParamsIDList ! nat index @ '' out of range (''
                   @ show_int (sint val) @ '')'')) s))"

definition IsValueInRange :: "int \<Rightarrow> int32 \<Rightarrow> string \<Rightarrow> int32 \<Rightarrow> int32 \<Rightarrow> sys \<Rightarrow> bool \<times> sys" where
  "IsValueInRange board v name mn mx s =
     (if mn \<le>s v \<and> v \<le>s mx then (True, s)
      else (False,
            TMC_SetErrorMsg board
              (snprintf MSG_MAXLENGTH
                 (''Value '' @ name @ '' out of range ('' @ show_int (sint v) @ '')'')) s))"

subsection \<open>TMC::CancelHoming, TMC::SetEnable, TMC::CheckError\<close>

definition CancelHoming :: "env \<Rightarrow> int \<Rightarrow> sys \<Rightarrow> ErrorType \<times> sys" where
  "CancelHoming E board s =
     (if isMotorHoming (motors s) board = 0 then (ERR_None, s)
      else
        (case FindParamIndexVal board ''LLEN'' (sint (junk32 E)) (junk32 E) s of
           (_, index, v, s1) \<Rightarrow>
        (let s2 = tmc5240_fieldWrite board TMC5240_EN_VIRTUAL_STOP_L_FIELD v s1 in
         case FindParamIndexVal board ''LREN'' index v s2 of
           (_, index, v, s3) \<Rightarrow>
         (ERR_None,
          seq [tmc5240_fieldWrite board TMC5240_EN_VIRTUAL_STOP_R_FIELD v,
               tmc5240_fieldWrite board TMC5240_LATCH_L_ACTIVE_FIELD 0,
               tmc5240_fieldWrite board TMC5240_LATCH_R_ACTIVE_FIELD 0,
               tmc5240_fieldWrite board TMC5240_LATCH_X_ACT_FIELD 0,
               tmc5240_fieldWrite board TMC5240_STATUS_LATCH_L_FIELD 1,
               tmc5240_fieldWrite board TMC5240_STATUS_LATCH_R_FIELD 1,
               tmc5240_fieldWrite board TMC5240_N_EVENT_FIELD 1,
               set_isMotorHoming board 0] s3))))"

definition TMC_SetEnable :: "env \<Rightarrow> int \<Rightarrow> int32 \<Rightarrow> sys \<Rightarrow> ErrorType \<times> sys" where
  "TMC_SetEnable E board mode s =
     (if hwMotorType board s = MOTOR_TMC then
        (if mode \<noteq> 0 then
           (case FindParamIndexVal board ''MTOF'' (sint (junk32 E)) (junk32 E) s of
              (_, index, v, s1) \<Rightarrow>
                (ERR_None,
                 seq [tmc5240_fieldWrite board TMC5240_TOFF_FIELD v,
                      set_isMotorEnabled board 1] s1))
         else
           (let s1 = seq [tmc5240_fieldWrite board TMC5240_RAMPMODE_FIELD (TMC5240_MODE_VELPOS E),
                          tmc5240_writeRegister board TMC5240_VMAX 0,
                          tmc5240_fieldWrite board TMC5240_TOFF_FIELD 0,
                          set_isMotorEnabled board 0] s
            in if isMotorHoming (motors s1) board \<noteq> 0 then CancelHoming E board s1
               else (ERR_None, s1)))
      else if hwMotorType board s = MOTOR_SIM then
        (let s1 = set_isMotorEnabled board (if mode \<noteq> 0 then 1 else 0) s
         in (ERR_None, if mode = 0 then upd_sim board (\<lambda>v. v\<lparr>vel := 0\<rparr>) s1 else s1))
      else (ERR_TMC, TMC_SetErrorMsg board ''Motor is defined as MOTOR_NONE'' s))"

definition errorMask :: "env \<Rightarrow> int32" where
  "errorMask E =
     TMC5240_S2VSA_MASK E OR TMC5240_S2VSB_MASK E OR TMC5240_S2GA_MASK E OR TMC5240_S2GB_MASK E
     OR TMC5240_OLA_MASK E OR TMC5240_OLB_MASK E OR TMC5240_STALLGUARD_MASK E
     OR TMC5240_OTPW_MASK E OR TMC5240_OT_MASK E"

text \<open>
  The text \<^verbatim>\<open>CheckError\<close> reports for the value of \<^verbatim>\<open>DRVSTATUS\<close>. The source
  formats it with \<^verbatim>\<open>sprintf\<close> into a buffer of \<open>MSG_MAXLENGTH\<close> characters, which the
  longer texts overrun; the model keeps the whole text.
\<close>

definition drvstatus_msg :: "env \<Rightarrow> int32 \<Rightarrow> string" where
  "drvstatus_msg E v =
     (if v AND TMC5240_S2VSA_MASK E \<noteq> 0
        then ''DRVSTATUS: short to supply indicator phase A error bit set''
      else if v AND TMC5240_S2VSB_MASK E \<noteq> 0
        then ''DRVSTATUS: short to supply indicator phase B error bit set''
      else if v AND TMC5240_S2GA_MASK E \<noteq> 0
        then ''DRVSTATUS: short to ground indicator phase A error bit set''
      else if v AND TMC5240_S2GB_MASK E \<noteq> 0
        then ''DRVSTATUS: short to ground indicator phase B error bit set''
      else if v AND TMC5240_OLA_MASK E \<noteq> 0
        then ''DRVSTATUS: open load indicator phase A error bit set''
      else if v AND TMC5240_OLB_MASK E \<noteq> 0
        then ''DRVSTATUS: open load indicator phase B error bit set''
      else if v AND TMC5240_STALLGUARD_MASK E \<noteq> 0
        then ''DRVSTATUS: StallGuard error bit set''
      else if v AND TMC5240_OT_MASK E \<noteq> 0
        then ''DRVSTATUS: overtemperature flag set''
      else if v AND TMC5240_OTPW_MASK E \<noteq> 0
        then ''DRVSTATUS: overtemperature pre-warning flag set''
      else ''DRVSTATUS error bits: '' @ show_int (sint (v AND errorMask E)))"

definition CheckError :: "env \<Rightarrow> int \<Rightarrow> sys \<Rightarrow> ErrorType \<times> sys" where
  "CheckError E board s =
     (if hwMotorType board s = MOTOR_TMC then
        (let v = tmc5240_readRegister board TMC5240_GSTAT s in
         if v \<noteq> 0 then
           (let s1 = snd (TMC_SetEnable E board 0 s);
                msg =
                  (if v AND TMC5240_RESET_MASK E \<noteq> 0 then ''GSTAT: reset error bit set''
                   else if v AND TMC5240_UV_CP_MASK E \<noteq> 0
                     then ''GSTAT: undervoltage warning bit set''
                   else if v AND TMC5240_REGISTER_RESET_MASK E \<noteq> 0
                     then ''GSTAT: register reset error bit set''
                   else if v AND TMC5240_VM_UVLO_MASK E \<noteq> 0
                     then ''GSTAT: undervoltage since last reset bit set''
                   else if v AND TMC5240_DRV_ERR_MASK E \<noteq> 0 then
                     (let d = tmc5240_readRegister board TMC5240_DRVSTATUS s1 in
                      if d AND errorMask E \<noteq> 0 then drvstatus_msg E d else junk_msg E)
                   else junk_msg E)
            in (ERR_TMC, TMC_SetErrorMsg board msg s1))
         else (ERR_None, s))
      else (ERR_None, s))"

subsection \<open>TMC::MoveAtVel, TMC::MoveToPos, TMC::SetXPos, TMC::GetPos, TMC::GetEnc\<close>

text \<open>
  \<open>now\<close> is the value of \<^verbatim>\<open>millis()\<close> at the call. Where a function ends with
  \<^verbatim>\<open>if (int8_t err=CheckError()) return err; return ERR_None;\<close> its result is the result
  of \<^verbatim>\<open>CheckError\<close>.
\<close>

definition TMC_MoveAtVel :: "env \<Rightarrow> int32 \<Rightarrow> int \<Rightarrow> int32 \<Rightarrow> sys \<Rightarrow> ErrorType \<times> sys" where
  "TMC_MoveAtVel E now board velocity s =
     (case FindParamIndexVal board ''RMXV'' (sint (junk32 E)) (junk32 E) s of
        (_, index, v, s1) \<Rightarrow>
     (case IsValueInRange board velocity ''VEL'' (- v) v s1 of
        (False, s2) \<Rightarrow> (ERR_TMC, s2)
      | (True, s2) \<Rightarrow>
          (if hwMotorType board s2 = MOTOR_TMC then
             (let s3 = seq [tmc5240_fieldWrite board TMC5240_RAMPMODE_FIELD
                              (if 0 <s velocity then TMC5240_MODE_VELPOS E
                               else TMC5240_MODE_VELNEG E),
                            tmc5240_writeRegister board TMC5240_VMAX (abs32 velocity)] s2
              in CheckError E board s3)
           else if hwMotorType board s2 = MOTOR_SIM then
             (ERR_None, upd_sim board (\<lambda>v. v\<lparr>vel := velocity, lastVelCalcTime := now\<rparr>) s2)
           else (ERR_TMC, TMC_SetErrorMsg board ''Motor is defined as MOTOR_NONE'' s2))))"

definition TMC_MoveToPos :: "env \<Rightarrow> int \<Rightarrow> int32 \<Rightarrow> int \<Rightarrow> sys \<Rightarrow> ErrorType \<times> sys" where
  "TMC_MoveToPos E board pos setVel s =
     (if hwMotorType board s = MOTOR_TMC then
        (let s1 = seq [tmc5240_fieldWrite board TMC5240_EVENT_POS_REACHED_FIELD 1,
                       tmc5240_fieldWrite board TMC5240_RAMPMODE_FIELD (TMC5240_MODE_POSITION E)] s;
             s2 = (if setVel \<noteq> 0 then
                     (case FindParamIndexVal board ''RSEV'' (sint (junk32 E)) (junk32 E) s1 of
                        (_, index, v, s') \<Rightarrow> tmc5240_writeRegister board TMC5240_VMAX v s')
                   else s1);
             s3 = tmc5240_writeRegister board TMC5240_XTARGET pos s2
         in CheckError E board s3)
      else if hwMotorType board s = MOTOR_SIM then
        (let pos1 = (if pos <s xmin (sim board s) then xmin (sim board s) else pos);
             pos2 = (if xmax (sim board s) <s pos1 then xmax (sim board s) else pos1)
         in (ERR_None, upd_sim board (\<lambda>v. v\<lparr>vel := 0, xenc := pos2, xact := pos2\<rparr>) s))
      else (ERR_TMC, TMC_SetErrorMsg board ''Motor is defined as MOTOR_NONE'' s))"

definition TMC_SetXPos :: "int \<Rightarrow> int32 \<Rightarrow> sys \<Rightarrow> ErrorType \<times> sys" where
  "TMC_SetXPos board pos s =
     (if hwMotorType board s = MOTOR_TMC then
        (let v = tmc5240_readRegister board TMC5240_VMAX s in
         (ERR_None,
          seq [tmc5240_writeRegister board TMC5240_VMAX 0,
               tmc5240_writeRegister board TMC5240_XTARGET pos,
               tmc5240_writeRegister board TMC5240_XACTUAL pos,
               tmc5240_writeRegister board TMC5240_VMAX v] s))
      else if hwMotorType board s = MOTOR_SIM then
        (ERR_None, upd_sim board (\<lambda>v. v\<lparr>vel := 0, xtar := pos, xact := pos\<rparr>) s)
      else (ERR_None, s))"

text \<open>\<open>pos0\<close> is what the caller's variable holds before the call.\<close>

definition TMC_GetPos :: "int \<Rightarrow> int32 \<Rightarrow> sys \<Rightarrow> ErrorType \<times> int32 \<times> sys" where
  "TMC_GetPos board pos0 s =
     (if hwMotorType board s = MOTOR_TMC
        then (ERR_None, tmc5240_readRegister board TMC5240_XACTUAL s, s)
      else if hwMotorType board s = MOTOR_SIM then (ERR_None, xact (sim board s), s)
      else (ERR_TMC, pos0, TMC_SetErrorMsg board ''Motor is defined as MOTOR_NONE'' s))"

definition TMC_GetEnc :: "int \<Rightarrow> int32 \<Rightarrow> sys \<Rightarrow> ErrorType \<times> int32 \<times> sys" where
  "TMC_GetEnc board pos0 s =
     (if hwMotorType board s = MOTOR_TMC
        then (ERR_None, tmc5240_readRegister board TMC5240_XENC s, s)
      else if hwMotorType board s = MOTOR_SIM then (ERR_None, xact (sim board s), s)
      else (ERR_TMC, pos0, TMC_SetErrorMsg board ''Motor is defined as MOTOR_NONE'' s))"

subsection \<open>TMC::StartHoming and TMC::EndHoming\<close>

text \<open>
  The two blocks of \<^verbatim>\<open>TMC::StartHoming\<close> for a real driver: \<open>StartHoming_latch\<close> is
  the \<^verbatim>\<open>if (searchMode==1) ... else if (searchMode==2) ... else\<close> statement (its first
  component tells whether the function goes on), \<open>StartHoming_run\<close> is everything from
  \<^verbatim>\<open>motors->isMotorHoming[board]=1\<close> to the end.
\<close>

definition StartHoming_latch ::
    "env \<Rightarrow> int \<Rightarrow> int32 \<Rightarrow> int32 \<Rightarrow> int \<Rightarrow> sys \<Rightarrow> bool \<times> int \<times> sys" where
  "StartHoming_latch E board searchMode dir index s =
     (if searchMode = 1 then
        (case FindParamIndexVal board (if dir = 1 then ''SREN'' else ''SLEN'')
                index (junk32 E) s of
           (_, index, v, s1) \<Rightarrow>
             if v \<noteq> 1
               then (False, index,
                     TMC_SetErrorMsg board ''Homing only allowed if switch is enabled'' s1)
             else (True, index,
                   seq [tmc5240_fieldWrite board TMC5240_STATUS_LATCH_L_FIELD 1,
                        tmc5240_fieldWrite board TMC5240_STATUS_LATCH_R_FIELD 1] s1))
      else if searchMode = 2 then
        (case FindParamIndexVal board ''HNEV'' index (junk32 E) s of
           (_, index, indexMode, s1) \<Rightarrow>
             if indexMode <s 0 \<or> 3 <s indexMode
               then (False, index,
                     TMC_SetErrorMsg board ''Invalid index homeing mode (needs 0..3)'' s1)
             else (True, index,
                   seq [tmc5240_fieldWrite board TMC5240_IGNORE_AB_FIELD 1,
                        tmc5240_fieldWrite board TMC5240_CLR_CONT_FIELD 1,
                        tmc5240_fieldWrite board TMC5240_POS_NEG_EDGE_FIELD indexMode,
                        tmc5240_fieldWrite board TMC5240_N_EVENT_FIELD 1] s1))
      else (False, index, TMC_SetErrorMsg board ''Homing disabled or mode not defined'' s))"

definition StartHoming_run ::
    "env \<Rightarrow> int \<Rightarrow> int32 \<Rightarrow> int32 \<Rightarrow> int32 \<Rightarrow> int \<Rightarrow> sys \<Rightarrow> ErrorType \<times> sys" where
  "StartHoming_run E board searchMode dir softStop index s =
     (let s1 = seq [set_isMotorHoming board 1,
                    tmc5240_fieldWrite board TMC5240_EN_SOFTSTOP_FIELD softStop] s;
          s2 = (if dir = -1 then
                  seq [tmc5240_fieldWrite board TMC5240_EN_VIRTUAL_STOP_L_FIELD 0,
                       (if searchMode = 1
                        then tmc5240_fieldWrite board TMC5240_LATCH_L_ACTIVE_FIELD 1
                        else tmc5240_fieldWrite board TMC5240_LATCH_X_ACT_FIELD 1),
                       tmc5240_fieldWrite board TMC5240_RAMPMODE_FIELD
                         (TMC5240_MODE_VELNEG E)] s1
                else if dir = 1 then
                  seq [tmc5240_fieldWrite board TMC5240_EN_VIRTUAL_STOP_R_FIELD 0,
                       (if searchMode = 1
                        then tmc5240_fieldWrite board TMC5240_LATCH_R_ACTIVE_FIELD 1
                        else tmc5240_fieldWrite board TMC5240_LATCH_X_ACT_FIELD 1),
                       tmc5240_fieldWrite board TMC5240_RAMPMODE_FIELD
                         (TMC5240_MODE_VELPOS E)] s1
                else s1)
      in case FindParamIndexVal board ''RMXV'' index (junk32 E) s2 of
           (_, index, velMax, s3) \<Rightarrow>
         case FindParamIndexVal board ''HVEL'' index (junk32 E) s3 of
           (_, index, homeVel, s4) \<Rightarrow>
         case IsValueInRange board homeVel ''HVEL'' 0 velMax s4 of
           (False, s5) \<Rightarrow> (ERR_TMC, s5)
         | (True, s5) \<Rightarrow>
             CheckError E board (tmc5240_writeRegister board TMC5240_VMAX homeVel s5))"

definition TMC_StartHoming :: "env \<Rightarrow> int \<Rightarrow> sys \<Rightarrow> ErrorType \<times> sys" where
  "TMC_StartHoming E board s =
     (if hwMotorType board s = MOTOR_TMC then
        (case FindParamIndexVal board ''HSST'' (sint (junk32 E)) (junk32 E) s of
           (_, index, softStop, s1) \<Rightarrow>
         case IsParamInRange board index 0 1 s1 of
           (False, s2) \<Rightarrow> (ERR_TMC, s2)
         | (True, s2) \<Rightarrow>
         case FindParamIndexVal board ''HMOD'' index (junk32 E) s2 of
           (_, index, searchMode, s3) \<Rightarrow>
         case IsParamInRange board index 0 2 s3 of
           (False, s4) \<Rightarrow> (ERR_TMC, s4)
         | (True, s4) \<Rightarrow>
         if searchMode = 0
           then (ERR_TMC, TMC_SetErrorMsg board ''Homing disabled by config setting'' s4)
         else
         case FindParamIndexVal board ''HDIR'' index (junk32 E) s4 of
           (_, index, dir, s5) \<Rightarrow>
         if abs32 dir \<noteq> 1
           then (ERR_TMC,
                 TMC_SetErrorMsg board ''Homing direction undefined (needs -1 or 1)'' s5)
         else
         case StartHoming_latch E board searchMode dir index s5 of
           (False, index, s6) \<Rightarrow> (ERR_TMC, s6)
         | (True, index, s6) \<Rightarrow> StartHoming_run E board searchMode dir softStop index s6)
      else if hwMotorType board s = MOTOR_SIM then
        (ERR_None,
         seq [upd_sim board (\<lambda>v. v\<lparr>xenc := 0, xact := 0\<rparr>),
              upd_sim board (\<lambda>v. v\<lparr>vel := 0\<rparr>),
              set_isMotorHoming board 0] s)
      else (ERR_TMC, TMC_SetErrorMsg board ''Motor is defined as MOTOR_NONE'' s))"

text \<open>
  \<^verbatim>\<open>EndHoming\<close> waits in two loops of at most
  \<^verbatim>\<open>TMC_HOMING_STANDSTILL_TIMEOUT_MS/50\<close> rounds, each round reading one field and calling
  \<^verbatim>\<open>delay(50)\<close>. They write nothing: in the model, where the chip does not move during a
  call, they are the identity and only the reads after them remain.
\<close>

definition TMC_EndHoming :: "env \<Rightarrow> int \<Rightarrow> sys \<Rightarrow> ErrorType \<times> sys" where
  "TMC_EndHoming E board s =
     (let s1 = set_isMotorHoming board 0 s in
      if tmc5240_fieldRead board TMC5240_STST_FIELD s1 \<noteq> 1 then
        (ERR_TMC,
         snd (TMC_SetEnable E board 0
                (TMC_SetErrorMsg board ''Motor hasn't stopped after homing position reached'' s1)))
      else
        (let s2 = snd (TMC_SetEnable E board 0 s1);
             x = tmc5240_readRegister board TMC5240_XACTUAL s2;
             xlatch = tmc5240_readRegister board TMC5240_XLATCH s2;
             s3 = tmc5240_writeRegister board TMC5240_XACTUAL (x - xlatch) s2;
             s4 = snd (TMC_SetEnable E board 1 s3);
             s5 = (if tmc5240_fieldRead board TMC5240_ENC_CONST_FIELD s4 \<noteq> 0
                   then seq [tmc5240_writeRegister board TMC5240_XENC (x - xlatch),
                             tmc5240_writeRegister board TMC5240_ENC_STATUS (NOT 0)] s4
                   else s4)
         in case FindParamIndexVal board ''LLEN'' (sint (junk32 E)) (junk32 E) s5 of
              (_, index, v, s6) \<Rightarrow>
            (let s7 = tmc5240_fieldWrite board TMC5240_EN_VIRTUAL_STOP_L_FIELD v s6 in
             case FindParamIndexVal board ''LREN'' index v s7 of
               (_, index, v, s8) \<Rightarrow>
             (let s9 = seq [tmc5240_fieldWrite board TMC5240_EN_VIRTUAL_STOP_R_FIELD v,
                            tmc5240_fieldWrite board TMC5240_LATCH_L_ACTIVE_FIELD 0,
                            tmc5240_fieldWrite board TMC5240_LATCH_R_ACTIVE_FIELD 0,
                            tmc5240_fieldWrite board TMC5240_LATCH_X_ACT_FIELD 0,
                            tmc5240_fieldWrite board TMC5240_STATUS_LATCH_L_FIELD 1,
                            tmc5240_fieldWrite board TMC5240_STATUS_LATCH_R_FIELD 1,
                            tmc5240_fieldWrite board TMC5240_N_EVENT_FIELD 1] s8;
                  s10 = snd (TMC_MoveToPos E board 0 1 s9)
              in (ERR_None,
                  if tmc5240_fieldRead board TMC5240_ENC_CONST_FIELD s10 \<noteq> 0
                  then tmc5240_writeRegister board TMC5240_XENC 0 s10 else s10)))))"

subsection \<open>TMC::CheckStatus\<close>

text \<open>
  \<open>done0\<close> is what the caller's variable \<^verbatim>\<open>isMotionDone\<close> holds before the call; the
  paths that return before the assignment leave it as it is.
\<close>

definition stop_event ::
    "env \<Rightarrow> int \<Rightarrow> int32 \<Rightarrow> int32 \<Rightarrow> int32 \<Rightarrow> string \<Rightarrow> string \<Rightarrow> string \<Rightarrow> sys \<Rightarrow> sys" where
  "stop_event E board flags hardMask virtMask hardMsg virtMsg otherMsg s =
     (if flags AND hardMask \<noteq> 0
        then snd (TMC_SetEnable E board 0 (TMC_SetErrorMsg board hardMsg s))
      else if flags AND virtMask \<noteq> 0 then TMC_SetErrorMsg board virtMsg s
      else snd (TMC_SetEnable E board 0 (TMC_SetErrorMsg board otherMsg s)))"

definition CheckStatus :: "env \<Rightarrow> int32 \<Rightarrow> int \<Rightarrow> int32 \<Rightarrow> sys \<Rightarrow> ErrorType \<times> int32 \<times> sys" where
  "CheckStatus E now board done0 s =
     (if hwMotorType board s = MOTOR_TMC then
        (if tmc5240_fieldRead board TMC5240_DEVIATION_WARN_FIELD s \<noteq> 0 then
           (ERR_TMC, done0,
            TMC_SetErrorMsg board ''Following error'' (snd (TMC_SetEnable E board 0 s)))
         else
           (let flags = tmc5240_readRegister board TMC5240_RAMPSTAT s;
                isDone = (if flags AND TMC5240_EVENT_POS_REACHED_MASK E \<noteq> 0
                             \<or> flags AND TMC5240_POSITION_REACHED_MASK E \<noteq> 0
                          then 1 else 0)
            in if flags AND TMC5240_EVENT_STOP_SG_MASK E \<noteq> 0 then
                 (ERR_TMC, isDone,
                  snd (TMC_SetEnable E board 0 (TMC_SetErrorMsg board ''Stall guard2 tripped'' s)))
               else if isMotorHoming (motors s) board = 1
                       \<and> (flags AND TMC5240_STATUS_LATCH_L_MASK E \<noteq> 0
                            \<or> flags AND TMC5240_STATUS_LATCH_R_MASK E \<noteq> 0) then
                 (case TMC_EndHoming E board s of (err, s1) \<Rightarrow> (err, isDone, s1))
               else if flags AND TMC5240_EVENT_STOP_L_MASK E \<noteq> 0 then
                 (ERR_TMC, isDone,
                  stop_event E board flags (TMC5240_STATUS_STOP_L_MASK E)
                    (TMC5240_STATUS_VIRTUAL_STOP_L_MASK E)
                    ''Left limit switch reached'' ''Left virtual limit switch reached''
                    ''Unknown left stop condition'' s)
               else if flags AND TMC5240_EVENT_STOP_R_MASK E \<noteq> 0 then
                 (ERR_TMC, isDone,
                  stop_event E board flags (TMC5240_STATUS_STOP_R_MASK E)
                    (TMC5240_STATUS_VIRTUAL_STOP_R_MASK E)
                    ''Right limit switch reached'' ''Right virtual limit switch reached''
                    ''Unknown right stop condition'' s)
               else (ERR_None, isDone, s)))
      else if hwMotorType board s = MOTOR_SIM then
        (let v = sim board s;
             isDone = (if vel v = 0 then 1 else 0);
             v1 = (if vel v = 0 then v
                   else v\<lparr>xact := xact v
                           + word_of_int (sint ((now - lastVelCalcTime v) * vel v) sdiv 1000)\<rparr>);
             v2 = v1\<lparr>lastVelCalcTime := now\<rparr>;
             v3 = (if xact v2 <s xmin v2 then v2\<lparr>xact := xmin v2, vel := 0\<rparr> else v2);
             v4 = (if xmax v3 <s xact v3 then v3\<lparr>xact := xmax v3, vel := 0\<rparr> else v3)
         in (ERR_None, isDone, upd_sim board (\<lambda>_. v4\<lparr>xenc := xact v4\<rparr>) s))
      else (ERR_TMC, done0, TMC_SetErrorMsg board ''Motor is defined as MOTOR_NONE'' s))"

subsection \<open>TMC::SetStatusValue\<close>

definition motStatIDList :: "string list" where
  "motStatIDList = [''XACT'', ''XTAR'', ''XENC'', ''VELO'', ''ACCE'', ''ENAB'', ''TEMP'', ''PULL'']"

definition TMC_SetStatusValue :: "env \<Rightarrow> int \<Rightarrow> int \<Rightarrow> int32 \<Rightarrow> sys \<Rightarrow> ErrorType \<times> sys" where
  "TMC_SetStatusValue E board index v s =
     (let name = motStatIDList ! nat index in
      if hwMotorType board s = MOTOR_TMC then
        (if strncmp0 name ''ENAB'' 4 then (ERR_None, snd (TMC_SetEnable E board v s))
         else if isRemoteControlled (motors s) board \<noteq> 0
           then (ERR_Motor, TMC_SetErrorMsg board ''Motor is under remote control'' s)
         else if strncmp0 name ''XACT'' 4
           then (ERR_None, tmc5240_writeRegister board TMC5240_XACTUAL v s)
         else if strncmp0 name ''XTAR'' 4
           then (ERR_None, tmc5240_writeRegister board TMC5240_XTARGET v s)
         else if strncmp0 name ''XENC'' 4
           then (ERR_None,
                 seq [tmc5240_writeRegister board TMC5240_XENC v,
                      tmc5240_writeRegister board TMC5240_ENC_STATUS (NOT 0)] s)
         else if strncmp0 name ''VELO'' 4 then
           (case FindParamIndexVal board ''RMXV'' (sint (junk32 E)) (junk32 E) s of
              (_, limIndex, limValue, s1) \<Rightarrow>
            case IsValueInRange board v name (- limValue) limValue s1 of
              (False, s2) \<Rightarrow> (ERR_TMC, s2)
            | (True, s2) \<Rightarrow> (ERR_None, tmc5240_writeRegister board TMC5240_VMAX v s2))
         else if strncmp0 name ''ACCE'' 4 then
           (case FindParamIndexVal board ''RMXA'' (sint (junk32 E)) (junk32 E) s of
              (_, limIndex, limValue, s1) \<Rightarrow>
            case IsValueInRange board v name 0 limValue s1 of
              (False, s2) \<Rightarrow> (ERR_TMC, s2)
            | (True, s2) \<Rightarrow>
                (ERR_None,
                 seq [tmc5240_writeRegister board TMC5240_AMAX v,
                      tmc5240_writeRegister board TMC5240_DMAX v] s2))
         else (ERR_None, s))
      else if hwMotorType board s = MOTOR_SIM then
        (if strncmp0 name ''ENAB'' 4 then (ERR_None, snd (TMC_SetEnable E board v s))
         else if isRemoteControlled (motors s) board \<noteq> 0
           then (ERR_Motor, TMC_SetErrorMsg board ''Motor is under remote control'' s)
         else if strncmp0 name ''XACT'' 4
           then (ERR_None, upd_sim board (\<lambda>x. x\<lparr>xact := v\<rparr>) s)
         else if strncmp0 name ''XTAR'' 4
           then (ERR_None, upd_sim board (\<lambda>x. x\<lparr>xact := v\<rparr>) s)
         else if strncmp0 name ''XENC'' 4
           then (ERR_None, upd_sim board (\<lambda>x. x\<lparr>xenc := v\<rparr>) s)
         else if strncmp0 name ''VELO'' 4
           then (ERR_None, upd_sim board (\<lambda>x. x\<lparr>vel := v\<rparr>) s)
         else (ERR_None, s))
      else (ERR_TMC, TMC_SetErrorMsg board ''Motor is defined as MOTOR_NONE'' s))"

subsection \<open>TMC::Config\<close>

definition TMC_OVERTEMP_PREWARN :: int32 where
  "TMC_OVERTEMP_PREWARN = 0xB92"

text \<open>
  \<^verbatim>\<open>g_csPin\<close>, as \<^verbatim>\<open>TMC::Init\<close> fills it from
  \<^verbatim>\<open>MOTORS_DEFAULT_DRIVER_CS\<close>. Setting the pin mode and level is not modelled.
\<close>

definition g_csPin :: "int \<Rightarrow> int" where
  "g_csPin board = [22, 21, 20, 17] ! nat board"

text \<open>A range check of parameter \<open>idx\<close> followed by one field write.\<close>

definition ranged_field ::
    "int \<Rightarrow> int \<Rightarrow> int32 \<Rightarrow> int32 \<Rightarrow> tmc_field \<Rightarrow> int32 \<Rightarrow> sys \<Rightarrow> ErrorType \<times> sys" where
  "ranged_field board idx mn mx f v s =
     (case IsParamInRange board idx mn mx s of
        (False, s1) \<Rightarrow> (ERR_TMC, s1)
      | (True, s1) \<Rightarrow> (ERR_None, tmc5240_fieldWrite board f v s1))"

text \<open>
  One round of the loop over the parameter table in \<^verbatim>\<open>TMC::Config\<close>; a result other
  than \<open>ERR_None\<close> is the \<^verbatim>\<open>return\<close> inside the loop.
\<close>

definition Config_param :: "env \<Rightarrow> int \<Rightarrow> int \<Rightarrow> sys \<Rightarrow> ErrorType \<times> sys" where
  "Config_param E board idx s =
     (let name = motParamsIDList ! nat idx;
          is = (\<lambda>n. strncmp0 name n 4);
          v = motorParam board s idx
      in
      if is ''CSCA'' then ranged_field board idx 32 255 TMC5240_GLOBAL_SCALER_FIELD v s
      else if is ''CRAN'' then ranged_field board idx 0 3 TMC5240_CURRENT_RANGE_FIELD v s
      else if is ''CRUN'' then ranged_field board idx 0 31 TMC5240_IRUN_FIELD v s
      else if is ''CHOL'' then ranged_field board idx 0 31 TMC5240_IHOLD_FIELD v s
      else if is ''MMIC'' then ranged_field board idx 0 8 TMC5240_MRES_FIELD v s
      else if is ''MINV'' then ranged_field board idx 0 1 TMC5240_SHAFT_FIELD v s
      else if is ''MTOF'' then ranged_field board idx 0 10 TMC5240_TOFF_FIELD 0 s
      else if is ''MSGE'' then ranged_field board idx 0 1 TMC5240_SG_STOP_FIELD v s
      else if is ''MSGT'' then ranged_field board idx (- 64) 63 TMC5240_SGT_FIELD v s
      else if is ''MCTC'' then ranged_field board idx 0 100000000 TMC5240_TCOOLTHRS_FIELD v s
      else if is ''RSEA'' then
        (case FindParamIndexVal board ''RMXA'' (sint (junk32 E)) (junk32 E) s of
           (_, index, mx, s1) \<Rightarrow>
         case IsParamInRange board idx 0 mx s1 of
           (False, s2) \<Rightarrow> (ERR_TMC, s2)
         | (True, s2) \<Rightarrow>
             (ERR_None,
              seq [tmc5240_fieldWrite board TMC5240_AMAX_FIELD v,
                   tmc5240_fieldWrite board TMC5240_DMAX_FIELD v] s2))
      else if is ''ECON'' then
        (ERR_None,
         seq [upd_tmc board (\<lambda>t. t\<lparr>encConst := v\<rparr>),
              tmc5240_fieldWrite board TMC5240_ENC_SEL_DECIMAL_FIELD 1,
              tmc5240_fieldWrite board TMC5240_ENC_CONST_FIELD v] s)
      else if is ''EDEV'' then
        ranged_field board idx 0 1000000000 TMC5240_ENC_DEVIATION_FIELD v s
      else if is ''EMAX'' then (ERR_None, upd_tmc board (\<lambda>t. t\<lparr>maxIterations := v\<rparr>) s)
      else if is ''ETOL'' then (ERR_None, upd_tmc board (\<lambda>t. t\<lparr>tolerance := v\<rparr>) s)
      else if is ''ERST'' then (ERR_None, upd_tmc board (\<lambda>t. t\<lparr>resetXafterCL := v\<rparr>) s)
      else if is ''SLEN'' then ranged_field board idx 0 1 TMC5240_STOP_L_ENABLE_FIELD v s
      else if is ''SREN'' then ranged_field board idx 0 1 TMC5240_STOP_R_ENABLE_FIELD v s
      else if is ''SLPO'' then ranged_field board idx 0 1 TMC5240_POL_STOP_L_FIELD v s
      else if is ''SRPO'' then ranged_field board idx 0 1 TMC5240_POL_STOP_R_FIELD v s
      else if is ''SSWP'' then ranged_field board idx 0 1 TMC5240_SWAP_LR_FIELD v s
      else if is ''LENC'' then ranged_field board idx 0 1 TMC5240_VIRTUAL_STOP_ENC_FIELD v s
      else if is ''LLEN'' then ranged_field board idx 0 1 TMC5240_EN_VIRTUAL_STOP_L_FIELD v s
      else if is ''LREN'' then ranged_field board idx 0 1 TMC5240_EN_VIRTUAL_STOP_R_FIELD v s
      else if is ''LLPS''
        then (ERR_None, tmc5240_fieldWrite board TMC5240_VIRTUAL_STOP_L_FIELD v s)
      else if is ''LRPS''
        then (ERR_None, tmc5240_fieldWrite board TMC5240_VIRTUAL_STOP_R_FIELD v s)
      else (ERR_None, s))"

fun Config_loop :: "env \<Rightarrow> int \<Rightarrow> int list \<Rightarrow> sys \<Rightarrow> ErrorType \<times> sys" where
  "Config_loop E board [] s = (ERR_None, s)"
| "Config_loop E board (idx # rest) s =
     (case Config_param E board idx s of
        (err, s1) \<Rightarrow> if err = ERR_None then Config_loop E board rest s1 else (err, s1))"

definition paramIndices :: "int list" where
  "paramIndices = [0 .. MOTORS_NUM_PARAMS - 1]"

definition INT32_MIN :: int32 where
  "INT32_MIN = - (2 ^ 31)"

definition INT32_MAX :: int32 where
  "INT32_MAX = 2 ^ 31 - 1"

definition TMC_Config :: "env \<Rightarrow> int \<Rightarrow> sys \<Rightarrow> ErrorType \<times> sys" where
  "TMC_Config E board s =
     (let finish = (\<lambda>s'. (ERR_None,
            seq [set_isMotorEnabled board 0, set_isMotorMoving board 0,
                 set_isMotorHoming board 0] s'))
      in
      if hwMotorType board s = MOTOR_TMC then
        (if g_csPin board < 0
           then (ERR_TMC, TMC_SetErrorMsg board ''Invalid driver CS pin number'' s)
         else
         case CheckError E board s of
           (err, s1) \<Rightarrow>
         if err \<noteq> ERR_None then (err, s1)
         else
         case Config_loop E board paramIndices s1 of
           (err, s2) \<Rightarrow>
         if err \<noteq> ERR_None then (err, s2)
         else
         (let s3 = tmc5240_fieldWrite board TMC5240_OVERTEMPPREWARNING_VTH_FIELD
                     TMC_OVERTEMP_PREWARN s2
          in case FindParamIndexVal board ''ECON'' (sint (junk32 E)) (junk32 E) s3 of
               (_, index, econ, s4) \<Rightarrow>
             (let v = (if econ \<noteq> 0 then tmc5240_readRegister board TMC5240_XENC s4
                       else tmc5240_readRegister board TMC5240_XACTUAL s4);
                  s5 = (if econ \<noteq> 0 then tmc5240_writeRegister board TMC5240_XACTUAL v s4
                        else s4)
              in finish
                   (seq [tmc5240_writeRegister board TMC5240_XTARGET v,
                         tmc5240_fieldWrite board TMC5240_RAMPMODE_FIELD (TMC5240_MODE_POSITION E),
                         tmc5240_writeRegister board TMC5240_ENC_STATUS (NOT 0),
                         tmc5240_writeRegister board TMC5240_RAMPSTAT (NOT 0)] s5))))
      else if hwMotorType board s = MOTOR_SIM then
        (let s1 = upd_tmc board (\<lambda>t. t\<lparr>encConst := 0, maxIterations := 1\<rparr>) s in
         case FindParamIndexVal board ''LLEN'' (sint (junk32 E)) (junk32 E) s1 of
           (_, index, llen, s2) \<Rightarrow>
         case (if llen \<noteq> 0 then
                 (case FindParamIndexVal board ''LLPS'' index llen s2 of
                    (_, i, v, s') \<Rightarrow> (i, v, upd_sim board (\<lambda>x. x\<lparr>xmin := v\<rparr>) s'))
               else (index, llen, upd_sim board (\<lambda>x. x\<lparr>xmin := INT32_MIN\<rparr>) s2)) of
           (index, v, s3) \<Rightarrow>
         case FindParamIndexVal board ''LREN'' index v s3 of
           (_, index, lren, s4) \<Rightarrow>
         finish
           (seq [(\<lambda>s'. if lren \<noteq> 0 then
                          (case FindParamIndexVal board ''LRPS'' index lren s' of
                             (_, i, v, s'') \<Rightarrow> upd_sim board (\<lambda>x. x\<lparr>xmax := v\<rparr>) s'')
                        else upd_sim board (\<lambda>x. x\<lparr>xmax := INT32_MAX\<rparr>) s'),
                 upd_sim board (\<lambda>x. x\<lparr>xenc := 0, xact := 0\<rparr>),
                 upd_sim board (\<lambda>x. x\<lparr>vel := 0\<rparr>)] s4))
      else (ERR_TMC, TMC_SetErrorMsg board ''Motor is defined as MOTOR_NONE'' s))"

section \<open>Motors.cpp: the motion layer\<close>

subsection \<open>Motors::ConfigBoard\<close>

fun ConfigBoard_all :: "env \<Rightarrow> int list \<Rightarrow> sys \<Rightarrow> ErrorType \<times> sys" where
  "ConfigBoard_all E [] s = (ERR_None, s)"
| "ConfigBoard_all E (z # zs) s =
     (if \<not> isActive z s then ConfigBoard_all E zs s
      else case TMC_Config E z s of
             (err, s1) \<Rightarrow>
               if err \<noteq> ERR_None
               then (ERR_Motor, Motors_SetErrorMsg ''Board'' z ''Could not configure board'' s1)
               else ConfigBoard_all E zs s1)"

definition Motors_ConfigBoard :: "env \<Rightarrow> int \<Rightarrow> sys \<Rightarrow> ErrorType \<times> sys" where
  "Motors_ConfigBoard E board s =
     (if board = -1 then ConfigBoard_all E allBoards s
      else case sysIsActiveMotor board True s of
             (True, s1) \<Rightarrow>
               (case TMC_Config E board s1 of
                  (err, s2) \<Rightarrow>
                    if err \<noteq> ERR_None
                    then (ERR_Motor,
                          Motors_SetErrorMsg ''Board'' board ''Could not configure board'' s2)
                    else (ERR_None, s2))
           | (False, s1) \<Rightarrow>
               (ERR_Motor, Motors_SetErrorMsg ''Board'' (-1) ''Invalid motor number'' s1))"

subsection \<open>Motors::MoveToPos, Motors::MoveAtVel, Motors::StartHoming\<close>

definition Motors_MoveToPos :: "env \<Rightarrow> int \<Rightarrow> int32 \<Rightarrow> int \<Rightarrow> sys \<Rightarrow> ErrorType \<times> sys" where
  "Motors_MoveToPos E board pos setVel s =
     (case sysIsActiveMotor board True s of
        (False, s1) \<Rightarrow> (ERR_Motor, s1)
      | (True, s1) \<Rightarrow>
          if isMotorEnabled (motors s1) board = 0
            then (ERR_Motor, Motors_SetErrorMsg ''Board'' board ''Driver is not enabled'' s1)
          else if isMotorHoming (motors s1) board \<noteq> 0
            then (ERR_Motor, Motors_SetErrorMsg ''Board'' board ''Motor is homing'' s1)
          else
            (case
               (if (maxIterations (tmcArr s1 board) = 0 \<or> 1 <s maxIterations (tmcArr s1 board))
                   \<and> encConst (tmcArr s1 board) \<noteq> 0
                then
                  (let s2 = seq [set_targetPosition board pos,
                                 set_iterationsLeft board (maxIterations (tmcArr s1 board) - 1),
                                 set_isMotorMoving board 1,
                                 set_isMotorSearching board 1,
                                 (\<lambda>s'. set_setPosition board
                                          (targetPosition (motors s') board) s')] s1
                   in TMC_MoveToPos E board (targetPosition (motors s2) board) setVel s2)
                else
                  TMC_MoveToPos E board pos setVel
                    (seq [set_iterationsLeft board 0,
                          set_isMotorMoving board 1,
                          set_isMotorSearching board 0] s1))
             of (err, s3) \<Rightarrow>
               if err \<noteq> ERR_None
               then (ERR_Motor,
                     Motors_SetErrorMsg ''Board'' board ''Error setting position target''
                       (set_isMotorMoving board 0 s3))
               else (ERR_None, s3)))"

definition Motors_MoveAtVel :: "env \<Rightarrow> int32 \<Rightarrow> int \<Rightarrow> int32 \<Rightarrow> sys \<Rightarrow> ErrorType \<times> sys" where
  "Motors_MoveAtVel E now board velocity s =
     (case sysIsActiveMotor board True s of
        (False, s1) \<Rightarrow> (ERR_Motor, s1)
      | (True, s1) \<Rightarrow>
          if isMotorEnabled (motors s1) board = 0
            then (ERR_Motor, Motors_SetErrorMsg ''Board'' board ''Driver is not enabled'' s1)
          else if isMotorHoming (motors s1) board \<noteq> 0
            then (ERR_Motor, Motors_SetErrorMsg ''Board'' board ''Motor is homing'' s1)
          else
            (case TMC_MoveAtVel E now board velocity s1 of
               (err, s2) \<Rightarrow>
                 (let s3 = set_isMotorMoving board (if velocity = 0 then 0 else 1) s2 in
                  if err \<noteq> ERR_None
                  then (ERR_Motor,
                        set_isMotorMoving board 0
                          (Motors_SetErrorMsg ''Board'' board ''Error setting velocity mode'' s3))
                  else (ERR_None, s3))))"

definition Motors_StartHoming :: "env \<Rightarrow> int \<Rightarrow> sys \<Rightarrow> ErrorType \<times> sys" where
  "Motors_StartHoming E board s =
     (case sysIsActiveMotor board True s of
        (False, s1) \<Rightarrow> (ERR_Motor, s1)
      | (True, s1) \<Rightarrow>
          if isMotorEnabled (motors s1) board = 0
            then (ERR_Motor, Motors_SetErrorMsg ''Board'' board ''Driver is not enabled'' s1)
          else TMC_StartHoming E board s1)"

subsection \<open>Motors::SetStatusValue\<close>

fun SetStatusValue_all :: "env \<Rightarrow> int \<Rightarrow> int32 \<Rightarrow> int list \<Rightarrow> sys \<Rightarrow> ErrorType \<times> sys" where
  "SetStatusValue_all E index v [] s = (ERR_None, s)"
| "SetStatusValue_all E index v (z # zs) s =
     (if \<not> isActive z s then SetStatusValue_all E index v zs s
      else case TMC_SetStatusValue E z index v s of
             (status, s1) \<Rightarrow>
               if status \<noteq> ERR_None
               then (status,
                     Motors_SetErrorMsg ''Board'' z ''Error enabling/disabling the motor'' s1)
               else SetStatusValue_all E index v zs s1)"

definition Motors_SetStatusValue :: "env \<Rightarrow> int \<Rightarrow> int \<Rightarrow> int32 \<Rightarrow> sys \<Rightarrow> ErrorType \<times> sys" where
  "Motors_SetStatusValue E board index v s =
     (if strncmp0 (motStatIDList ! nat index) ''ENAB'' 4 \<and> board = -1
        then SetStatusValue_all E index v allBoards s
      else case sysIsActiveMotor board True s of
             (False, s1) \<Rightarrow> (ERR_Motor, s1)
           | (True, s1) \<Rightarrow> TMC_SetStatusValue E board index v s1)"

subsection \<open>Motors::ProcessUpdateChanges\<close>

text \<open>
  The closed-loop branch once the driver reports the motion done and \<^verbatim>\<open>GetEnc\<close> has
  stored the encoder position in \<open>currPos\<close>. \<open>pullin_prepare\<close> holds the assignments before
  the move is issued again, \<open>search_failed\<close> the branch without tries left,
  \<open>search_reached\<close> the branch within the tolerance, and \<open>search_done\<close> is the whole
  \<^verbatim>\<open>if (abs(deviation)>tmcArr[z].tolerance) ... else ...\<close> statement.
\<close>

definition pullin_prepare :: "int \<Rightarrow> int32 \<Rightarrow> sys \<Rightarrow> sys" where
  "pullin_prepare z deviation s =
     seq [(\<lambda>s'. if 1 <s maxIterations (tmcArr s' z)
                 then set_iterationsLeft z (iterationsLeft (motors s') z - 1) s' else s'),
          set_isMotorMoving z 1,
          (\<lambda>s'. set_setPosition z (setPosition (motors s') z - deviation) s')] s"

definition search_failed :: "int \<Rightarrow> sys \<Rightarrow> sys" where
  "search_failed z s =
     seq [Motors_SetErrorMsg ''Board'' z ''Closed loop motion did not converge'',
          set_isMotorMoving z 0, set_isMotorSearching z 0] s"

definition search_reached :: "int \<Rightarrow> int32 \<Rightarrow> sys \<Rightarrow> sys" where
  "search_reached z currPos s =
     seq [set_isMotorMoving z 0,
          (\<lambda>s'. if iterationsLeft (motors s') z \<noteq> -1 then set_isMotorSearching z 0 s' else s'),
          (\<lambda>s'. if resetXafterCL (tmcArr s' z) \<noteq> 0 then snd (TMC_SetXPos z currPos s')
                 else s')] s"

definition search_done :: "env \<Rightarrow> int \<Rightarrow> int32 \<Rightarrow> sys \<Rightarrow> sys" where
  "search_done E z currPos s =
     (let deviation = currPos - targetPosition (motors s) z in
      if tolerance (tmcArr s z) <s abs32 deviation then
        (if iterationsLeft (motors s) z = -1 \<or> 0 <s iterationsLeft (motors s) z then
           (let s1 = pullin_prepare z deviation s
            in snd (TMC_MoveToPos E z (setPosition (motors s1) z) 0 s1))
         else search_failed z s)
      else search_reached z currPos s)"

text \<open>
  The body of the status loop for axis \<open>z\<close>. The local variables \<^verbatim>\<open>isMotionDone\<close> and
  \<^verbatim>\<open>currPos\<close> are declared before the loop and written through references, so their
  values are carried from one round to the next.
\<close>

definition status_poll :: "env \<Rightarrow> int32 \<Rightarrow> int \<Rightarrow> (int32 \<times> int32) \<times> sys \<Rightarrow> (int32 \<times> int32) \<times> sys" where
  "status_poll E now z ls =
     (case ls of ((done0, currPos0), s) \<Rightarrow>
      if \<not> isActive z s \<or> isMotorEnabled (motors s) z = 0 then ls
      else if isMotorHoming (motors s) z \<noteq> 0 then
        (case CheckStatus E now z done0 s of
           (err, dn, s1) \<Rightarrow>
             ((dn, currPos0),
              if dn \<noteq> 0 \<or> err \<noteq> ERR_None then set_isMotorMoving z 0 s1 else s1))
      else if isMotorSearching (motors s) z \<noteq> 0 then
        (case CheckStatus E now z done0 s of
           (err, dn, s1) \<Rightarrow>
             if err \<noteq> ERR_None then
               ((dn, currPos0),
                seq [set_isMotorMoving z 0, set_isMotorSearching z 0,
                     Motors_SetErrorMsg ''Board'' z ''Error during closed loop mode''] s1)
             else if dn \<noteq> 0 then
               (case TMC_GetEnc z currPos0 (set_isMotorMoving z 0 s1) of
                  (_, currPos, s2) \<Rightarrow> ((dn, currPos), search_done E z currPos s2))
             else ((dn, currPos0), s1))
      else if isMotorMoving (motors s) z \<noteq> 0 then
        (case CheckStatus E now z done0 s of
           (err, dn, s1) \<Rightarrow>
             ((dn, currPos0),
              if dn \<noteq> 0 \<or> err \<noteq> ERR_None then set_isMotorMoving z 0 s1 else s1))
      else ls)"

text \<open>
  \<open>now\<close> is \<^verbatim>\<open>millis()\<close>; the two polls run when their interval has passed
  (\<^verbatim>\<open>unsigned long\<close> arithmetic).
\<close>

definition ProcessUpdateChanges :: "env \<Rightarrow> int32 \<Rightarrow> sys \<Rightarrow> sys" where
  "ProcessUpdateChanges E now s =
     (let s1 = (if MOTORS_CHECK_ERROR_INTERVAL_MS < now - lastErrorCheckTime s
                then (fold (\<lambda>z s'. if \<not> isActive z s' then s' else snd (CheckError E z s'))
                        allBoards s)\<lparr>lastErrorCheckTime := now\<rparr>
                else s)
      in if MOTORS_CHECK_STATUS_INTERVAL_MS < now - lastStatusCheckTime s1
         then (snd (fold (status_poll E now) allBoards ((junk32 E, junk32 E), s1)))
                \<lparr>lastStatusCheckTime := now\<rparr>
         else s1)"

section \<open>RemoteComm.cpp: the link to the remote unit\<close>

definition REMOTE_MSG_MAXLENGTH :: nat where
  "REMOTE_MSG_MAXLENGTH = 1024"

definition Remote_SetErrorMsg :: "string \<Rightarrow> sys \<Rightarrow> sys" where
  "Remote_SetErrorMsg msg s =
     (if remote_errorFlag (remote s) \<noteq> 0 then s
      else s\<lparr>remote := (remote s)\<lparr>remote_errorFlag := 1,
                                    remote_errorMsg := snprintf MAXERRORSTRINGSIZE msg\<rparr>\<rparr>)"

definition set_repeatPosSet :: "int \<Rightarrow> int \<Rightarrow> sys \<Rightarrow> sys" where
  "set_repeatPosSet board v s =
     s\<lparr>remote := (remote s)\<lparr>repeatPosSet := (repeatPosSet (remote s))(board := v)\<rparr>\<rparr>"

definition Remote_IsValueInRange :: "int32 \<Rightarrow> string \<Rightarrow> int32 \<Rightarrow> int32 \<Rightarrow> sys \<Rightarrow> bool \<times> sys" where
  "Remote_IsValueInRange v name mn mx s =
     (if mn \<le>s v \<and> v \<le>s mx then (True, s)
      else (False,
            Remote_SetErrorMsg
              (snprintf REMOTE_MSG_MAXLENGTH
                 (''Value '' @ name @ '' out of range ('' @ show_int (sint v) @ '')'')) s))"

definition Remote_FindParamVal :: "int \<Rightarrow> string \<Rightarrow> int32 \<Rightarrow> sys \<Rightarrow> ErrorType \<times> int32 \<times> sys" where
  "Remote_FindParamVal board name value0 s =
     (case find_name name motParamsIDList 0 of
        Some idx \<Rightarrow> (ERR_None, motorParam board s idx, s)
      | None \<Rightarrow>
          (ERR_Remote, value0,
           Remote_SetErrorMsg
             (snprintf REMOTE_MSG_MAXLENGTH (''Parameter '' @ name @ '' not found'')) s))"

definition FindRemoteParamIndex :: "int \<Rightarrow> string \<Rightarrow> int \<Rightarrow> sys \<Rightarrow> ErrorType \<times> int \<times> sys" where
  "FindRemoteParamIndex board name index0 s =
     (case find_name name remoteIDList 0 of
        Some idx \<Rightarrow> (ERR_None, idx, s)
      | None \<Rightarrow>
          (ERR_TMC, index0,
           Remote_SetErrorMsg
             (snprintf REMOTE_MSG_MAXLENGTH (''Remote parameter '' @ name @ '' not found'')) s))"

subsection \<open>The checksum of a frame\<close>

definition calculateChecksum :: "string \<Rightarrow> uint8" where
  "calculateChecksum data = foldl (\<lambda>sum c. sum + of_char c) 0 data"

text \<open>
  \<^verbatim>\<open>validateChecksum\<close> works in the buffer it is given: it replaces the first
  \<^verbatim>\<open>'|'\<close> by a NUL, so the result is its return value and the buffer. When no number
  follows the separator, \<^verbatim>\<open>sscanf\<close> leaves the local \<^verbatim>\<open>checksum\<close> as it was.
\<close>

definition validateChecksum :: "env \<Rightarrow> string \<Rightarrow> int \<times> string" where
  "validateChecksum E data =
     (if CHR ''|'' \<notin> set (cstr data) then (-1, data)
      else
        (let k = length (takeWhile (\<lambda>c. c \<noteq> CHR ''|'') (cstr data));
             checksum = (case scan_hhu (cstr (drop (k + 1) data)) of
                           Some (v, _) \<Rightarrow> v
                         | None \<Rightarrow> junk8 E);
             data' = data[k := CHR 0x00]
         in if calculateChecksum (cstr (drop 1 data')) \<noteq> checksum then (-1, data')
            else (0, data')))"

subsection \<open>Sending to the remote unit\<close>

text \<open>\<^verbatim>\<open>transmitRemoteCommand\<close> always returns \<^verbatim>\<open>ERR_None\<close>, and no caller reads it.\<close>

definition transmitRemoteCommand :: "string \<Rightarrow> sys \<Rightarrow> sys" where
  "transmitRemoteCommand cmd s =
     s\<lparr>remote := (remote s)\<lparr>uart_tx := uart_tx (remote s) @
          snprintf (REMOTE_MSG_MAXLENGTH + 1)
            (''<'' @ cmd @ ''|'' @ show_nat (unat (calculateChecksum cmd)) @ ''>'')\<rparr>\<rparr>"

definition remote_cmd :: "string \<Rightarrow> int \<Rightarrow> int32 \<Rightarrow> string" where
  "remote_cmd cmd channel v =
     snprintf (REMOTE_MSG_MAXLENGTH + 1) (cmd @ show_int channel @ ''='' @ show_int (sint v))"

definition SendRemoteCommand_check :: "env \<Rightarrow> string \<Rightarrow> int \<Rightarrow> int32 \<Rightarrow> sys \<Rightarrow> bool \<times> sys" where
  "SendRemoteCommand_check E cmd channel v s =
     (if strncmp0 cmd ''ENAB'' 4 then Remote_IsValueInRange v cmd 0 1 s
      else if strncmp0 cmd ''JDIR'' 4 then Remote_IsValueInRange (abs32 v) cmd 1 1 s
      else if strncmp0 cmd ''JMAX'' 4 then
        (case Remote_FindParamVal channel ''RMXV'' (junk32 E) s of
           (_, intValue, s1) \<Rightarrow> Remote_IsValueInRange v cmd 0 intValue s1)
      else if strncmp0 cmd ''EDIR'' 4 then Remote_IsValueInRange (abs32 v) cmd 1 1 s
      else (True, s))"

definition SendRemoteCommand :: "env \<Rightarrow> string \<Rightarrow> int \<Rightarrow> int32 \<Rightarrow> sys \<Rightarrow> ErrorType \<times> sys" where
  "SendRemoteCommand E cmd channel v s =
     (case (if strncmp0 cmd ''ENAB'' 4
            then Remote_IsValueInRange (word_of_int channel) ''channel'' (- 1)
                   (word_of_int MAXNUMMOTORS) s
            else Remote_IsValueInRange (word_of_int channel) ''channel'' 0
                   (word_of_int (MAXNUMMOTORS - 1)) s) of
        (False, s1) \<Rightarrow> (ERR_Remote, s1)
      | (True, s1) \<Rightarrow>
          (case SendRemoteCommand_check E cmd channel v s1 of
             (False, s2) \<Rightarrow> (ERR_Remote, s2)
           | (True, s2) \<Rightarrow>
               if strncmp0 cmd ''ENAB'' 4 then
                 (case Motors_SetRemoteEnabled channel (sint (ucast v :: 8 word)) s2 of
                    (err, s3) \<Rightarrow>
                      if err \<noteq> ERR_None
                      then (ERR_Remote,
                            Remote_SetErrorMsg
                              ''Could not set remote enable in motor section'' s3)
                      else if channel = -1
                      then (ERR_None,
                            fold (\<lambda>z s'. if \<not> isActive z s' then s'
                                          else transmitRemoteCommand (remote_cmd cmd z v) s')
                                 allBoards s3)
                      else (ERR_None, transmitRemoteCommand (remote_cmd cmd channel v) s3))
               else (ERR_None, transmitRemoteCommand (remote_cmd cmd channel v) s2)))"

subsection \<open>RemoteComm::processRemoteCommand\<close>

definition remote_POS :: "env \<Rightarrow> string \<Rightarrow> sys \<Rightarrow> sys" where
  "remote_POS E cmd s =
     (case sscanf_board_value ''POS'' scan_hhi (CHR ''='') cmd of
        None \<Rightarrow> Remote_SetErrorMsg ''Invalid remote POS command format'' s
      | Some (board, intVal) \<Rightarrow>
          (case sysIsActiveMotor board True s of
             (False, s1) \<Rightarrow> s1
           | (True, s1) \<Rightarrow>
               if isRemoteControlled (motors s1) board = 0 then s1
               else
                 (case (if repeatPosSet (remote s1) board \<noteq> 0
                        then Motors_MoveToPos E board intVal 0 s1
                        else (case Motors_MoveToPos E board intVal 1 s1 of
                                (status, s2) \<Rightarrow> (status, set_repeatPosSet board 1 s2))) of
                    (status, s2) \<Rightarrow>
                      if status \<noteq> ERR_None
                      then Remote_SetErrorMsg ''Could not set motor pos with remote'' s2
                      else s2)))"

definition remote_VEL :: "env \<Rightarrow> int32 \<Rightarrow> string \<Rightarrow> sys \<Rightarrow> sys" where
  "remote_VEL E now cmd s =
     (case sscanf_board_value ''VEL'' scan_hhi (CHR ''='') cmd of
        None \<Rightarrow> Remote_SetErrorMsg ''Invalid remote VEL command format'' s
      | Some (board, intVal) \<Rightarrow>
          (case sysIsActiveMotor board True s of
             (False, s1) \<Rightarrow> s1
           | (True, s1) \<Rightarrow>
               if isRemoteControlled (motors s1) board = 0 then s1
               else
                 (case Motors_MoveAtVel E now board intVal (set_repeatPosSet board 0 s1) of
                    (status, s2) \<Rightarrow>
                      if status \<noteq> ERR_None
                      then Remote_SetErrorMsg ''Could not set motor vel with remote'' s2
                      else s2)))"

definition remote_ACCREQ :: "env \<Rightarrow> string \<Rightarrow> sys \<Rightarrow> sys" where
  "remote_ACCREQ E cmd s =
     (case sscanf_board ''ACCREQ'' scan_hhi cmd of
        None \<Rightarrow> Remote_SetErrorMsg ''Invalid remote ACCREQ command format'' s
      | Some board \<Rightarrow>
          (case sysIsActiveMotor board True s of
             (False, s1) \<Rightarrow> s1
           | (True, s1) \<Rightarrow>
               (case SendRemoteCommand E ''ENAB'' board 1 (set_repeatPosSet board 0 s1) of
                  (_, s2) \<Rightarrow>
                    (case FindRemoteParamIndex board ''ENAB'' (sint (junk32 E)) s2 of
                       (_, idx, s3) \<Rightarrow>
                         s3\<lparr>params := snd (SetRemoteParams board idx 1 (params s3))\<rparr>))))"

definition processRemoteCommand :: "env \<Rightarrow> int32 \<Rightarrow> string \<Rightarrow> sys \<Rightarrow> sys" where
  "processRemoteCommand E now cmd s =
     (if strncmp0 cmd ''POS'' 3 then remote_POS E cmd s
      else if strncmp0 cmd ''VEL'' 3 then remote_VEL E now cmd s
      else if strncmp0 cmd ''ACCREQ'' 6 then remote_ACCREQ E cmd s
      else s)"

subsection \<open>RemoteComm::CheckRemoteCommands\<close>

text \<open>
  One call at time \<open>now\<close>. The frame is read from \<open>uart_rx\<close> up to the \<^verbatim>\<open>'>'\<close>; the
  commands start at the second byte of the buffer, after the \<^verbatim>\<open>'<'\<close>.
\<close>

definition remote_frame :: "env \<Rightarrow> int32 \<Rightarrow> string \<Rightarrow> sys \<Rightarrow> sys" where
  "remote_frame E now uartData s =
     (if length uartData < 3 then Remote_SetErrorMsg ''Invalid UART command string'' s
      else
        (case validateChecksum E uartData of
           (rc, uartData') \<Rightarrow>
             if rc \<noteq> 0 then s
             else
               (let cmds = cstr (drop 1 uartData');
                    s1 = (if CHR '';'' \<notin> set cmds then processRemoteCommand E now cmds s
                          else fold (processRemoteCommand E now) (strtok_all (CHR '';'') cmds) s)
                in s1\<lparr>remote := (remote s1)\<lparr>lastReceiveTime := now\<rparr>\<rparr>)))"

definition CheckRemoteCommands :: "env \<Rightarrow> int32 \<Rightarrow> sys \<Rightarrow> sys" where
  "CheckRemoteCommands E now s =
     (if REMOTE_RECEIVE_INTERVAL_MS < now - lastReceiveTime (remote s) then
        (if uart_rx (remote s) \<noteq> [] then
           (case readBytesUntil (CHR ''>'') REMOTE_MSG_MAXLENGTH (uart_rx (remote s)) of
              (uartData, rx') \<Rightarrow>
                remote_frame E now uartData (s\<lparr>remote := (remote s)\<lparr>uart_rx := rx'\<rparr>\<rparr>))
         else s\<lparr>remote := (remote s)\<lparr>lastReceiveTime := now\<rparr>\<rparr>)
      else s)"

section \<open>SerialComm.cpp: the commands of the host\<close>

definition SERIAL_MSG_MAXLENGTH :: nat where
  "SERIAL_MSG_MAXLENGTH = 100"

definition Serial_print :: "string \<Rightarrow> sys \<Rightarrow> sys" where
  "Serial_print str s = s\<lparr>serial := (serial s)\<lparr>serial_out := serial_out (serial s) @ str\<rparr>\<rparr>"

definition Serial_println :: "string \<Rightarrow> sys \<Rightarrow> sys" where
  "Serial_println str s = Serial_print (str @ [CHR 0x0D, CHR 0x0A]) s"

definition Serial_SetErrorMsg :: "string \<Rightarrow> sys \<Rightarrow> sys" where
  "Serial_SetErrorMsg msg s =
     (if serial_errorFlag (serial s) \<noteq> 0 then s
      else s\<lparr>serial := (serial s)\<lparr>serial_errorFlag := 1,
                                    serial_errorMsg := snprintf MAXERRORSTRINGSIZE msg\<rparr>\<rparr>)"

definition ReportErrorCode :: "ErrorType \<Rightarrow> sys \<Rightarrow> sys" where
  "ReportErrorCode err s = Serial_println (show_int (ErrorCode err)) (Serial_print ''ERROR='' s)"

text \<open>
  \<^verbatim>\<open>CheckRemoteControl\<close> reads \<^verbatim>\<open>isRemoteControlled[board]\<close> with the board number the
  host sent, unchecked. Outside the array the read has no defined result: \<open>None\<close>.
\<close>

definition CheckRemoteControl :: "int \<Rightarrow> sys \<Rightarrow> (ErrorType \<times> sys) option" where
  "CheckRemoteControl board s =
     (if board < 0 \<or> MAXNUMMOTORS \<le> board then None
      else if isRemoteControlled (motors s) board \<noteq> 0
        then Some (ERR_Serial, Serial_SetErrorMsg ''Motor is under remote control'' s)
      else Some (ERR_None, s))"

definition report :: "ErrorType \<times> sys \<Rightarrow> sys option" where
  "report r = Some (ReportErrorCode (fst r) (snd r))"

definition cmd_SMC_MPOS :: "env \<Rightarrow> string \<Rightarrow> sys \<Rightarrow> sys option" where
  "cmd_SMC_MPOS E line s =
     (case sscanf_board_value ''SMC_MPOS'' scan_hhi (CHR '','') line of
        None \<Rightarrow> report (ERR_Serial, Serial_SetErrorMsg ''Invalid SMC_MPOS command format'' s)
      | Some (board, intVal) \<Rightarrow>
          (case CheckRemoteControl board s of
             None \<Rightarrow> None
           | Some (err, s1) \<Rightarrow>
               if err \<noteq> ERR_None then report (err, s1)
               else report (Motors_MoveToPos E board intVal 1 s1)))"

definition cmd_SMC_MVEL :: "env \<Rightarrow> int32 \<Rightarrow> string \<Rightarrow> sys \<Rightarrow> sys option" where
  "cmd_SMC_MVEL E now line s =
     (case sscanf_board_value ''SMC_MVEL'' scan_hhi (CHR '','') line of
        None \<Rightarrow> report (ERR_Serial, Serial_SetErrorMsg ''Invalid SMC_MVEL command format'' s)
      | Some (board, intVal) \<Rightarrow>
          (case CheckRemoteControl board s of
             None \<Rightarrow> None
           | Some (err, s1) \<Rightarrow>
               if err \<noteq> ERR_None then report (err, s1)
               else report (Motors_MoveAtVel E now board intVal s1)))"

definition cmd_SMS :: "env \<Rightarrow> string \<Rightarrow> sys \<Rightarrow> sys option" where
  "cmd_SMS E line s =
     (case find_name (drop 4 line) motStatIDList 0 of
        None \<Rightarrow> report (ERR_Serial, Serial_SetErrorMsg ''Unrecognized SMS_ parameter'' s)
      | Some idx \<Rightarrow>
          (case sscanf_board_value (''SMS_'' @ motStatIDList ! nat idx) scan_hhd (CHR '','') line of
             None \<Rightarrow>
               report (ERR_Serial,
                       Serial_SetErrorMsg
                         (snprintf SERIAL_MSG_MAXLENGTH (''Invalid command format: '' @ line)) s)
           | Some (board, intVal) \<Rightarrow> report (Motors_SetStatusValue E board idx intVal s)))"

definition cmd_SMC_HOME :: "env \<Rightarrow> string \<Rightarrow> sys \<Rightarrow> sys option" where
  "cmd_SMC_HOME E line s =
     (case sscanf_board ''SMC_HOME'' scan_hhi line of
        None \<Rightarrow> report (ERR_Serial, Serial_SetErrorMsg ''Invalid SMC_HOME command format'' s)
      | Some board \<Rightarrow>
          (case CheckRemoteControl board s of
             None \<Rightarrow> None
           | Some (err, s1) \<Rightarrow>
               if err \<noteq> ERR_None then report (err, s1)
               else report (Motors_StartHoming E board s1)))"

text \<open>
  \<^verbatim>\<open>SerialComm::CheckSerialCommand\<close>, one call at time \<open>now\<close>. The commands that move an
  axis or set a status value are modelled; the tests for the other commands stand where the
  source has them, and what those commands do is the parameter \<open>others\<close>, which also takes
  the line that matches no command.
\<close>

definition has_prefix :: "string \<Rightarrow> string list \<Rightarrow> bool" where
  "has_prefix line ps = list_ex (\<lambda>p. strncmp0 line p (length p)) ps"

definition serial_line ::
    "env \<Rightarrow> (string \<Rightarrow> sys \<Rightarrow> sys option) \<Rightarrow> int32 \<Rightarrow> string \<Rightarrow> sys \<Rightarrow> sys option" where
  "serial_line E others now serialData s =
     (let line = cstr serialData in
      if length serialData < 5 then
        report (ERR_Serial,
                Serial_SetErrorMsg
                  (snprintf SERIAL_MSG_MAXLENGTH (''Command <5 chars. Recvd: '' @ line)) s)
      else if strncmp0 line ''SMC_MPOS'' 8 then cmd_SMC_MPOS E line s
      else if strncmp0 line ''SMC_MVEL'' 8 then cmd_SMC_MVEL E now line s
      else if has_prefix line [''GMC_STAT'', ''GMC_POSR''] then others line s
      else if strncmp0 line ''SMS_'' 4 then cmd_SMS E line s
      else if has_prefix line [''GMS_'', ''SMP_TDEV'', ''GMP_TDEV'', ''SMP_TAXI'', ''GMP_TAXI'',
                               ''SMP_'', ''GMP_'', ''SRP_'', ''GRP_'', ''SMC_CONF'', ''SMC_SCLR'']
        then others line s
      else if strncmp0 line ''SMC_HOME'' 8 then cmd_SMC_HOME E line s
      else others line s)"

definition CheckSerialCommand ::
    "env \<Rightarrow> (string \<Rightarrow> sys \<Rightarrow> sys option) \<Rightarrow> int32 \<Rightarrow> sys \<Rightarrow> sys option" where
  "CheckSerialCommand E others now s =
     (if SERIAL_CHECK_INTERVAL_MS < now - lastCheckTime (serial s) then
        (if serial_in (serial s) \<noteq> [] then
           (case readBytesUntil SERIAL_TERMCHAR SERIAL_MSG_MAXLENGTH (serial_in (serial s)) of
              (serialData, rx') \<Rightarrow>
                serial_line E others now serialData (s\<lparr>serial := (serial s)\<lparr>serial_in := rx'\<rparr>\<rparr>))
         else Some (s\<lparr>serial := (serial s)\<lparr>lastCheckTime := now\<rparr>\<rparr>))
      else Some s)"

section \<open>DefaultParams.h and a state to run the model on\<close>

definition defaultStepperMotorParams :: "int32 list" where
  "defaultStepperMotorParams =
    [128, 1, 12, 8,
     3, 0, 5, 1, 0, 145,
     1, 1, 4000, 1, 1,
     32000, 64000, 4000, 5000,
     71536, 500, 5, 1, 0,
     1, 1, 1, 1, 0,
     0, 0, 0, - 100000, 100000]"

definition defaultSafeMotorParams :: "int32 list" where
  "defaultSafeMotorParams =
    [128, 0, 0, 0,
     3, 0, 0, 0, 0, 0,
     0, 1, 0, 0, 1,
     0, 0, 0, 0,
     0, 0, 1, 1, 0,
     0, 0, 1, 1, 0,
     0, 1, 1, - 1000, 1000]"

definition defaultRemoteParams :: "int32 list" where
  "defaultRemoteParams = [0, 1, 1000, 1, 10]"

text \<open>An array of four cells with the given contents.\<close>

definition arr4 :: "'a \<Rightarrow> 'a \<Rightarrow> 'a \<Rightarrow> 'a \<Rightarrow> int \<Rightarrow> 'a" where
  "arr4 a b c d z = (if z = 0 then a else if z = 1 then b else if z = 2 then c else d)"

text \<open>
  \<open>boot_state\<close>: the members as their initialisers leave them (axes 0 and 1 simulated, 2 and 3
  absent), the parameter tables as \<^verbatim>\<open>Parameters::Config(CONFIG_DEFAULT)\<close> fills them, drivers
  and chips zeroed. \<open>bench_state\<close>: the same with axis 0 a real driver holding the stepper
  defaults, closed loop with at most three pull-in tries and tolerance 5, and the axes 0 and 1
  enabled.
\<close>

definition boot_state :: sys where
  "boot_state =
     \<lparr>params = \<lparr>params_errorMsg = [], params_errorFlag = 0,
                 hwParameters = \<lparr>motorType = arr4 MOTOR_SIM MOTOR_SIM MOTOR_NONE MOTOR_NONE,
                                 DRIVER_CS = arr4 22 21 20 17,
                                 axisType = arr4 AXIS_X AXIS_Y AXIS_Z AXIS_AUX\<rparr>,
                 motorParamArr = (\<lambda>mot z. defaultSafeMotorParams ! nat z),
                 remoteParamArr = (\<lambda>mot z. defaultRemoteParams ! nat z)\<rparr>,
      motors = \<lparr>errorMsgGeneral = [], errorMsgBoard = (\<lambda>z. []), errorFlag = 0,
                 errorFlagGeneral = 0, errorFlagBoard = (\<lambda>z. 0),
                 isMotorEnabled = (\<lambda>z. 0), isRemoteControlled = (\<lambda>z. 0),
                 isMotorMoving = (\<lambda>z. 0), isMotorHoming = (\<lambda>z. 0),
                 isMotorSearching = (\<lambda>z. 0), targetPosition = (\<lambda>z. 0),
                 setPosition = (\<lambda>z. 0), iterationsLeft = (\<lambda>z. 0)\<rparr>,
      tmcArr = (\<lambda>z. \<lparr>encConst = 0, maxIterations = 0, tolerance = 0, resetXafterCL = 0,
                        simValues = \<lparr>xact = 0, xtar = 0, xenc = 0, xmin = 0, xmax = 0, vel = 0,
                                      lastVelCalcTime = 0\<rparr>\<rparr>),
      hw = (\<lambda>z. \<lparr>regs = (\<lambda>r. 0), flds = (\<lambda>f. 0)\<rparr>),
      lastErrorCheckTime = 0,
      lastStatusCheckTime = 0,
      serial = \<lparr>serial_errorMsg = [], serial_errorFlag = 0, serial_in = [], serial_out = [],
                 lastCheckTime = 0\<rparr>,
      remote = \<lparr>remote_errorMsg = [], remote_errorFlag = 0, repeatPosSet = (\<lambda>z. 0),
                 uart_rx = [], uart_tx = [], lastReceiveTime = 0\<rparr>\<rparr>"

definition bench_state :: sys where
  "bench_state =
     boot_state\<lparr>
       params := (params boot_state)\<lparr>
         hwParameters := (hwParameters (params boot_state))\<lparr>
           motorType := arr4 MOTOR_TMC MOTOR_SIM MOTOR_NONE MOTOR_NONE\<rparr>,
         motorParamArr := (\<lambda>mot z. if mot = 0 then defaultStepperMotorParams ! nat z
                                     else defaultSafeMotorParams ! nat z)\<rparr>,
       motors := (motors boot_state)\<lparr>isMotorEnabled := arr4 1 1 0 0\<rparr>,
       tmcArr := (tmcArr boot_state)(0 :=
         (tmcArr boot_state 0)\<lparr>encConst := 71536, maxIterations := 3, tolerance := 5\<rparr>)\<rparr>"

text \<open>
  An environment for the examples: the masks as the data sheet of the TMC5240 numbers the bits
  of \<^verbatim>\<open>GSTAT\<close>, \<^verbatim>\<open>DRV_STATUS\<close> and \<^verbatim>\<open>RAMP_STAT\<close>. The theorems below hold for
  every environment.
\<close>

definition bench_env :: env where
  "bench_env =
     \<lparr>TMC5240_RESET_MASK = 0x01, TMC5240_UV_CP_MASK = 0x04,
      TMC5240_REGISTER_RESET_MASK = 0x08, TMC5240_VM_UVLO_MASK = 0x10,
      TMC5240_DRV_ERR_MASK = 0x02,
      TMC5240_S2VSA_MASK = 0x1000, TMC5240_S2VSB_MASK = 0x2000,
      TMC5240_S2GA_MASK = 0x08000000, TMC5240_S2GB_MASK = 0x10000000,
      TMC5240_OLA_MASK = 0x20000000, TMC5240_OLB_MASK = 0x40000000,
      TMC5240_STALLGUARD_MASK = 0x01000000,
      TMC5240_OTPW_MASK = 0x04000000, TMC5240_OT_MASK = 0x02000000,
      TMC5240_EVENT_POS_REACHED_MASK = 0x80, TMC5240_POSITION_REACHED_MASK = 0x200,
      TMC5240_EVENT_STOP_SG_MASK = 0x40,
      TMC5240_STATUS_LATCH_L_MASK = 0x04, TMC5240_STATUS_LATCH_R_MASK = 0x08,
      TMC5240_EVENT_STOP_L_MASK = 0x10, TMC5240_EVENT_STOP_R_MASK = 0x20,
      TMC5240_STATUS_STOP_L_MASK = 0x01, TMC5240_STATUS_STOP_R_MASK = 0x02,
      TMC5240_STATUS_VIRTUAL_STOP_L_MASK = 0x4000,
      TMC5240_STATUS_VIRTUAL_STOP_R_MASK = 0x8000,
      TMC5240_MODE_POSITION = 0, TMC5240_MODE_VELPOS = 1, TMC5240_MODE_VELNEG = 2,
      junk_msg = [], junk32 = 0, junk8 = 0\<rparr>"

text \<open>
  \<open>search_state enc left\<close>: axis 0 of \<open>bench_state\<close> in a closed-loop search for position
  1000 with \<open>left\<close> tries left, at the moment its chip reports the position reached and the
  encoder reads \<open>enc\<close>. \<open>hold_state\<close>: the same search with an unlimited number of tries
  (maximum 0) and the reset flag set, the encoder reading 1003.
\<close>

definition search_state :: "int32 \<Rightarrow> int32 \<Rightarrow> sys" where
  "search_state enc left =
     bench_state\<lparr>
       motors := (motors bench_state)\<lparr>
         isMotorMoving := arr4 1 0 0 0, isMotorSearching := arr4 1 0 0 0,
         targetPosition := arr4 1000 0 0 0, setPosition := arr4 1000 0 0 0,
         iterationsLeft := arr4 left 0 0 0\<rparr>,
       hw := (hw bench_state)(0 :=
         \<lparr>regs = (\<lambda>r. 0)(TMC5240_RAMPSTAT := 0x200, TMC5240_XENC := enc,
                            TMC5240_XTARGET := 1000, TMC5240_XACTUAL := 1000,
                            TMC5240_VMAX := 32000),
          flds = (\<lambda>f. 0)\<rparr>)\<rparr>"

definition hold_state :: sys where
  "hold_state = upd_tmc 0 (\<lambda>t. t\<lparr>maxIterations := 0, resetXafterCL := 1\<rparr>) (search_state 1003 (- 1))"

text \<open>
  The value of the motor parameter called \<open>name\<close>, as \<^verbatim>\<open>FindParamIndexVal\<close> finds it.
  \<open>nodir_state\<close> is \<open>bench_state\<close> after the command \<^verbatim>\<open>SMP_HDIR0,0\<close>: the homing
  direction of axis 0 is neither \<open>-1\<close> nor \<open>1\<close>.
\<close>

definition paramValue :: "string \<Rightarrow> int \<Rightarrow> sys \<Rightarrow> int32" where
  "paramValue name board s = fst (snd (snd (FindParamIndexVal board name 0 0 s)))"

definition nodir_state :: sys where
  "nodir_state = bench_state\<lparr>params := snd (SetMotorParams 0 11 0 (params bench_state))\<rparr>"

text \<open>
  \<open>remote_state\<close> is \<open>bench_state\<close> with its two active axes handed to the remote unit.
  \<open>host_sends\<close> and \<open>remote_sends\<close> put bytes in the two receive buffers.
\<close>

definition remote_state :: sys where
  "remote_state = bench_state\<lparr>motors := (motors bench_state)\<lparr>isRemoteControlled := arr4 1 1 0 0\<rparr>\<rparr>"

definition host_sends :: "string \<Rightarrow> sys \<Rightarrow> sys" where
  "host_sends bytes s = s\<lparr>serial := (serial s)\<lparr>serial_in := serial_in (serial s) @ bytes\<rparr>\<rparr>"

definition remote_sends :: "string \<Rightarrow> sys \<Rightarrow> sys" where
  "remote_sends bytes s = s\<lparr>remote := (remote s)\<lparr>uart_rx := uart_rx (remote s) @ bytes\<rparr>\<rparr>"

text \<open>
  \<open>far_state\<close>: the search of \<open>search_state\<close> with the target at the largest position
  and the encoder reading \<open>-1\<close>, two tries left. \<open>tuned_state\<close> is \<open>bench_state\<close> after
  the commands \<^verbatim>\<open>SMP_EMAX0,3\<close>, \<^verbatim>\<open>SMP_ECON1,71536\<close> and \<^verbatim>\<open>SMP_EMAX1,3\<close>: both axes
  have an encoder constant and three iterations stored. \<open>config_enable\<close> is
  \<^verbatim>\<open>TMC::Config\<close> followed by \<^verbatim>\<open>TMC::SetEnable(1)\<close>.
\<close>

definition far_state :: sys where
  "far_state = set_setPosition 0 2147483647 (set_targetPosition 0 2147483647 (search_state (- 1) 2))"

definition tuned_state :: sys where
  "tuned_state =
     bench_state\<lparr>params :=
       snd (SetMotorParams 1 22 3
         (snd (SetMotorParams 1 19 71536
           (snd (SetMotorParams 0 22 3 (params bench_state))))))\<rparr>"

definition config_enable :: "env \<Rightarrow> int \<Rightarrow> sys \<Rightarrow> sys" where
  "config_enable E board s = snd (TMC_SetEnable E board 1 (snd (TMC_Config E board s)))"

text \<open>
  For the examples, the commands of the host that are not modelled do nothing. The theorems
  below hold whatever they do.
\<close>

definition skip_others :: "string \<Rightarrow> sys \<Rightarrow> sys option" where
  "skip_others line s = Some s"

section \<open>What the driver layer leaves alone\<close>

text \<open>
  \<open>MotionState s z\<close> is the motion state of axis \<open>z\<close>: enabled, moving, homing, searching,
  target, setpoint, iterations left. \<open>cl_view\<close> collects the arrays of \<^verbatim>\<open>Motors\<close> that no
  function of a \<^verbatim>\<open>TMC\<close> object writes; \<open>cfg_view\<close> the configuration that none but
  \<^verbatim>\<open>TMC::Config\<close> writes.
\<close>

definition MotionState :: "sys \<Rightarrow> int \<Rightarrow> int \<times> int \<times> int \<times> int \<times> int32 \<times> int32 \<times> int32" where
  "MotionState s z =
     (isMotorEnabled (motors s) z, isMotorMoving (motors s) z, isMotorHoming (motors s) z,
      isMotorSearching (motors s) z, targetPosition (motors s) z, setPosition (motors s) z,
      iterationsLeft (motors s) z)"

definition cl_view ::
    "sys \<Rightarrow> (int \<Rightarrow> int) \<times> (int \<Rightarrow> int) \<times> (int \<Rightarrow> int32) \<times> (int \<Rightarrow> int32) \<times> (int \<Rightarrow> int32)
       \<times> (int \<Rightarrow> int)" where
  "cl_view s =
     (isMotorMoving (motors s), isMotorSearching (motors s), targetPosition (motors s),
      setPosition (motors s), iterationsLeft (motors s), isRemoteControlled (motors s))"

definition cfg_view ::
    "sys \<Rightarrow> HWParamStruct \<times> (int \<Rightarrow> int \<Rightarrow> int32) \<times> (int \<Rightarrow> int \<Rightarrow> int32)
       \<times> (int \<Rightarrow> int32 \<times> int32 \<times> int32 \<times> int32)" where
  "cfg_view s =
     (hwParameters (params s), motorParamArr (params s), remoteParamArr (params s),
      (\<lambda>z. (encConst (tmcArr s z), maxIterations (tmcArr s z), tolerance (tmcArr s z),
             resetXafterCL (tmcArr s z))))"

definition par_view :: "sys \<Rightarrow> HWParamStruct \<times> (int \<Rightarrow> int \<Rightarrow> int32)" where
  "par_view s = (hwParameters (params s), motorParamArr (params s))"

definition xtarget_view :: "sys \<Rightarrow> int \<Rightarrow> int32" where
  "xtarget_view s = (\<lambda>z. regs (hw s z) TMC5240_XTARGET)"

text \<open>The position a simulated axis takes when told to move to \<open>pos\<close>.\<close>

definition clamp_sim :: "TMCSimStatus \<Rightarrow> int32 \<Rightarrow> int32" where
  "clamp_sim v pos =
     (let pos1 = (if pos <s xmin v then xmin v else pos)
      in if xmax v <s pos1 then xmax v else pos1)"

text \<open>
  The assignments of \<^verbatim>\<open>Motors::MoveToPos\<close> before it calls the driver, in the closed-loop
  and in the open-loop branch.
\<close>

definition MoveToPos_prepare :: "int \<Rightarrow> int32 \<Rightarrow> sys \<Rightarrow> sys" where
  "MoveToPos_prepare board pos s =
     (if (maxIterations (tmcArr s board) = 0 \<or> 1 <s maxIterations (tmcArr s board))
          \<and> encConst (tmcArr s board) \<noteq> 0
      then seq [set_targetPosition board pos,
                set_iterationsLeft board (maxIterations (tmcArr s board) - 1),
                set_isMotorMoving board 1,
                set_isMotorSearching board 1,
                set_setPosition board pos] s
      else seq [set_iterationsLeft board 0,
                set_isMotorMoving board 1,
                set_isMotorSearching board 0] s)"

text \<open>What \<^verbatim>\<open>TMC::GetEnc\<close> reads on an active axis.\<close>

definition encoder_reading :: "int \<Rightarrow> sys \<Rightarrow> int32" where
  "encoder_reading z s =
     (if hwMotorType z s = MOTOR_TMC then regs (hw s z) TMC5240_XENC else xact (sim z s))"

named_theorems frame

lemma frame_prims [frame]:
  "cl_view (tmc5240_writeRegister b r v s) = cl_view s"
  "cl_view (tmc5240_fieldWrite b f v s) = cl_view s"
  "cl_view (set_isMotorEnabled b k s) = cl_view s"
  "cl_view (set_isMotorHoming b k s) = cl_view s"
  "cl_view (upd_tmc b g s) = cl_view s"
  "cl_view (upd_sim b h s) = cl_view s"
  "cfg_view (tmc5240_writeRegister b r v s) = cfg_view s"
  "cfg_view (tmc5240_fieldWrite b f v s) = cfg_view s"
  "cfg_view (set_isMotorEnabled b k s) = cfg_view s"
  "cfg_view (set_isMotorHoming b k s) = cfg_view s"
  "cfg_view (set_isMotorMoving b k s) = cfg_view s"
  "cfg_view (set_isMotorSearching b k s) = cfg_view s"
  "cfg_view (set_targetPosition b v s) = cfg_view s"
  "cfg_view (set_setPosition b v s) = cfg_view s"
  "cfg_view (set_iterationsLeft b v s) = cfg_view s"
  "cfg_view (upd_sim b h s) = cfg_view s"
  by (auto simp: cl_view_def cfg_view_def tmc5240_writeRegister_def tmc5240_fieldWrite_def
      set_isMotorEnabled_def set_isMotorHoming_def upd_tmc_def upd_sim_def set_isMotorMoving_def
      set_isMotorSearching_def set_targetPosition_def set_setPosition_def set_iterationsLeft_def
      fun_eq_iff)

lemma frame_Motors_SetErrorMsg [frame]:
  "cl_view (Motors_SetErrorMsg src n msg s) = cl_view s"
  "cfg_view (Motors_SetErrorMsg src n msg s) = cfg_view s"
  by (simp_all add: cl_view_def cfg_view_def Motors_SetErrorMsg_def sysIsValidMotor_def
        IsValidMotor_def Parameters_SetErrorMsg_def Let_def split_beta split: bool.splits)

lemma frame_TMC_SetErrorMsg [frame]:
  "cl_view (TMC_SetErrorMsg b msg s) = cl_view s"
  "cfg_view (TMC_SetErrorMsg b msg s) = cfg_view s"
  by (simp_all add: TMC_SetErrorMsg_def frame)

lemma frame_Find [frame]:
  "cl_view (snd (snd (snd (FindParamIndexVal b name i0 v0 s)))) = cl_view s"
  "cfg_view (snd (snd (snd (FindParamIndexVal b name i0 v0 s)))) = cfg_view s"
  by (simp_all add: FindParamIndexVal_def frame split: option.splits)

lemma frame_InRange [frame]:
  "cl_view (snd (IsParamInRange b i mn mx s)) = cl_view s"
  "cfg_view (snd (IsParamInRange b i mn mx s)) = cfg_view s"
  "cl_view (snd (IsValueInRange b v name mn mx s)) = cl_view s"
  "cfg_view (snd (IsValueInRange b v name mn mx s)) = cfg_view s"
  by (simp_all add: IsParamInRange_def IsValueInRange_def Let_def frame)

lemma frame_CancelHoming [frame]:
  "cl_view (snd (CancelHoming E b s)) = cl_view s"
  "cfg_view (snd (CancelHoming E b s)) = cfg_view s"
  by (simp_all add: CancelHoming_def Let_def split_beta seq_def frame)

lemma frame_SetEnable [frame]:
  "cl_view (snd (TMC_SetEnable E b mode s)) = cl_view s"
  "cfg_view (snd (TMC_SetEnable E b mode s)) = cfg_view s"
  by (simp_all add: TMC_SetEnable_def Let_def split_beta seq_def frame)

lemma frame_CheckError [frame]:
  "cl_view (snd (CheckError E b s)) = cl_view s"
  "cfg_view (snd (CheckError E b s)) = cfg_view s"
  by (simp_all add: CheckError_def Let_def split_beta seq_def frame)

lemma frame_TMC_MoveToPos [frame]:
  "cl_view (snd (TMC_MoveToPos E b pos sv s)) = cl_view s"
  "cfg_view (snd (TMC_MoveToPos E b pos sv s)) = cfg_view s"
  by (simp_all add: TMC_MoveToPos_def Let_def split_beta seq_def frame)

lemma frame_TMC_MoveAtVel [frame]:
  "cl_view (snd (TMC_MoveAtVel E now b v s)) = cl_view s"
  "cfg_view (snd (TMC_MoveAtVel E now b v s)) = cfg_view s"
  by (simp_all add: TMC_MoveAtVel_def Let_def split_beta seq_def frame split: bool.splits)

lemma frame_TMC_SetXPos [frame]:
  "cl_view (snd (TMC_SetXPos b pos s)) = cl_view s"
  "cfg_view (snd (TMC_SetXPos b pos s)) = cfg_view s"
  by (simp_all add: TMC_SetXPos_def Let_def split_beta seq_def frame)

lemma frame_TMC_GetEnc [frame]:
  "cl_view (snd (snd (TMC_GetEnc b p0 s))) = cl_view s"
  "cfg_view (snd (snd (TMC_GetEnc b p0 s))) = cfg_view s"
  by (simp_all add: TMC_GetEnc_def frame)

lemma frame_TMC_EndHoming [frame]:
  "cl_view (snd (TMC_EndHoming E b s)) = cl_view s"
  "cfg_view (snd (TMC_EndHoming E b s)) = cfg_view s"
  by (simp_all add: TMC_EndHoming_def Let_def split_beta seq_def frame)

lemma frame_StartHoming_latch [frame]:
  "cl_view (snd (snd (StartHoming_latch E b sm d i s))) = cl_view s"
  "cfg_view (snd (snd (StartHoming_latch E b sm d i s))) = cfg_view s"
  by (simp_all add: StartHoming_latch_def Let_def split_beta seq_def frame)

lemma frame_StartHoming_run [frame]:
  "cl_view (snd (StartHoming_run E b sm d ss i s)) = cl_view s"
  "cfg_view (snd (StartHoming_run E b sm d ss i s)) = cfg_view s"
  by (simp_all add: StartHoming_run_def Let_def split_beta seq_def frame split: bool.splits)

lemma frame_TMC_StartHoming [frame]:
  "cl_view (snd (TMC_StartHoming E b s)) = cl_view s"
  "cfg_view (snd (TMC_StartHoming E b s)) = cfg_view s"
  by (simp_all add: TMC_StartHoming_def Let_def split_beta seq_def frame split: bool.splits)

lemma frame_stop_event [frame]:
  "cl_view (stop_event E b fl hm vm m1 m2 m3 s) = cl_view s"
  "cfg_view (stop_event E b fl hm vm m1 m2 m3 s) = cfg_view s"
  by (simp_all add: stop_event_def frame)

lemma frame_CheckStatus [frame]:
  "cl_view (snd (snd (CheckStatus E now b d0 s))) = cl_view s"
  "cfg_view (snd (snd (CheckStatus E now b d0 s))) = cfg_view s"
  by (simp_all add: CheckStatus_def Let_def split_beta seq_def frame)

lemma frame_TMC_SetStatusValue [frame]:
  "cl_view (snd (TMC_SetStatusValue E b i v s)) = cl_view s"
  "cfg_view (snd (TMC_SetStatusValue E b i v s)) = cfg_view s"
  by (simp_all add: TMC_SetStatusValue_def Let_def split_beta seq_def frame split: bool.splits)

lemma MotionState_SetErrorMsg:
  "MotionState (Motors_SetErrorMsg src n msg s) = MotionState s"
  "tmcArr (Motors_SetErrorMsg src n msg s) = tmcArr s"
  "hw (Motors_SetErrorMsg src n msg s) = hw s"
  by (simp_all add: MotionState_def Motors_SetErrorMsg_def sysIsValidMotor_def Let_def split_beta fun_eq_iff
      split: bool.splits)

lemma MotionState_sysIsActiveMotor:
  "MotionState (snd (sysIsActiveMotor b r s)) = MotionState s"
  "motors (snd (sysIsActiveMotor b r s)) = motors s"
  "tmcArr (snd (sysIsActiveMotor b r s)) = tmcArr s"
  "hw (snd (sysIsActiveMotor b r s)) = hw s"
  by (simp_all add: MotionState_def sysIsActiveMotor_def split_beta fun_eq_iff)

lemma MoveToPos_rejected:
  assumes "isMotorEnabled (motors s) board = 0 \<or> isMotorHoming (motors s) board \<noteq> 0"
  shows "fst (Motors_MoveToPos E board pos setVel s) = ERR_Motor"
    and "MotionState (snd (Motors_MoveToPos E board pos setVel s)) = MotionState s"
    and "tmcArr (snd (Motors_MoveToPos E board pos setVel s)) = tmcArr s"
    and "hw (snd (Motors_MoveToPos E board pos setVel s)) = hw s"
  using assms
  by (auto simp: Motors_MoveToPos_def split_beta MotionState_SetErrorMsg MotionState_sysIsActiveMotor
      split: bool.splits)

lemma MoveAtVel_rejected:
  assumes "isMotorEnabled (motors s) board = 0 \<or> isMotorHoming (motors s) board \<noteq> 0"
  shows "fst (Motors_MoveAtVel E now board v s) = ERR_Motor"
    and "MotionState (snd (Motors_MoveAtVel E now board v s)) = MotionState s"
    and "tmcArr (snd (Motors_MoveAtVel E now board v s)) = tmcArr s"
    and "hw (snd (Motors_MoveAtVel E now board v s)) = hw s"
  using assms
  by (auto simp: Motors_MoveAtVel_def split_beta MotionState_SetErrorMsg MotionState_sysIsActiveMotor
      split: bool.splits)

lemma StartHoming_rejected:
  assumes "isMotorEnabled (motors s) board = 0"
  shows "fst (Motors_StartHoming E board s) = ERR_Motor"
    and "MotionState (snd (Motors_StartHoming E board s)) = MotionState s"
  using assms
  by (auto simp: Motors_StartHoming_def split_beta MotionState_SetErrorMsg MotionState_sysIsActiveMotor
      split: bool.splits)

lemma bench_flags:
  "isMotorEnabled (motors bench_state) 0 = 1"
  "isMotorEnabled (motors bench_state) 1 = 1"
  "isMotorEnabled (motors bench_state) 2 = 0"
  "isMotorHoming (motors bench_state) z = 0"
  "isActive 0 bench_state" "isActive 1 bench_state" "\<not> isActive 2 bench_state"
  "isActive 0 boot_state" "isActive 1 boot_state" "\<not> isActive 2 boot_state"
  "isMotorEnabled (motors boot_state) z = 0"
  by (simp_all add: bench_state_def boot_state_def arr4_def isActive_def IsActiveMotor_def MAXNUMMOTORS_def)

lemma xt_prims [frame]:
  "r \<noteq> TMC5240_XTARGET \<Longrightarrow> xtarget_view (tmc5240_writeRegister b r v s) = xtarget_view s"
  "xtarget_view (tmc5240_fieldWrite b f v s) = xtarget_view s"
  "xtarget_view (set_isMotorEnabled b k s) = xtarget_view s"
  "xtarget_view (set_isMotorHoming b k s) = xtarget_view s"
  "xtarget_view (upd_tmc b g s) = xtarget_view s"
  "xtarget_view (upd_sim b h s) = xtarget_view s"
  "xtarget_view (Motors_SetErrorMsg src n msg s) = xtarget_view s"
  "xtarget_view (TMC_SetErrorMsg b msg s) = xtarget_view s"
  by (auto simp: xtarget_view_def tmc5240_writeRegister_def tmc5240_fieldWrite_def
      set_isMotorEnabled_def set_isMotorHoming_def upd_tmc_def upd_sim_def fun_eq_iff
      TMC_SetErrorMsg_def MotionState_SetErrorMsg)

lemma xt_Find [frame]:
  "xtarget_view (snd (snd (snd (FindParamIndexVal b name i0 v0 s)))) = xtarget_view s"
  by (simp_all add: FindParamIndexVal_def frame split: option.splits)

lemma xt_CancelHoming [frame]:
  "xtarget_view (snd (CancelHoming E b s)) = xtarget_view s"
  by (simp_all add: CancelHoming_def Let_def split_beta seq_def frame)

lemma xt_SetEnable [frame]:
  "xtarget_view (snd (TMC_SetEnable E b mode s)) = xtarget_view s"
  by (simp_all add: TMC_SetEnable_def Let_def split_beta seq_def frame)

lemma xt_CheckError [frame]:
  "xtarget_view (snd (CheckError E b s)) = xtarget_view s"
  by (simp_all add: CheckError_def Let_def split_beta seq_def frame)

lemma hwMotorType_cfg: "cfg_view s' = cfg_view s \<Longrightarrow> hwMotorType b s' = hwMotorType b s"
  by (simp add: cfg_view_def hwMotorType_def)

lemma MoveToPos_real_target:
  "hwMotorType b s = MOTOR_TMC \<Longrightarrow>
     regs (hw (snd (TMC_MoveToPos E b pos sv s)) b) TMC5240_XTARGET = pos"
proof -
  assume r: "hwMotorType b s = MOTOR_TMC"
  have "xtarget_view (snd (TMC_MoveToPos E b pos sv s)) b = pos"
    using r
    by (simp add: TMC_MoveToPos_def Let_def split_beta seq_def frame)
       (simp add: xtarget_view_def tmc5240_writeRegister_def)
  then show ?thesis by (simp add: xtarget_view_def)
qed

lemma MoveToPos_sim_target:
  "hwMotorType b s = MOTOR_SIM \<Longrightarrow>
     xact (sim b (snd (TMC_MoveToPos E b pos sv s))) = clamp_sim (sim b s) pos"
  by (simp add: TMC_MoveToPos_def Let_def clamp_sim_def upd_sim_def upd_tmc_def sim_def)

lemma cl_viewD:
  "cl_view s' = cl_view s \<Longrightarrow>
     isMotorMoving (motors s') = isMotorMoving (motors s) \<and>
     isMotorSearching (motors s') = isMotorSearching (motors s) \<and>
     targetPosition (motors s') = targetPosition (motors s) \<and>
     setPosition (motors s') = setPosition (motors s) \<and>
     iterationsLeft (motors s') = iterationsLeft (motors s) \<and>
     isRemoteControlled (motors s') = isRemoteControlled (motors s)"
  by (simp add: cl_view_def)

lemma cfg_viewD:
  "cfg_view s' = cfg_view s \<Longrightarrow>
     hwMotorType b s' = hwMotorType b s \<and>
     motorParam b s' = motorParam b s \<and>
     isActive b s' = isActive b s \<and>
     encConst (tmcArr s' b) = encConst (tmcArr s b) \<and>
     maxIterations (tmcArr s' b) = maxIterations (tmcArr s b) \<and>
     tolerance (tmcArr s' b) = tolerance (tmcArr s b) \<and>
     resetXafterCL (tmcArr s' b) = resetXafterCL (tmcArr s b)"
  by (auto simp: cfg_view_def hwMotorType_def motorParam_def isActive_def IsActiveMotor_def fun_eq_iff
      dest!: spec [of _ b])

lemma isActive_sysIsActiveMotor:
  "isActive b s \<Longrightarrow> sysIsActiveMotor b r s = (True, s)"
  "\<not> isActive b s \<Longrightarrow> fst (sysIsActiveMotor b r s) = False"
  by (auto simp: isActive_def sysIsActiveMotor_def IsActiveMotor_def split: if_splits)

lemmas setter_defs = set_isMotorEnabled_def set_isMotorMoving_def set_isMotorHoming_def
  set_isMotorSearching_def set_targetPosition_def set_setPosition_def set_iterationsLeft_def

lemmas MoveToPos_frame = cl_viewD [OF frame_TMC_MoveToPos(1)] cl_viewD [OF frame_Motors_SetErrorMsg(1)]

lemma xt_fold: "regs (hw s z) TMC5240_XTARGET = xtarget_view s z"
  by (simp add: xtarget_view_def)

lemma motors_upd_views:
  "hwMotorType b (s\<lparr>motors := m\<rparr>) = hwMotorType b s"
  "sim b (s\<lparr>motors := m\<rparr>) = sim b s"
  "xtarget_view (s\<lparr>motors := m\<rparr>) = xtarget_view s"
  "cfg_view (s\<lparr>motors := m\<rparr>) = cfg_view s"
  by (simp_all add: hwMotorType_def sim_def xtarget_view_def cfg_view_def)

lemma Motors_SetErrorMsg_views:
  "hwMotorType b (Motors_SetErrorMsg src n msg s) = hwMotorType b s"
  "sim b (Motors_SetErrorMsg src n msg s) = sim b s"
  using cfg_viewD [OF frame_Motors_SetErrorMsg(2), of b src n msg s]
  by (simp_all add: sim_def MotionState_SetErrorMsg)

lemma MoveToPos_accepted:
  assumes "isActive board s"
    and "isMotorEnabled (motors s) board \<noteq> 0"
    and "isMotorHoming (motors s) board = 0"
  shows "Motors_MoveToPos E board pos setVel s =
           (let r = TMC_MoveToPos E board pos setVel (MoveToPos_prepare board pos s)
            in if fst r \<noteq> ERR_None
               then (ERR_Motor,
                     Motors_SetErrorMsg ''Board'' board ''Error setting position target''
                       (set_isMotorMoving board 0 (snd r)))
               else (ERR_None, snd r))"
  using assms
  by (simp add: Motors_MoveToPos_def MoveToPos_prepare_def isActive_sysIsActiveMotor Let_def
      split_beta seq_def setter_defs)

lemma bench_cfg:
  "encConst (tmcArr bench_state 0) = 71536"
  "maxIterations (tmcArr bench_state 0) = 3"
  "tolerance (tmcArr bench_state 0) = 5"
  "hwMotorType 0 bench_state = MOTOR_TMC"
  "hwMotorType 1 bench_state = MOTOR_SIM"
  "hwMotorType 0 boot_state = MOTOR_SIM"
  "encConst (tmcArr bench_state 1) = 0"
  "maxIterations (tmcArr bench_state 1) = 0"
  by (simp_all add: bench_state_def boot_state_def arr4_def hwMotorType_def)

lemma Config_success_flags:
  assumes "fst (TMC_Config E board s) = ERR_None"
  shows "isMotorEnabled (motors (snd (TMC_Config E board s))) board = 0"
    and "isMotorMoving (motors (snd (TMC_Config E board s))) board = 0"
    and "isMotorHoming (motors (snd (TMC_Config E board s))) board = 0"
  using assms
  by (auto simp: TMC_Config_def Let_def split_beta seq_def setter_defs split: if_splits)

lemma CheckStatus_ok:
  assumes "fst (CheckStatus E now b d0 s) = ERR_None" and "isMotorHoming (motors s) b = 0"
  shows "motors (snd (snd (CheckStatus E now b d0 s))) = motors s"
    and "params (snd (snd (CheckStatus E now b d0 s))) = params s"
    and "hw (snd (snd (CheckStatus E now b d0 s))) = hw s"
    and "hwMotorType b s = MOTOR_TMC \<Longrightarrow> snd (snd (CheckStatus E now b d0 s)) = s"
    and "hwMotorType b s \<noteq> MOTOR_NONE"
  using assms
  by (auto simp: CheckStatus_def Let_def split_beta upd_sim_def upd_tmc_def split: if_splits)

lemma GetEnc_active:
  "hwMotorType b s \<noteq> MOTOR_NONE \<Longrightarrow> snd (snd (TMC_GetEnc b p0 s)) = s"
  "hwMotorType b s = MOTOR_TMC \<Longrightarrow> fst (snd (TMC_GetEnc b p0 s)) = regs (hw s b) TMC5240_XENC"
  "hwMotorType b s = MOTOR_SIM \<Longrightarrow> fst (snd (TMC_GetEnc b p0 s)) = xact (sim b s)"
  by (cases "hwMotorType b s"; simp add: TMC_GetEnc_def tmc5240_readRegister_def)+

lemma isActive_type: "isActive z s \<Longrightarrow> hwMotorType z s \<noteq> MOTOR_NONE"
  by (auto simp: isActive_def IsActiveMotor_def hwMotorType_def split: if_splits)

lemma encoder_reading_GetEnc:
  "hwMotorType z s \<noteq> MOTOR_NONE \<Longrightarrow> fst (snd (TMC_GetEnc z p0 s)) = encoder_reading z s"
  by (cases "hwMotorType z s") (simp_all add: encoder_reading_def GetEnc_active)

lemma set_moving_views:
  "hwMotorType z (set_isMotorMoving b k s) = hwMotorType z s"
  "encoder_reading z (set_isMotorMoving b k s) = encoder_reading z s"
  "targetPosition (motors (set_isMotorMoving b k s)) = targetPosition (motors s)"
  "iterationsLeft (motors (set_isMotorMoving b k s)) = iterationsLeft (motors s)"
  "setPosition (motors (set_isMotorMoving b k s)) = setPosition (motors s)"
  "isMotorSearching (motors (set_isMotorMoving b k s)) = isMotorSearching (motors s)"
  "tmcArr (set_isMotorMoving b k s) = tmcArr s"
  "hw (set_isMotorMoving b k s) = hw s"
  by (simp_all add: set_isMotorMoving_def hwMotorType_def encoder_reading_def sim_def)

lemma status_poll_searching_done:
  assumes act: "isActive z s"
    and en: "isMotorEnabled (motors s) z \<noteq> 0"
    and nh: "isMotorHoming (motors s) z = 0"
    and se: "isMotorSearching (motors s) z \<noteq> 0"
    and cs: "CheckStatus E now z done0 s = (ERR_None, dn, s1)"
    and dn: "dn \<noteq> 0"
  shows "snd (status_poll E now z ((done0, currPos0), s)) =
           search_done E z (encoder_reading z s1) (set_isMotorMoving z 0 s1)"
proof -
  have cfg: "cfg_view s1 = cfg_view s"
    using frame_CheckStatus(2) [of E now z done0 s] by (simp add: cs)
  have ty: "hwMotorType z s1 \<noteq> MOTOR_NONE"
    using isActive_type [OF act] cfg_viewD [OF cfg, of z] by simp
  show ?thesis
    using act en nh se dn ty
    by (simp add: status_poll_def cs split_beta GetEnc_active encoder_reading_GetEnc
        set_moving_views)
qed

lemma pullin_prepare_sel:
  "iterationsLeft (motors (pullin_prepare z d s)) z =
     (if 1 <s maxIterations (tmcArr s z) then iterationsLeft (motors s) z - 1
      else iterationsLeft (motors s) z)"
  "setPosition (motors (pullin_prepare z d s)) z = setPosition (motors s) z - d"
  "isMotorSearching (motors (pullin_prepare z d s)) = isMotorSearching (motors s)"
  "isMotorMoving (motors (pullin_prepare z d s)) z = 1"
  "targetPosition (motors (pullin_prepare z d s)) = targetPosition (motors s)"
  "hw (pullin_prepare z d s) = hw s"
  "tmcArr (pullin_prepare z d s) = tmcArr s"
  "hwMotorType b (pullin_prepare z d s) = hwMotorType b s"
  by (simp_all add: pullin_prepare_def seq_def setter_defs hwMotorType_def)

lemma search_failed_sel:
  "isMotorMoving (motors (search_failed z s)) z = 0"
  "isMotorSearching (motors (search_failed z s)) z = 0"
  "iterationsLeft (motors (search_failed z s)) = iterationsLeft (motors s)"
  "setPosition (motors (search_failed z s)) = setPosition (motors s)"
  "targetPosition (motors (search_failed z s)) = targetPosition (motors s)"
  "hw (search_failed z s) = hw s"
  "tmcArr (search_failed z s) = tmcArr s"
  by (simp_all add: search_failed_def seq_def setter_defs MotionState_SetErrorMsg
      cl_viewD [OF frame_Motors_SetErrorMsg(1)])

lemma show_int_digit: "0 \<le> z \<Longrightarrow> z < 10 \<Longrightarrow> length (show_int z) = 1"
proof -
  assume "0 \<le> z" and "z < 10"
  then have "nat z < 10" by simp
  then have "show_nat (nat z) = [digit_char (nat z)]"
    by (subst show_nat.simps) simp
  with \<open>0 \<le> z\<close> show ?thesis by (simp add: show_int_def)
qed

lemma Motors_SetErrorMsg_board:
  assumes "0 \<le> z" and "z < MAXNUMMOTORS"
  shows "errorFlagBoard (motors (Motors_SetErrorMsg src z msg s)) z \<noteq> 0"
    and "errorFlagBoard (motors s) z = 0 \<Longrightarrow>
           errorFlag (motors (Motors_SetErrorMsg src z msg s)) = 1 \<and>
           errorFlagBoard (motors (Motors_SetErrorMsg src z msg s)) z = 1 \<and>
           errorMsgBoard (motors (Motors_SetErrorMsg src z msg s)) z =
             snprintf MAXERRORSTRINGSIZE (src @ '' error in board '' @ show_int z @ '': '' @ msg)"
  using assms
  by (auto simp: Motors_SetErrorMsg_def sysIsValidMotor_def IsValidMotor_def Let_def
      MAXNUMMOTORS_def)

lemma isActive_range: "isActive z s \<Longrightarrow> 0 \<le> z \<and> z < MAXNUMMOTORS"
  by (auto simp: isActive_def IsActiveMotor_def split: if_splits)

lemma did_not_converge_text:
  assumes "0 \<le> z" and "z < MAXNUMMOTORS"
  shows "snprintf MAXERRORSTRINGSIZE
           (''Board'' @ '' error in board '' @ show_int z @ '': ''
              @ ''Closed loop motion did not converge'')
         = ''Board error in board '' @ show_int z @ '': Closed loop motion did not converge''"
  using show_int_digit [of z] assms
  by (simp add: snprintf_def MAXERRORSTRINGSIZE_def MAXNUMMOTORS_def)

lemma search_failed_fault:
  assumes "0 \<le> z" and "z < MAXNUMMOTORS"
  shows "errorFlagBoard (motors (search_failed z s)) z \<noteq> 0"
    and "errorFlagBoard (motors s) z = 0 \<Longrightarrow>
           errorFlag (motors (search_failed z s)) = 1 \<and>
           errorFlagBoard (motors (search_failed z s)) z = 1 \<and>
           errorMsgBoard (motors (search_failed z s)) z =
             ''Board error in board '' @ show_int z @ '': Closed loop motion did not converge''"
  using Motors_SetErrorMsg_board [OF assms, where src = "''Board''"
           and msg = "''Closed loop motion did not converge''" and s = s]
        did_not_converge_text [OF assms]
  by (simp_all add: search_failed_def seq_def setter_defs)

lemma MoveToPos_keeps_velocity:
  assumes "hwMotorType b s = MOTOR_TMC" and "regs (hw s b) TMC5240_GSTAT = 0"
  shows "regs (hw (snd (TMC_MoveToPos E b pos 0 s)) b) TMC5240_VMAX = regs (hw s b) TMC5240_VMAX"
  using assms
  by (simp add: TMC_MoveToPos_def CheckError_def Let_def seq_def tmc5240_writeRegister_def
      tmc5240_fieldWrite_def tmc5240_readRegister_def hwMotorType_def)

lemma CheckStatus_ok_result:
  assumes cs: "CheckStatus E now z done0 s = (ERR_None, dn, s1)"
    and nh: "isMotorHoming (motors s) z = 0"
  shows "motors s1 = motors s" and "hw s1 = hw s" and "cfg_view s1 = cfg_view s"
    and "hwMotorType z s1 = hwMotorType z s"
    and "tolerance (tmcArr s1 z) = tolerance (tmcArr s z)"
    and "maxIterations (tmcArr s1 z) = maxIterations (tmcArr s z)"
    and "resetXafterCL (tmcArr s1 z) = resetXafterCL (tmcArr s z)"
proof -
  have f: "fst (CheckStatus E now z done0 s) = ERR_None" by (simp add: cs)
  show "motors s1 = motors s" "hw s1 = hw s"
    using CheckStatus_ok(1,3) [OF f nh] by (simp_all add: cs)
  show c: "cfg_view s1 = cfg_view s"
    using frame_CheckStatus(2) [of E now z done0 s] by (simp add: cs)
  show "hwMotorType z s1 = hwMotorType z s" "tolerance (tmcArr s1 z) = tolerance (tmcArr s z)"
    "maxIterations (tmcArr s1 z) = maxIterations (tmcArr s z)"
    "resetXafterCL (tmcArr s1 z) = resetXafterCL (tmcArr s z)"
    using cfg_viewD [OF c, of z] by simp_all
qed

lemma search_state_facts:
  "isActive 0 (search_state enc left)"
  "isMotorEnabled (motors (search_state enc left)) 0 = 1"
  "isMotorHoming (motors (search_state enc left)) 0 = 0"
  "isMotorSearching (motors (search_state enc left)) 0 = 1"
  "targetPosition (motors (search_state enc left)) 0 = 1000"
  "setPosition (motors (search_state enc left)) 0 = 1000"
  "iterationsLeft (motors (search_state enc left)) 0 = left"
  "errorFlagBoard (motors (search_state enc left)) 0 = 0"
  "tolerance (tmcArr (search_state enc left) 0) = 5"
  "maxIterations (tmcArr (search_state enc left) 0) = 3"
  "resetXafterCL (tmcArr (search_state enc left) 0) = 0"
  "hwMotorType 0 (search_state enc left) = MOTOR_TMC"
  "encoder_reading 0 (search_state enc left) = enc"
  "regs (hw (search_state enc left) 0) TMC5240_GSTAT = 0"
  "regs (hw (search_state enc left) 0) TMC5240_VMAX = 32000"
  by (simp_all add: search_state_def bench_state_def boot_state_def arr4_def isActive_def
      IsActiveMotor_def MAXNUMMOTORS_def hwMotorType_def encoder_reading_def)

lemma search_state_CheckStatus:
  "CheckStatus bench_env now 0 d0 (search_state enc left) = (ERR_None, 1, search_state enc left)"
  by (simp add: CheckStatus_def search_state_facts Let_def tmc5240_fieldRead_def
      tmc5240_readRegister_def)
     (simp add: search_state_def bench_env_def)

lemma hold_state_facts:
  "isActive 0 hold_state"
  "isMotorEnabled (motors hold_state) 0 = 1"
  "isMotorHoming (motors hold_state) 0 = 0"
  "isMotorSearching (motors hold_state) 0 = 1"
  "targetPosition (motors hold_state) 0 = 1000"
  "iterationsLeft (motors hold_state) 0 = - 1"
  "tolerance (tmcArr hold_state 0) = 5"
  "maxIterations (tmcArr hold_state 0) = 0"
  "resetXafterCL (tmcArr hold_state 0) = 1"
  "hwMotorType 0 hold_state = MOTOR_TMC"
  "encoder_reading 0 hold_state = 1003"
  by (simp_all add: hold_state_def upd_tmc_def search_state_def bench_state_def boot_state_def
      arr4_def isActive_def IsActiveMotor_def MAXNUMMOTORS_def hwMotorType_def encoder_reading_def)

lemma hold_state_CheckStatus:
  "CheckStatus bench_env now 0 d0 hold_state = (ERR_None, 1, hold_state)"
  by (simp add: CheckStatus_def hold_state_facts Let_def tmc5240_fieldRead_def
      tmc5240_readRegister_def)
     (simp add: hold_state_def upd_tmc_def search_state_def bench_env_def)

lemma SetXPos_real:
  assumes "hwMotorType z s = MOTOR_TMC"
  shows "regs (hw (snd (TMC_SetXPos z p s)) z) TMC5240_XACTUAL = p"
    and "regs (hw (snd (TMC_SetXPos z p s)) z) TMC5240_XTARGET = p"
    and "regs (hw (snd (TMC_SetXPos z p s)) z) TMC5240_VMAX = regs (hw s z) TMC5240_VMAX"
  using assms
  by (simp_all add: TMC_SetXPos_def Let_def seq_def tmc5240_writeRegister_def
      tmc5240_readRegister_def)

lemma SetXPos_sim:
  assumes "hwMotorType z s = MOTOR_SIM"
  shows "xact (sim z (snd (TMC_SetXPos z p s))) = p"
    and "xtar (sim z (snd (TMC_SetXPos z p s))) = p"
  using assms by (simp_all add: TMC_SetXPos_def sim_def upd_sim_def upd_tmc_def)

lemma search_reached_flags:
  "isMotorMoving (motors (search_reached z c s)) z = 0"
  "isMotorSearching (motors (search_reached z c s)) z =
     (if iterationsLeft (motors s) z \<noteq> -1 then 0 else isMotorSearching (motors s) z)"
  by (simp_all add: search_reached_def seq_def cl_viewD [OF frame_TMC_SetXPos(1)] setter_defs)

lemma search_reached_reset:
  assumes "resetXafterCL (tmcArr s z) \<noteq> 0"
  shows "hwMotorType z s = MOTOR_TMC \<Longrightarrow>
           regs (hw (search_reached z c s) z) TMC5240_XACTUAL = c \<and>
           regs (hw (search_reached z c s) z) TMC5240_XTARGET = c \<and>
           regs (hw (search_reached z c s) z) TMC5240_VMAX = regs (hw s z) TMC5240_VMAX"
    and "hwMotorType z s = MOTOR_SIM \<Longrightarrow>
           xact (sim z (search_reached z c s)) = c \<and> xtar (sim z (search_reached z c s)) = c"
proof -
  define s1 where
    "s1 = seq [set_isMotorMoving z 0,
               (\<lambda>s'. if iterationsLeft (motors s') z \<noteq> -1 then set_isMotorSearching z 0 s'
                      else s')] s"
  have v: "hwMotorType z s1 = hwMotorType z s" "hw s1 = hw s" "tmcArr s1 = tmcArr s"
    by (simp_all add: s1_def seq_def setter_defs hwMotorType_def)
  have r: "search_reached z c s = snd (TMC_SetXPos z c s1)"
    using assms by (simp add: search_reached_def s1_def seq_def v [unfolded s1_def seq_def, simplified])
  show "hwMotorType z s = MOTOR_TMC \<Longrightarrow>
           regs (hw (search_reached z c s) z) TMC5240_XACTUAL = c \<and>
           regs (hw (search_reached z c s) z) TMC5240_XTARGET = c \<and>
           regs (hw (search_reached z c s) z) TMC5240_VMAX = regs (hw s z) TMC5240_VMAX"
    using SetXPos_real [of z s1 c] by (simp add: r v)
  show "hwMotorType z s = MOTOR_SIM \<Longrightarrow>
           xact (sim z (search_reached z c s)) = c \<and> xtar (sim z (search_reached z c s)) = c"
    using SetXPos_sim [of z s1 c] by (simp add: r v)
qed

lemma search_reached_no_reset:
  assumes "resetXafterCL (tmcArr s z) = 0"
  shows "hw (search_reached z c s) = hw s" and "tmcArr (search_reached z c s) = tmcArr s"
  using assms by (simp_all add: search_reached_def seq_def setter_defs)

lemma status_poll_reached:
  assumes act: "isActive z s"
    and en: "isMotorEnabled (motors s) z \<noteq> 0"
    and nh: "isMotorHoming (motors s) z = 0"
    and se: "isMotorSearching (motors s) z \<noteq> 0"
    and cs: "CheckStatus E now z done0 s = (ERR_None, dn, s1)"
    and dn: "dn \<noteq> 0"
    and tol: "abs32 (encoder_reading z s1 - targetPosition (motors s) z) \<le>s tolerance (tmcArr s z)"
  shows "snd (status_poll E now z ((done0, currPos0), s)) =
           search_reached z (encoder_reading z s1) (set_isMotorMoving z 0 s1)"
proof -
  note ok = CheckStatus_ok_result [OF cs nh]
  have nt: "\<not> tolerance (tmcArr s z) <s abs32 (encoder_reading z s1 - targetPosition (motors s) z)"
    using tol by (simp add: word_sless_alt word_sle_eq)
  show ?thesis
    using nt
    by (simp add: status_poll_searching_done [OF act en nh se cs dn] search_done_def Let_def
        set_moving_views ok)
qed

lemma find_name_known:
  "find_name ''HSST'' motParamsIDList 0 = Some 13"
  "find_name ''HMOD'' motParamsIDList 0 = Some 10"
  "find_name ''HDIR'' motParamsIDList 0 = Some 11"
  by (simp_all add: motParamsIDList_def strncmp0_def)

lemma Find_known:
  "find_name name motParamsIDList 0 = Some idx \<Longrightarrow>
     FindParamIndexVal b name i0 v0 s = (ERR_None, idx, motorParam b s idx, s)"
  by (simp add: FindParamIndexVal_def)

lemma paramValue_known:
  "paramValue ''HMOD'' b s = motorParam b s 10"
  "paramValue ''HDIR'' b s = motorParam b s 11"
  by (simp_all add: paramValue_def Find_known [OF find_name_known(2)] Find_known [OF find_name_known(3)])

lemma abs32_eq_1: "abs32 d = 1 \<longleftrightarrow> d = 1 \<or> d = -1"
  by (auto simp: abs32_def word_sless_alt minus_equation_iff [of d])

lemma MotionState_TMC_SetErrorMsg:
  "MotionState (TMC_SetErrorMsg b msg s) = MotionState s"
  "motorParam c (TMC_SetErrorMsg b msg s) = motorParam c s"
  using cfg_viewD [OF frame_TMC_SetErrorMsg(2), of c b msg s]
  by (simp_all add: TMC_SetErrorMsg_def MotionState_SetErrorMsg)

lemma MotionState_IsParamInRange:
  "MotionState (snd (IsParamInRange b i mn mx s)) = MotionState s"
  "motorParam c (snd (IsParamInRange b i mn mx s)) = motorParam c s"
  by (simp_all add: IsParamInRange_def Let_def MotionState_TMC_SetErrorMsg)

lemma StartHoming_real_refused:
  assumes "hwMotorType b s = MOTOR_TMC"
    and "paramValue ''HMOD'' b s = 0 \<or> (paramValue ''HDIR'' b s \<noteq> 1 \<and> paramValue ''HDIR'' b s \<noteq> -1)"
  shows "fst (TMC_StartHoming E b s) = ERR_TMC"
    and "MotionState (snd (TMC_StartHoming E b s)) = MotionState s"
  using assms
  by (auto simp: TMC_StartHoming_def paramValue_known Find_known [OF find_name_known(1)]
      Find_known [OF find_name_known(2)] Find_known [OF find_name_known(3)] split_beta
      MotionState_IsParamInRange MotionState_TMC_SetErrorMsg abs32_eq_1
      split: bool.splits)

lemma StartHoming_sim:
  assumes "hwMotorType b s = MOTOR_SIM"
  shows "fst (TMC_StartHoming E b s) = ERR_None"
    and "isMotorHoming (motors (snd (TMC_StartHoming E b s))) b = 0"
  using assms by (simp_all add: TMC_StartHoming_def seq_def set_isMotorHoming_def)

lemma nodir_state_facts:
  "isActive 0 nodir_state" "isActive 1 nodir_state"
  "isMotorEnabled (motors nodir_state) 0 = 1" "isMotorEnabled (motors nodir_state) 1 = 1"
  "isMotorHoming (motors nodir_state) 0 = 0"
  "hwMotorType 0 nodir_state = MOTOR_TMC" "hwMotorType 1 nodir_state = MOTOR_SIM"
  "paramValue ''HDIR'' 0 nodir_state = 0"
  "paramValue ''HMOD'' 0 nodir_state = 1"
  by (simp_all add: nodir_state_def SetMotorParams_def IsValidMotor_def MAXNUMMOTORS_def
      bench_state_def boot_state_def arr4_def isActive_def IsActiveMotor_def hwMotorType_def
      paramValue_known motorParam_def defaultStepperMotorParams_def)

subsection \<open>Frames from the remote unit\<close>

lemma takeWhile_neq_append:
  "c \<notin> set xs \<Longrightarrow> takeWhile (\<lambda>x. x \<noteq> c) (xs @ ys) = xs @ takeWhile (\<lambda>x. x \<noteq> c) ys"
  by (induction xs) auto

lemma cstr_append_NUL:
  "CHR 0x00 \<notin> set xs \<Longrightarrow> cstr (xs @ CHR 0x00 # ys) = xs"
  by (simp add: cstr_def takeWhile_neq_append)

lemma cstr_append_sep:
  "CHR 0x00 \<notin> set xs \<Longrightarrow> cstr (xs @ c # ys) = (if c = CHR 0x00 then xs else xs @ c # cstr ys)"
  by (simp add: cstr_def takeWhile_neq_append)

lemma validateChecksum_no_separator:
  "CHR ''|'' \<notin> set (cstr data) \<Longrightarrow> validateChecksum E data = (-1, data)"
  by (simp add: validateChecksum_def)

lemma validateChecksum_frame:
  assumes "CHR ''|'' \<notin> set (head # payload)" and "CHR 0x00 \<notin> set (head # payload)"
  shows "validateChecksum E (head # payload @ CHR ''|'' # tail) =
           (if calculateChecksum payload \<noteq>
                 (case scan_hhu (cstr tail) of Some (v, _) \<Rightarrow> v | None \<Rightarrow> junk8 E)
            then - 1 else 0,
            head # payload @ CHR 0x00 # tail)"
proof -
  let ?frame = "head # payload @ CHR ''|'' # tail"
  have c: "cstr ?frame = head # payload @ CHR ''|'' # cstr tail"
    using assms cstr_append_sep [of "head # payload" "CHR ''|''" tail] by simp
  have k: "length (takeWhile (\<lambda>c. c \<noteq> CHR ''|'') (cstr ?frame)) = Suc (length payload)"
    using assms by (auto simp: c takeWhile_neq_append)
  have u: "?frame[Suc (length payload) := CHR 0x00] = head # payload @ CHR 0x00 # tail"
    by (simp add: list_update_append)
  have p: "cstr (payload @ CHR 0x00 # tail) = payload"
    using assms by (simp add: cstr_append_NUL)
  show ?thesis
    unfolding validateChecksum_def k u
    by (simp add: c p Let_def)
qed

lemma scan_hhu_7: "scan_hhu ''7'' = Some (7, [])"
  by (simp add: scan_hhu_def scan_number_def scan_sign_def scan_magnitude_def scan_digits_def
      isspace_def digit_of_def number_of_def strtoul_value_def Let_def)

lemma sum_POS: "calculateChecksum ''POS0=100'' = 240"
  by (simp add: calculateChecksum_def)

text \<open>A frame with the right checksum and a single command is handed on.\<close>

lemma good_frame_processed:
  assumes due: "REMOTE_RECEIVE_INTERVAL_MS < now - lastReceiveTime (remote s)"
      and some: "uart_rx (remote s) \<noteq> []"
      and read: "readBytesUntil (CHR ''>'') REMOTE_MSG_MAXLENGTH (uart_rx (remote s))
                   = (head # payload @ CHR ''|'' # tail, rest)"
      and len: "tail \<noteq> []"
      and clean: "CHR ''|'' \<notin> set (head # payload)" "CHR 0x00 \<notin> set (head # payload)"
      and sum: "scan_hhu (cstr tail) = Some (calculateChecksum payload, r)"
      and single: "CHR '';'' \<notin> set payload"
  shows "CheckRemoteCommands E now s =
           (let s1 = processRemoteCommand E now payload
                       (s\<lparr>remote := (remote s)\<lparr>uart_rx := rest\<rparr>\<rparr>)
            in s1\<lparr>remote := (remote s1)\<lparr>lastReceiveTime := now\<rparr>\<rparr>)"
proof -
  have v: "validateChecksum E (head # payload @ CHR ''|'' # tail)
             = (0, head # payload @ CHR 0x00 # tail)"
    using validateChecksum_frame [OF clean, of E tail] sum by simp
  have p: "cstr (payload @ CHR 0x00 # tail) = payload"
    using clean by (simp add: cstr_append_NUL)
  show ?thesis
    using due some read len single
    by (simp add: CheckRemoteCommands_def remote_frame_def v p Let_def)
qed

subsection \<open>Lines from the host\<close>

lemma strncmp0_known_prefix:
  "take m line = p \<Longrightarrow> n \<le> m \<Longrightarrow> strncmp0 line q n = (take n p = take n q)"
  by (auto simp: strncmp0_def min_def)

lemma prefix_length: "take n line = p \<Longrightarrow> n = length p \<Longrightarrow> n \<le> length line"
  by (metis length_take min.cobounded1 min.commute)

lemma cstr_length: "length (cstr buf) \<le> length buf"
  by (simp add: cstr_def length_takeWhile_le)

lemma sscanf_board_value_prefix:
  "sscanf_board_value p conv sep line = Some r \<Longrightarrow> n = length p \<Longrightarrow> take n line = p"
  by (simp add: sscanf_board_value_def split: if_splits)

lemma sscanf_board_prefix:
  "sscanf_board p conv line = Some r \<Longrightarrow> n = length p \<Longrightarrow> take n line = p"
  by (simp add: sscanf_board_def split: if_splits)

lemma serial_upd_views:
  "isActive z (s\<lparr>serial := x\<rparr>) = isActive z s"
  "hwMotorType z (s\<lparr>serial := x\<rparr>) = hwMotorType z s"
  "motors (s\<lparr>serial := x\<rparr>) = motors s"
  by (simp_all add: isActive_def hwMotorType_def)

lemma CheckRemoteControl_locked:
  "0 \<le> z \<Longrightarrow> z < MAXNUMMOTORS \<Longrightarrow> isRemoteControlled (motors s) z \<noteq> 0 \<Longrightarrow>
     CheckRemoteControl z s = Some (ERR_Serial, Serial_SetErrorMsg ''Motor is under remote control'' s)"
  by (simp add: CheckRemoteControl_def)

lemma serial_line_MPOS:
  assumes "sscanf_board_value ''SMC_MPOS'' scan_hhi (CHR '','') (cstr serialData) = Some (z, v)"
  shows "serial_line E others now serialData s = cmd_SMC_MPOS E (cstr serialData) s"
proof -
  have p: "take 8 (cstr serialData) = ''SMC_MPOS''"
    using sscanf_board_value_prefix [OF assms, of 8] by simp
  have "8 \<le> length (cstr serialData)" using prefix_length [OF p] by simp
  then have "\<not> length serialData < 5" using cstr_length [of serialData] by simp
  then show ?thesis
    by (simp add: serial_line_def Let_def strncmp0_known_prefix [OF p])
qed

lemma serial_line_MVEL:
  assumes "sscanf_board_value ''SMC_MVEL'' scan_hhi (CHR '','') (cstr serialData) = Some (z, v)"
  shows "serial_line E others now serialData s = cmd_SMC_MVEL E now (cstr serialData) s"
proof -
  have p: "take 8 (cstr serialData) = ''SMC_MVEL''"
    using sscanf_board_value_prefix [OF assms, of 8] by simp
  have "8 \<le> length (cstr serialData)" using prefix_length [OF p] by simp
  then have "\<not> length serialData < 5" using cstr_length [of serialData] by simp
  then show ?thesis
    by (simp add: serial_line_def Let_def strncmp0_known_prefix [OF p])
qed

lemma serial_line_HOME:
  assumes "sscanf_board ''SMC_HOME'' scan_hhi (cstr serialData) = Some z"
  shows "serial_line E others now serialData s = cmd_SMC_HOME E (cstr serialData) s"
proof -
  have p: "take 8 (cstr serialData) = ''SMC_HOME''"
    using sscanf_board_prefix [OF assms, of 8] by simp
  have "8 \<le> length (cstr serialData)" using prefix_length [OF p] by simp
  then have "\<not> length serialData < 5" using cstr_length [of serialData] by simp
  then show ?thesis
    by (simp add: serial_line_def Let_def has_prefix_def strncmp0_known_prefix [OF p])
qed

lemma serial_line_SMS:
  assumes "sscanf_board_value (''SMS_'' @ name) scan_hhd (CHR '','') (cstr serialData) = Some (z, v)"
      and "length name = 4"
  shows "serial_line E others now serialData s = cmd_SMS E (cstr serialData) s"
proof -
  have p: "take 8 (cstr serialData) = ''SMS_'' @ name"
    using sscanf_board_value_prefix [OF assms(1), of 8] assms(2) by simp
  have "8 \<le> length (cstr serialData)"
    using prefix_length [OF p] assms(2) by simp
  then have "\<not> length serialData < 5" using cstr_length [of serialData] by simp
  then show ?thesis
    by (simp add: serial_line_def Let_def has_prefix_def strncmp0_known_prefix [OF p])
qed

lemma SMS_name_index:
  assumes "name \<in> set motStatIDList" and "name \<noteq> ''ENAB''"
      and "take 8 line = ''SMS_'' @ name"
  shows "\<exists>idx. find_name (drop 4 line) motStatIDList 0 = Some idx \<and>
               motStatIDList ! nat idx = name"
proof -
  have "take 4 (drop 4 line) = drop 4 (take 8 line)" by (simp add: drop_take)
  then have t: "take 4 (drop 4 line) = name" using assms(3) by simp
  show ?thesis
    using assms(1) by (auto simp: motStatIDList_def strncmp0_def t)
qed

lemma SetStatusValue_locked:
  assumes "isActive z s" and "isRemoteControlled (motors s) z \<noteq> 0"
      and "\<not> strncmp0 (motStatIDList ! nat idx) ''ENAB'' 4"
  shows "Motors_SetStatusValue E z idx v s =
           (ERR_Motor, TMC_SetErrorMsg z ''Motor is under remote control'' s)"
  using assms isActive_type [OF assms(1)]
  by (cases "hwMotorType z s")
     (simp_all add: Motors_SetStatusValue_def isActive_sysIsActiveMotor TMC_SetStatusValue_def Let_def)


lemma scan_examples:
  "sscanf_board_value ''SMC_MPOS'' scan_hhi (CHR '','') ''SMC_MPOS0,100'' = Some (0, 100)"
  "sscanf_board_value ''SMC_MVEL'' scan_hhi (CHR '','') ''SMC_MVEL0,-5'' = Some (0, - 5)"
  "sscanf_board ''SMC_HOME'' scan_hhi ''SMC_HOME0'' = Some 0"
  "sscanf_board_value ''SMS_XTAR'' scan_hhd (CHR '','') ''SMS_XTAR0,100'' = Some (0, 100)"
  "sscanf_board_value ''SMS_ENAB'' scan_hhd (CHR '','') ''SMS_ENAB1,0'' = Some (1, 0)"
  by (simp_all add: sscanf_board_value_def sscanf_board_def scan_hhi_def scan_hhd_def scan_d_def
      scan_number_def scan_sign_def scan_magnitude_def scan_digits_def isspace_def digit_of_def
      number_of_def strtol_value_def Let_def)


lemma remote_state_host:
  "SERIAL_CHECK_INTERVAL_MS < 100 - lastCheckTime (serial (host_sends bytes remote_state))"
  "serial_in (serial (host_sends bytes remote_state)) = bytes"
  "isActive 0 (host_sends bytes remote_state)"
  "isActive 1 (host_sends bytes remote_state)"
  "isRemoteControlled (motors (host_sends bytes remote_state)) 0 = 1"
  "isRemoteControlled (motors (host_sends bytes remote_state)) 1 = 1"
  "isMotorEnabled (motors remote_state) 1 = 1"
  "hwMotorType 1 (host_sends bytes remote_state) = MOTOR_SIM"
  "serial_out (serial remote_state) = []"
  "(host_sends bytes remote_state)\<lparr>serial := (serial (host_sends bytes remote_state))\<lparr>serial_in := []\<rparr>\<rparr>
     = remote_state"
  by (simp_all add: host_sends_def remote_state_def bench_state_def boot_state_def arr4_def
      isActive_def IsActiveMotor_def MAXNUMMOTORS_def SERIAL_CHECK_INTERVAL_MS_def
      hwMotorType_def)

lemma show_error_code:
  "show_int 0 = ''0''"
  "show_int (- 1) = ''-1''"
  "show_int (- 2) = ''-2''"
  by code_simp+

lemma reply_text:
  "serial_out (serial (ReportErrorCode err s)) =
     serial_out (serial s) @ ''ERROR='' @ show_int (ErrorCode err) @ [CHR 0x0D, CHR 0x0A]"
  "motors (ReportErrorCode err s) = motors s"
  "hw (ReportErrorCode err s) = hw s"
  "motors (Serial_SetErrorMsg msg s) = motors s"
  "hw (Serial_SetErrorMsg msg s) = hw s"
  "serial_out (serial (Serial_SetErrorMsg msg s)) = serial_out (serial s)"
  by (simp_all add: ReportErrorCode_def Serial_println_def Serial_print_def Serial_SetErrorMsg_def)

text \<open>Without the remote-controlled flag the position command reaches the motion layer.\<close>

lemma unlocked_MPOS_forwarded:
  assumes due: "SERIAL_CHECK_INTERVAL_MS < now - lastCheckTime (serial s)"
      and some: "serial_in (serial s) \<noteq> []"
      and read: "readBytesUntil SERIAL_TERMCHAR SERIAL_MSG_MAXLENGTH (serial_in (serial s))
                   = (serialData, rest)"
      and rng: "0 \<le> z" "z < MAXNUMMOTORS"
      and free: "isRemoteControlled (motors s) z = 0"
      and cmd: "sscanf_board_value ''SMC_MPOS'' scan_hhi (CHR '','') (cstr serialData) = Some (z, v)"
  shows "CheckSerialCommand E others now s =
           report (Motors_MoveToPos E z v 1 (s\<lparr>serial := (serial s)\<lparr>serial_in := rest\<rparr>\<rparr>))"
  using due some read rng free cmd
  by (simp add: CheckSerialCommand_def serial_line_MPOS [OF cmd] cmd_SMC_MPOS_def
      CheckRemoteControl_def)

subsection \<open>What TMC::Config copies\<close>

lemma par_of_cfg: "cfg_view s' = cfg_view s \<Longrightarrow> par_view s' = par_view s"
  by (simp add: cfg_view_def par_view_def)

lemma par_viewD:
  "par_view s' = par_view s \<Longrightarrow>
     hwMotorType b s' = hwMotorType b s \<and> motorParam b s' = motorParam b s \<and>
     isActive b s' = isActive b s"
  by (simp add: par_view_def hwMotorType_def motorParam_def isActive_def IsActiveMotor_def)

lemma par_upd_tmc: "par_view (upd_tmc b g s) = par_view s"
  by (simp add: par_view_def upd_tmc_def)

lemma par_prims:
  "par_view (tmc5240_fieldWrite b f v s) = par_view s"
  "par_view (tmc5240_writeRegister b r v s) = par_view s"
  "par_view (snd (snd (snd (FindParamIndexVal b name i0 v0 s)))) = par_view s"
  "par_view (snd (IsParamInRange b i mn mx s)) = par_view s"
  by (rule par_of_cfg, simp add: frame)+

lemma frame_ranged_field:
  "cfg_view (snd (ranged_field b idx mn mx f v s)) = cfg_view s"
  by (simp add: ranged_field_def split_beta bool.case_eq_if frame)

lemma par_ranged_field:
  "par_view (snd (ranged_field b idx mn mx f v s)) = par_view s"
  by (simp add: ranged_field_def split_beta bool.case_eq_if par_prims)

lemma par_ifI:
  "par_view (snd x) = p \<Longrightarrow> par_view (snd y) = p \<Longrightarrow> par_view (snd (if c then x else y)) = p"
  by simp



lemma par_LetI: "(\<And>x. par_view (snd (f x)) = p) \<Longrightarrow> par_view (snd (Let a f)) = p"
  by simp

lemma Config_param_par: "par_view (snd (Config_param E b idx s)) = par_view s"
  unfolding Config_param_def
  by (intro par_LetI par_ifI)
     (simp_all add: par_ranged_field par_prims par_upd_tmc seq_def split_beta bool.case_eq_if)


lemma copies_LetI:
  "(\<And>x. x = a \<Longrightarrow> P (f x)) \<Longrightarrow> P (Let a f)"
  by simp

lemma copies_ifI:
  "(c \<Longrightarrow> P x) \<Longrightarrow> (\<not> c \<Longrightarrow> P y) \<Longrightarrow> P (if c then x else y)"
  by simp

lemma upd_tmc_copies:
  "encConst (tmcArr (upd_tmc b g s) b) = encConst (g (tmcArr s b))"
  "maxIterations (tmcArr (upd_tmc b g s) b) = maxIterations (g (tmcArr s b))"
  by (simp_all add: upd_tmc_def)

lemma ranged_field_copies:
  "encConst (tmcArr (snd (ranged_field b idx mn mx f v s)) b) = encConst (tmcArr s b)"
  "maxIterations (tmcArr (snd (ranged_field b idx mn mx f v s)) b) = maxIterations (tmcArr s b)"
  by (simp_all add: cfg_viewD [OF frame_ranged_field])

lemma Config_param_encConst:
  "encConst (tmcArr (snd (Config_param E b idx s)) b) =
     (if strncmp0 (motParamsIDList ! nat idx) ''ECON'' 4 then motorParam b s idx
      else encConst (tmcArr s b))"
  unfolding Config_param_def
  apply (rule copies_LetI [where P = "\<lambda>r. encConst (tmcArr (snd r) b) = _"])+
  apply (intro copies_ifI [where P = "\<lambda>r. encConst (tmcArr (snd r) b) = _"])
  apply (simp_all add: ranged_field_copies upd_tmc_copies seq_def split_beta bool.case_eq_if
      strncmp0_def cfg_viewD [OF frame_prims(8)] cfg_viewD [OF frame_InRange(2)]
      cfg_viewD [OF frame_Find(2)])
  done


lemma Config_param_maxIterations:
  "maxIterations (tmcArr (snd (Config_param E b idx s)) b) =
     (if strncmp0 (motParamsIDList ! nat idx) ''EMAX'' 4 then motorParam b s idx
      else maxIterations (tmcArr s b))"
  unfolding Config_param_def
  apply (rule copies_LetI [where P = "\<lambda>r. maxIterations (tmcArr (snd r) b) = _"])+
  apply (intro copies_ifI [where P = "\<lambda>r. maxIterations (tmcArr (snd r) b) = _"])
  apply (simp_all add: ranged_field_copies upd_tmc_copies seq_def split_beta bool.case_eq_if
      strncmp0_def cfg_viewD [OF frame_prims(8)] cfg_viewD [OF frame_InRange(2)]
      cfg_viewD [OF frame_Find(2)])
  done

lemma Config_loop_par: "par_view (snd (Config_loop E b idxs s)) = par_view s"
  by (induction idxs arbitrary: s) (simp_all add: split_beta Config_param_par)

lemma Config_loop_copies:
  assumes "fst (Config_loop E b idxs s) = ERR_None"
    and "\<forall>i\<in>set idxs. strncmp0 (motParamsIDList ! nat i) ''ECON'' 4 \<longleftrightarrow> i = 19"
    and "\<forall>i\<in>set idxs. strncmp0 (motParamsIDList ! nat i) ''EMAX'' 4 \<longleftrightarrow> i = 22"
  shows "encConst (tmcArr (snd (Config_loop E b idxs s)) b) =
           (if 19 \<in> set idxs then motorParam b s 19 else encConst (tmcArr s b)) \<and>
         maxIterations (tmcArr (snd (Config_loop E b idxs s)) b) =
           (if 22 \<in> set idxs then motorParam b s 22 else maxIterations (tmcArr s b))"
  using assms
proof (induction idxs arbitrary: s)
  case Nil
  then show ?case by simp
next
  case (Cons k rest)
  define r where "r = Config_param E b k s"
  have loop: "Config_loop E b (k # rest) s =
                (if fst r = ERR_None then Config_loop E b rest (snd r) else (fst r, snd r))"
    by (simp add: r_def split_beta)
  have ok1: "fst r = ERR_None"
    using Cons.prems(1) unfolding loop by (cases "fst r = ERR_None") simp_all
  then have run: "Config_loop E b (k # rest) s = Config_loop E b rest (snd r)"
    unfolding loop by simp
  have ok2: "fst (Config_loop E b rest (snd r)) = ERR_None"
    using Cons.prems(1) unfolding run .
  have n2: "\<forall>i\<in>set rest. strncmp0 (motParamsIDList ! nat i) ''ECON'' 4 \<longleftrightarrow> i = 19"
   and n3: "\<forall>i\<in>set rest. strncmp0 (motParamsIDList ! nat i) ''EMAX'' 4 \<longleftrightarrow> i = 22"
    using Cons.prems(2,3) by simp_all
  have k2: "strncmp0 (motParamsIDList ! nat k) ''ECON'' 4 \<longleftrightarrow> k = 19"
   and k3: "strncmp0 (motParamsIDList ! nat k) ''EMAX'' 4 \<longleftrightarrow> k = 22"
    using Cons.prems(2,3) by simp_all
  have mp: "motorParam b (snd r) = motorParam b s"
    unfolding r_def using par_viewD [OF Config_param_par] by blast
  have c1: "encConst (tmcArr (snd r) b) = (if k = 19 then motorParam b s k else encConst (tmcArr s b))"
    unfolding r_def Config_param_encConst k2 ..
  have c2: "maxIterations (tmcArr (snd r) b) =
              (if k = 22 then motorParam b s k else maxIterations (tmcArr s b))"
    unfolding r_def Config_param_maxIterations k3 ..
  note IH = Cons.IH [OF ok2 n2 n3]
  have e: "encConst (tmcArr (snd (Config_loop E b (k # rest) s)) b) =
             (if 19 \<in> set (k # rest) then motorParam b s 19 else encConst (tmcArr s b))"
    unfolding run using IH c1 by (cases "k = 19") (simp_all add: mp)
  have m: "maxIterations (tmcArr (snd (Config_loop E b (k # rest) s)) b) =
             (if 22 \<in> set (k # rest) then motorParam b s 22 else maxIterations (tmcArr s b))"
    unfolding run using IH c2 by (cases "k = 22") (simp_all add: mp)
  show ?case using e m by blast
qed

lemma paramIndices_list:
  "paramIndices = [0, 1, 2, 3, 4, 5, 6, 7, 8, 9, 10, 11, 12, 13, 14, 15, 16, 17, 18, 19, 20, 21,
                   22, 23, 24, 25, 26, 27, 28, 29, 30, 31, 32, 33]"
  by (simp add: paramIndices_def MOTORS_NUM_PARAMS_def upto_rec1)

lemma paramIndices_names:
  "\<forall>i\<in>set paramIndices. strncmp0 (motParamsIDList ! nat i) ''ECON'' 4 \<longleftrightarrow> i = 19"
  "\<forall>i\<in>set paramIndices. strncmp0 (motParamsIDList ! nat i) ''EMAX'' 4 \<longleftrightarrow> i = 22"
  "19 \<in> set paramIndices" "22 \<in> set paramIndices"
  by (simp_all add: paramIndices_list motParamsIDList_def strncmp0_def)

section \<open>The claims\<close>

text \<open>
  Claim C5. For every valid axis \<open>a\<close> (0..3), every parameter index \<open>i\<close> of the
  34-entry table and every 32-bit value \<open>v\<close>, setting the motor parameter succeeds and
  getting it afterwards returns exactly \<open>v\<close>, whatever the value: the store neither
  validates nor clamps.
\<close>

theorem C5_set_then_get_motor_param:
  assumes "0 \<le> a" and "a < MAXNUMMOTORS" and "0 \<le> i" and "i < MOTORS_NUM_PARAMS"
  shows "fst (SetMotorParams a i v p) = ERR_None \<and>
         GetMotorParams a i v0 (snd (SetMotorParams a i v p)) =
           (ERR_None, v, snd (SetMotorParams a i v p))"
  using assms by (simp add: SetMotorParams_def GetMotorParams_def IsValidMotor_def)

theorem C5_witness:
  "(0::int) \<le> 2 \<and> 2 < MAXNUMMOTORS \<and> (0::int) \<le> 2 \<and> 2 < MOTORS_NUM_PARAMS \<and>
   fst (SetMotorParams 2 2 40 (params boot_state)) = ERR_None \<and>
   fst (snd (GetMotorParams 2 2 0 (snd (SetMotorParams 2 2 40 (params boot_state))))) = 40 \<and>
   fst (snd (GetMotorParams 3 33 0 (snd (SetMotorParams 3 33 (- 1) (params boot_state))))) = - 1"
  using C5_set_then_get_motor_param [of 2 2 40 "params boot_state" 0]
        C5_set_then_get_motor_param [of 3 33 "- 1" "params boot_state" 0]
  by (simp add: MAXNUMMOTORS_def MOTORS_NUM_PARAMS_def)



text \<open>
  Claim C4. For every axis and every requested position or velocity, if the axis is disabled or
  homing, \<^verbatim>\<open>Motors::MoveToPos\<close> and \<^verbatim>\<open>Motors::MoveAtVel\<close> return the error code of the
  motor layer and leave the motion state of every axis (enabled, moving, homing, searching,
  target, setpoint, iterations left) as it was.
\<close>

theorem C4_move_on_disabled_or_homing_axis:
  assumes "isMotorEnabled (motors s) board = 0 \<or> isMotorHoming (motors s) board \<noteq> 0"
  shows "fst (Motors_MoveToPos E board pos setVel s) = ERR_Motor \<and>
         MotionState (snd (Motors_MoveToPos E board pos setVel s)) = MotionState s \<and>
         fst (Motors_MoveAtVel E now board v s) = ERR_Motor \<and>
         MotionState (snd (Motors_MoveAtVel E now board v s)) = MotionState s"
  using assms by (simp add: MoveToPos_rejected MoveAtVel_rejected)

theorem C4_witness:
  "(isMotorEnabled (motors boot_state) 0 = 0 \<or> isMotorHoming (motors boot_state) 0 \<noteq> 0) \<and>
   fst (Motors_MoveToPos bench_env 0 100 1 boot_state) = ERR_Motor \<and>
   MotionState (snd (Motors_MoveToPos bench_env 0 100 1 boot_state)) = MotionState boot_state \<and>
   fst (Motors_MoveAtVel bench_env 7 0 100 boot_state) = ERR_Motor \<and>
   MotionState (snd (Motors_MoveAtVel bench_env 7 0 100 boot_state)) = MotionState boot_state \<and>
   isMotorEnabled (motors (set_isMotorHoming 0 1 bench_state)) 0 \<noteq> 0 \<and>
   isMotorHoming (motors (set_isMotorHoming 0 1 bench_state)) 0 \<noteq> 0 \<and>
   fst (Motors_MoveToPos bench_env 0 100 1 (set_isMotorHoming 0 1 bench_state)) = ERR_Motor"
  using C4_move_on_disabled_or_homing_axis [of boot_state 0 bench_env 100 1 7 100]
        C4_move_on_disabled_or_homing_axis [of "set_isMotorHoming 0 1 bench_state" 0 bench_env 100 1 7 100]
  by (simp add: bench_flags set_isMotorHoming_def)

text \<open>
  Claim C9, as the code has it. \<^verbatim>\<open>Motors::SetRemoteEnabled\<close> on a single axis (not \<open>-1\<close>)
  always returns \<open>ERR_None\<close>. On an inactive or undefined axis it does nothing: the whole
  state, and so the remote-controlled flag of every axis, is unchanged. On an active axis it
  stores the requested state in the flag of that axis and leaves the flags of the others; so
  disabling remote control of an active axis always succeeds.
\<close>

theorem C9_SetRemoteEnabled_single_axis:
  assumes "board \<noteq> -1"
  shows "fst (Motors_SetRemoteEnabled board state s) = ERR_None \<and>
         (\<not> isActive board s \<longrightarrow> snd (Motors_SetRemoteEnabled board state s) = s) \<and>
         (isActive board s \<longrightarrow>
            isRemoteControlled (motors (snd (Motors_SetRemoteEnabled board state s)))
              = (isRemoteControlled (motors s))(board := state))"
  using assms by (simp add: Motors_SetRemoteEnabled_def)

text \<open>
  The claim as stated asks for an error on an inactive axis. Axis 2 is absent after boot, and
  taking remote control of it is reported as a success.
\<close>

theorem C9_counterexample:
  "\<not> isActive 2 boot_state \<and> fst (Motors_SetRemoteEnabled 2 1 boot_state) = ERR_None"
  by (simp add: Motors_SetRemoteEnabled_def bench_flags)

theorem C9_witness:
  "(2::int) \<noteq> -1 \<and> \<not> isActive 2 boot_state \<and> isActive 0 boot_state \<and>
   Motors_SetRemoteEnabled 2 1 boot_state = (ERR_None, boot_state) \<and>
   fst (Motors_SetRemoteEnabled 0 0 boot_state) = ERR_None \<and>
   isRemoteControlled (motors (snd (Motors_SetRemoteEnabled 0 0 boot_state))) 0 = 0"
  using C9_SetRemoteEnabled_single_axis [of 2 1 boot_state]
        C9_SetRemoteEnabled_single_axis [of 0 0 boot_state]
  by (simp add: bench_flags prod_eq_iff)





text \<open>
  Claim C2, as the code has it. Take an active, enabled axis in closed-loop search (not homing)
  whose status poll returns no error and reports the motion done, with the absolute deviation of
  the encoder from the target within the tolerance. Then moving becomes 0; searching becomes 0
  when the number of tries is bounded (\<open>iterationsLeft\<close> is not \<open>-1\<close>) and stays as it is
  when it is unlimited; and if the reset flag is set, the actual and the target position of the
  driver are forced to the measured encoder position (the velocity register is restored),
  otherwise the chip is left alone.
\<close>

theorem C2_closed_loop_within_tolerance:
  assumes act: "isActive z s"
    and en: "isMotorEnabled (motors s) z \<noteq> 0"
    and nh: "isMotorHoming (motors s) z = 0"
    and se: "isMotorSearching (motors s) z \<noteq> 0"
    and cs: "CheckStatus E now z done0 s = (ERR_None, dn, s1)"
    and dn: "dn \<noteq> 0"
    and enc: "enc = encoder_reading z s1"
    and tol: "abs32 (enc - targetPosition (motors s) z) \<le>s tolerance (tmcArr s z)"
  shows
    "let s' = snd (status_poll E now z ((done0, currPos0), s))
     in isMotorMoving (motors s') z = 0 \<and>
        (iterationsLeft (motors s) z \<noteq> -1 \<longrightarrow> isMotorSearching (motors s') z = 0) \<and>
        (iterationsLeft (motors s) z = -1 \<longrightarrow>
           isMotorSearching (motors s') z = isMotorSearching (motors s) z) \<and>
        (resetXafterCL (tmcArr s z) \<noteq> 0 \<longrightarrow>
           (hwMotorType z s = MOTOR_TMC \<longrightarrow>
              regs (hw s' z) TMC5240_XACTUAL = enc \<and>
              regs (hw s' z) TMC5240_XTARGET = enc \<and>
              regs (hw s' z) TMC5240_VMAX = regs (hw s z) TMC5240_VMAX) \<and>
           (hwMotorType z s = MOTOR_SIM \<longrightarrow>
              xact (sim z s') = enc \<and> xtar (sim z s') = enc)) \<and>
        (resetXafterCL (tmcArr s z) = 0 \<longrightarrow> hw s' = hw s \<and> tmcArr s' = tmcArr s1)"
proof -
  define s2 where "s2 = set_isMotorMoving z 0 s1"
  note ok = CheckStatus_ok_result [OF cs nh]
  have s2: "iterationsLeft (motors s2) = iterationsLeft (motors s)"
    "isMotorSearching (motors s2) = isMotorSearching (motors s)"
    "tmcArr s2 = tmcArr s1" "hw s2 = hw s" "hwMotorType z s2 = hwMotorType z s"
    "resetXafterCL (tmcArr s2 z) = resetXafterCL (tmcArr s z)"
    by (simp_all add: s2_def set_moving_views ok)
  have r: "snd (status_poll E now z ((done0, currPos0), s)) = search_reached z enc s2"
    using status_poll_reached [OF act en nh se cs dn] tol by (simp add: enc s2_def)
  show ?thesis
    using search_reached_reset [of s2 z enc] search_reached_no_reset [of s2 z enc]
    by (simp add: Let_def r search_reached_flags s2 ok)
qed

text \<open>
  The claim as stated lets every search stop within the tolerance. In \<open>hold_state\<close> the
  number of tries is unlimited: the poll finds the encoder 3 steps from the target, within the
  tolerance of 5, and the searching flag is still set afterwards.
\<close>

theorem C2_counterexample:
  "isActive 0 hold_state \<and> isMotorEnabled (motors hold_state) 0 \<noteq> 0 \<and>
   isMotorHoming (motors hold_state) 0 = 0 \<and> isMotorSearching (motors hold_state) 0 = 1 \<and>
   CheckStatus bench_env 20 0 0 hold_state = (ERR_None, 1, hold_state) \<and>
   abs32 (encoder_reading 0 hold_state - targetPosition (motors hold_state) 0)
     \<le>s tolerance (tmcArr hold_state 0) \<and>
   isMotorSearching (motors (snd (status_poll bench_env 20 0 ((0, 0), hold_state)))) 0 = 1"
proof -
  have t: "abs32 (encoder_reading 0 hold_state - targetPosition (motors hold_state) 0)
             \<le>s tolerance (tmcArr hold_state 0)"
    by (simp add: hold_state_facts abs32_def word_sless_alt word_sle_eq)
  have "snd (status_poll bench_env 20 0 ((0, 0), hold_state)) =
          search_reached 0 (encoder_reading 0 hold_state) (set_isMotorMoving 0 0 hold_state)"
    by (rule status_poll_reached [OF _ _ _ _ hold_state_CheckStatus _ t])
       (simp_all add: hold_state_facts)
  then show ?thesis
    using t by (simp add: hold_state_facts hold_state_CheckStatus search_reached_flags
        set_moving_views)
qed

theorem C2_witness:
  "isActive 0 (search_state 1003 1) \<and>
   isMotorSearching (motors (search_state 1003 1)) 0 \<noteq> 0 \<and>
   CheckStatus bench_env 20 0 0 (search_state 1003 1) = (ERR_None, 1, search_state 1003 1) \<and>
   abs32 (1003 - targetPosition (motors (search_state 1003 1)) 0)
     \<le>s tolerance (tmcArr (search_state 1003 1) 0) \<and>
   isMotorMoving (motors (snd (status_poll bench_env 20 0 ((0, 0), search_state 1003 1)))) 0 = 0 \<and>
   isMotorSearching (motors (snd (status_poll bench_env 20 0 ((0, 0), search_state 1003 1)))) 0 = 0 \<and>
   resetXafterCL (tmcArr hold_state 0) \<noteq> 0 \<and>
   regs (hw (snd (status_poll bench_env 20 0 ((0, 0), hold_state))) 0) TMC5240_XACTUAL = 1003 \<and>
   regs (hw (snd (status_poll bench_env 20 0 ((0, 0), hold_state))) 0) TMC5240_XTARGET = 1003"
proof -
  have t: "abs32 (1003 - targetPosition (motors (search_state 1003 1)) 0)
             \<le>s tolerance (tmcArr (search_state 1003 1) 0)"
     "abs32 (1003 - targetPosition (motors hold_state) 0) \<le>s tolerance (tmcArr hold_state 0)"
    by (simp_all add: search_state_facts hold_state_facts abs32_def word_sless_alt word_sle_eq)
  show ?thesis
    using C2_closed_loop_within_tolerance [of 0 "search_state 1003 1" bench_env 20 0 1
            "search_state 1003 1" 1003 0]
          C2_closed_loop_within_tolerance [of 0 hold_state bench_env 20 0 1 hold_state 1003 0]
          t
    by (simp add: search_state_facts hold_state_facts search_state_CheckStatus
        hold_state_CheckStatus Let_def)
qed




subsection \<open>C7: host commands for an axis under remote control\<close>

text \<open>
  Claim C7 says that every \<^verbatim>\<open>SMC_MPOS\<close>, \<^verbatim>\<open>SMC_MVEL\<close>, \<^verbatim>\<open>SMC_HOME\<close> and
  \<^verbatim>\<open>SMS_*\<close> command for an axis whose remote-controlled flag is 1 fails with a
  remote-locked error and does not change motor state. The code makes one exception, on
  purpose: \<^verbatim>\<open>TMC::SetStatusValue\<close> handles \<^verbatim>\<open>ENAB\<close> before it looks at the flag
  (``the rest of the settings are only allowed if not remote controlled''), so the host can
  always switch a driver on and off. \<open>C7_counterexample\<close>: on axis 1 of \<open>remote_state\<close>,
  which is active, enabled and remote-controlled, the line \<^verbatim>\<open>SMS_ENAB1,0\<close> is answered
  with \<^verbatim>\<open>ERROR=0\<close> and the axis ends disabled.
\<close>

theorem C7_counterexample:
  "isActive 1 remote_state \<and> isRemoteControlled (motors remote_state) 1 \<noteq> 0 \<and>
   isMotorEnabled (motors remote_state) 1 = 1 \<and>
   CheckSerialCommand bench_env skip_others 100
     (host_sends (''SMS_ENAB1,0'' @ [SERIAL_TERMCHAR]) remote_state)
     = Some (ReportErrorCode ERR_None (snd (TMC_SetEnable bench_env 1 0 remote_state))) \<and>
   serial_out (serial (ReportErrorCode ERR_None (snd (TMC_SetEnable bench_env 1 0 remote_state))))
     = ''ERROR=0'' @ [CHR 0x0D, CHR 0x0A] \<and>
   isMotorEnabled
     (motors (ReportErrorCode ERR_None (snd (TMC_SetEnable bench_env 1 0 remote_state)))) 1 = 0"
proof -
  let ?s = "host_sends (''SMS_ENAB1,0'' @ [SERIAL_TERMCHAR]) remote_state"
  have line: "serial_line bench_env skip_others 100 ''SMS_ENAB1,0'' remote_state
                = cmd_SMS bench_env ''SMS_ENAB1,0'' remote_state"
    using serial_line_SMS [of "''ENAB''" "''SMS_ENAB1,0''" 1 0 bench_env skip_others 100 remote_state]
    by (simp add: scan_examples cstr_def)
  have flags: "isActive 1 remote_state" "isRemoteControlled (motors remote_state) 1 = 1"
      "hwMotorType 1 remote_state = MOTOR_SIM"
    using remote_state_host(4,6,8) [of "[]"] by (simp_all add: host_sends_def)
  have run: "CheckSerialCommand bench_env skip_others 100 ?s
               = Some (ReportErrorCode ERR_None (snd (TMC_SetEnable bench_env 1 0 remote_state)))"
    by (simp add: CheckSerialCommand_def remote_state_host readBytesUntil_def SERIAL_TERMCHAR_def
        SERIAL_MSG_MAXLENGTH_def line cmd_SMS_def
        motStatIDList_def strncmp0_def scan_examples report_def Motors_SetStatusValue_def
        isActive_sysIsActiveMotor flags TMC_SetStatusValue_def)
  have out: "serial_out (serial (snd (TMC_SetEnable bench_env 1 0 remote_state))) = []"
      "isMotorEnabled (motors (snd (TMC_SetEnable bench_env 1 0 remote_state))) 1 = 0"
    by (simp_all add: TMC_SetEnable_def flags Let_def set_isMotorEnabled_def upd_sim_def
        upd_tmc_def)
       (simp_all add: remote_state_def bench_state_def boot_state_def)
  show ?thesis
    using run by (simp add: reply_text show_error_code out flags remote_state_host)
qed

text \<open>
  Claim C7, amended. Take a call of \<^verbatim>\<open>CheckSerialCommand\<close> that is due and reads the line
  \<open>serialData\<close> from the host, and an active axis \<open>z\<close> whose remote-controlled flag is
  set. If the line is \<^verbatim>\<open>SMC_MPOS\<close>, \<^verbatim>\<open>SMC_MVEL\<close> or \<^verbatim>\<open>SMC_HOME\<close> for \<open>z\<close>, the
  call reports \<^verbatim>\<open>ERR_Serial\<close> and records ``Motor is under remote control'' in the serial
  error message; if it is \<^verbatim>\<open>SMS_<name>\<close> for \<open>z\<close> with a status name other than
  \<^verbatim>\<open>ENAB\<close>, the call reports \<^verbatim>\<open>ERR_Motor\<close> and records the same text as the error of
  board \<open>z\<close>. In both cases the line is consumed and nothing else changes: no flag of the
  axis, no position, no register, and the remote-controlled flag itself, so the next command
  is refused in the same way. (Neither records its text when an earlier error is pending.)
\<close>

theorem C7_remote_controlled_axis_locks_host_commands:
  assumes due: "SERIAL_CHECK_INTERVAL_MS < now - lastCheckTime (serial s)"
      and some: "serial_in (serial s) \<noteq> []"
      and read: "readBytesUntil SERIAL_TERMCHAR SERIAL_MSG_MAXLENGTH (serial_in (serial s))
                   = (serialData, rest)"
      and active: "isActive z s"
      and locked: "isRemoteControlled (motors s) z \<noteq> 0"
  shows "(sscanf_board_value ''SMC_MPOS'' scan_hhi (CHR '','') (cstr serialData) = Some (z, v) \<or>
          sscanf_board_value ''SMC_MVEL'' scan_hhi (CHR '','') (cstr serialData) = Some (z, v) \<or>
          sscanf_board ''SMC_HOME'' scan_hhi (cstr serialData) = Some z \<longrightarrow>
          CheckSerialCommand E others now s =
            Some (ReportErrorCode ERR_Serial
                    (Serial_SetErrorMsg ''Motor is under remote control''
                       (s\<lparr>serial := (serial s)\<lparr>serial_in := rest\<rparr>\<rparr>))))
       \<and> (name \<in> set motStatIDList \<and> name \<noteq> ''ENAB'' \<and>
          sscanf_board_value (''SMS_'' @ name) scan_hhd (CHR '','') (cstr serialData) = Some (z, v) \<longrightarrow>
          CheckSerialCommand E others now s =
            Some (ReportErrorCode ERR_Motor
                    (TMC_SetErrorMsg z ''Motor is under remote control''
                       (s\<lparr>serial := (serial s)\<lparr>serial_in := rest\<rparr>\<rparr>))))"
proof -
  define s1 where "s1 = s\<lparr>serial := (serial s)\<lparr>serial_in := rest\<rparr>\<rparr>"
  have run: "CheckSerialCommand E others now s = serial_line E others now serialData s1"
    using due some read by (simp add: CheckSerialCommand_def s1_def)
  have a1: "isActive z s1" and l1: "isRemoteControlled (motors s1) z \<noteq> 0"
    using active locked by (simp_all add: s1_def serial_upd_views)
  have rng: "0 \<le> z" "z < MAXNUMMOTORS" using isActive_range [OF active] by simp_all
  have crc: "CheckRemoteControl z s1 =
               Some (ERR_Serial, Serial_SetErrorMsg ''Motor is under remote control'' s1)"
    using CheckRemoteControl_locked [OF rng l1] .
  have mpos: "serial_line E others now serialData s1 =
                Some (ReportErrorCode ERR_Serial
                        (Serial_SetErrorMsg ''Motor is under remote control'' s1))"
    if "sscanf_board_value ''SMC_MPOS'' scan_hhi (CHR '','') (cstr serialData) = Some (z, v)"
    using that by (simp add: serial_line_MPOS [OF that] cmd_SMC_MPOS_def crc report_def)
  have mvel: "serial_line E others now serialData s1 =
                Some (ReportErrorCode ERR_Serial
                        (Serial_SetErrorMsg ''Motor is under remote control'' s1))"
    if "sscanf_board_value ''SMC_MVEL'' scan_hhi (CHR '','') (cstr serialData) = Some (z, v)"
    using that by (simp add: serial_line_MVEL [OF that] cmd_SMC_MVEL_def crc report_def)
  have home: "serial_line E others now serialData s1 =
                Some (ReportErrorCode ERR_Serial
                        (Serial_SetErrorMsg ''Motor is under remote control'' s1))"
    if "sscanf_board ''SMC_HOME'' scan_hhi (cstr serialData) = Some z"
    using that by (simp add: serial_line_HOME [OF that] cmd_SMC_HOME_def crc report_def)
  have sms: "serial_line E others now serialData s1 =
               Some (ReportErrorCode ERR_Motor
                       (TMC_SetErrorMsg z ''Motor is under remote control'' s1))"
    if n: "name \<in> set motStatIDList" "name \<noteq> ''ENAB''"
      and sc: "sscanf_board_value (''SMS_'' @ name) scan_hhd (CHR '','') (cstr serialData) = Some (z, v)"
  proof -
    have len: "length name = 4" using n(1) by (auto simp: motStatIDList_def)
    have p: "take 8 (cstr serialData) = ''SMS_'' @ name"
      using sscanf_board_value_prefix [OF sc, of 8] len by simp
    obtain idx where idx: "find_name (drop 4 (cstr serialData)) motStatIDList 0 = Some idx"
        "motStatIDList ! nat idx = name"
      using SMS_name_index [OF n p] by blast
    have ne: "\<not> strncmp0 (motStatIDList ! nat idx) ''ENAB'' 4"
      using n len by (simp add: idx(2) strncmp0_def)
    show ?thesis
      using sc
      by (simp add: serial_line_SMS [OF sc len] cmd_SMS_def idx report_def
          SetStatusValue_locked [OF a1 l1 ne])
  qed
  show ?thesis
    unfolding run s1_def [symmetric] using mpos mvel home sms by blast
qed

theorem C7_witness:
  "CheckSerialCommand bench_env skip_others 100
     (host_sends (''SMC_MPOS0,100'' @ [SERIAL_TERMCHAR]) remote_state)
     = Some (ReportErrorCode ERR_Serial
               (Serial_SetErrorMsg ''Motor is under remote control'' remote_state)) \<and>
   CheckSerialCommand bench_env skip_others 100
     (host_sends (''SMC_MVEL0,-5'' @ [SERIAL_TERMCHAR]) remote_state)
     = Some (ReportErrorCode ERR_Serial
               (Serial_SetErrorMsg ''Motor is under remote control'' remote_state)) \<and>
   CheckSerialCommand bench_env skip_others 100
     (host_sends (''SMC_HOME0'' @ [SERIAL_TERMCHAR]) remote_state)
     = Some (ReportErrorCode ERR_Serial
               (Serial_SetErrorMsg ''Motor is under remote control'' remote_state)) \<and>
   CheckSerialCommand bench_env skip_others 100
     (host_sends (''SMS_XTAR0,100'' @ [SERIAL_TERMCHAR]) remote_state)
     = Some (ReportErrorCode ERR_Motor
               (TMC_SetErrorMsg 0 ''Motor is under remote control'' remote_state)) \<and>
   serial_out (serial (ReportErrorCode ERR_Serial
               (Serial_SetErrorMsg ''Motor is under remote control'' remote_state)))
     = ''ERROR=-1'' @ [CHR 0x0D, CHR 0x0A]"
  using
    C7_remote_controlled_axis_locks_host_commands [where now = 100 and s = "host_sends (''SMC_MPOS0,100'' @ [SERIAL_TERMCHAR]) remote_state"
          and serialData = "''SMC_MPOS0,100''" and rest = "[]" and z = 0 and v = 100
          and name = "''XTAR''" and E = bench_env and others = skip_others]
    C7_remote_controlled_axis_locks_host_commands [where now = 100 and s = "host_sends (''SMC_MVEL0,-5'' @ [SERIAL_TERMCHAR]) remote_state"
          and serialData = "''SMC_MVEL0,-5''" and rest = "[]" and z = 0 and v = "- 5"
          and name = "''XTAR''" and E = bench_env and others = skip_others]
    C7_remote_controlled_axis_locks_host_commands [where now = 100 and s = "host_sends (''SMC_HOME0'' @ [SERIAL_TERMCHAR]) remote_state"
          and serialData = "''SMC_HOME0''" and rest = "[]" and z = 0 and v = 0
          and name = "''XTAR''" and E = bench_env and others = skip_others]
    C7_remote_controlled_axis_locks_host_commands [where now = 100 and s = "host_sends (''SMS_XTAR0,100'' @ [SERIAL_TERMCHAR]) remote_state"
          and serialData = "''SMS_XTAR0,100''" and rest = "[]" and z = 0 and v = 100
          and name = "''XTAR''" and E = bench_env and others = skip_others]
  by (simp add: remote_state_host readBytesUntil_def SERIAL_TERMCHAR_def SERIAL_MSG_MAXLENGTH_def
      scan_examples cstr_def motStatIDList_def reply_text show_error_code)


subsection \<open>C8: a frame from the remote unit with a bad checksum\<close>



end
